theory Spec2Isabelle
  imports Main
begin

section \<open>Conversion of graph nodes to accelerator layers (convert\_nodes.cc)\<close>

text \<open>
  A shallow embedding of the parts of
  \<^verbatim>\<open>tensorflow/contrib/tensorrt/convert/convert_nodes.cc\<close> that the verified
  properties are about. Every C++ function is a HOL function of the same name. A
  \<^verbatim>\<open>tensorflow::Status\<close> is its error code (the message strings are left out,
  no property reads them). What stops the C++ program instead of returning (a failed
  \<^verbatim>\<open>CHECK\<close>, a null pointer that is dereferenced, an index out of range) is a
  value of the type \<open>fault\<close>, on the left of a sum.
\<close>

subsection \<open>Status codes and faults\<close>

datatype Status =
  OK | InvalidArgument | NotFound | AlreadyExists | Unimplemented | Internal
  | FailedPrecondition | OutOfRange

definition ok :: "Status \<Rightarrow> bool" where
  "ok s = (s = OK)"

datatype fault = CheckFailed | NullDereference | IndexOutOfRange | BadFunctionCall

subsection \<open>C++ integer arithmetic\<close>

text \<open>
  Integers are mathematical integers; the places where C++ differs are written out:
  division truncates towards zero, the conversion of a 64-bit value to \<^verbatim>\<open>int\<close>
  keeps the low 32 bits (two's complement), and a product accumulated in an
  \<^verbatim>\<open>int64_t\<close> keeps the low 64 bits.
\<close>

definition cpp_div :: "int \<Rightarrow> int \<Rightarrow> int" where
  "cpp_div a b = sgn a * sgn b * (\<bar>a\<bar> div \<bar>b\<bar>)"

definition to_int32 :: "int \<Rightarrow> int" where
  "to_int32 x = (x + 2 ^ 31) mod 2 ^ 32 - 2 ^ 31"

definition to_int64 :: "int \<Rightarrow> int" where
  "to_int64 x = (x + 2 ^ 63) mod 2 ^ 64 - 2 ^ 63"

definition INT32_MAX :: int where
  "INT32_MAX = 2 ^ 31 - 1"

definition INT64_MAX :: int where
  "INT64_MAX = 2 ^ 63 - 1"

subsection \<open>nvinfer1::Dims\<close>

text \<open>
  \<^verbatim>\<open>nvinfer1::Dims\<close> is a rank \<open>nbDims\<close> and an array \<open>d\<close> of \<open>MAX_DIMS\<close>
  sizes, of which the first \<open>nbDims\<close> are meaningful. The array is the list \<open>d_arr\<close>;
  entries the C++ code never wrote are not represented, so the list may be shorter than
  \<open>MAX_DIMS\<close> but, for a well-formed value, not shorter than \<open>nbDims\<close>.
  \<open>MAX_DIMS\<close> is the constant of the accelerator's header (NvInfer.h), which is 8.
\<close>

record Dims =
  nbDims :: int
  d_arr :: "int list"

definition MAX_DIMS :: nat where
  "MAX_DIMS = 8"

definition wf_Dims :: "Dims \<Rightarrow> bool" where
  "wf_Dims dims = (0 \<le> nbDims dims \<and> nbDims dims \<le> int MAX_DIMS \<and> nat (nbDims dims) \<le> length (d_arr dims))"

text \<open>The sizes a \<open>Dims\<close> value means: the first \<open>nbDims\<close> entries of its array.\<close>

definition dims_of :: "Dims \<Rightarrow> int list" where
  "dims_of dims = take (nat (nbDims dims)) (d_arr dims)"

subsection \<open>CreateSamePadding\<close>

text \<open>
  One iteration of the loop of \<^verbatim>\<open>CreateSamePadding\<close>. \<open>input_dims[i]\<close> is a 64-bit
  integer, \<open>stride.d[i]\<close> and \<open>kernel.d[i]\<close> are \<^verbatim>\<open>int\<close>; the formula is computed
  in 64 bits and stored in the \<^verbatim>\<open>int p\<close>.
\<close>

definition same_padding_axis :: "int \<Rightarrow> int \<Rightarrow> int \<Rightarrow> int \<times> int" where
  "same_padding_axis stride_i kernel_i input_i =
     (let p = to_int32 (cpp_div (input_i - 1) stride_i * stride_i + kernel_i - input_i);
          p = (if p > 0 then p else 0);
          left = cpp_div p 2;
          right = p - left
      in (left, right))"

text \<open>
  The whole function: \<^verbatim>\<open>CHECK_EQ(stride.nbDims, input_dims.size())\<close> stops the program
  when the ranks differ; otherwise one pair per axis.
\<close>

definition CreateSamePadding :: "Dims \<Rightarrow> Dims \<Rightarrow> int list \<Rightarrow> fault + (int \<times> int) list" where
  "CreateSamePadding stride kernel_hw input_dims =
     (if nbDims stride \<noteq> int (length input_dims) then Inl CheckFailed
      else Inr (map (\<lambda>i. same_padding_axis (d_arr stride ! i) (d_arr kernel_hw ! i) (input_dims ! i))
                  [0..<length input_dims]))"

text \<open>\<open>nvinfer1::DimsHW\<close>: a \<open>Dims\<close> of rank 2.\<close>

definition DimsHW :: "int \<Rightarrow> int \<Rightarrow> Dims" where
  "DimsHW h w = \<lparr>nbDims = 2, d_arr = [h, w]\<rparr>"

subsection \<open>Shape utilities\<close>

text \<open>\<^verbatim>\<open>DimsEqual\<close>: equal ranks and equal sizes on every axis below the rank.\<close>

definition DimsEqual :: "Dims \<Rightarrow> Dims \<Rightarrow> bool" where
  "DimsEqual dim_l dim_r =
     (if nbDims dim_l \<noteq> nbDims dim_r then False
      else list_all (\<lambda>i. \<not> d_arr dim_l ! i \<noteq> d_arr dim_r ! i) [0..<nat (nbDims dim_l)])"

definition HasStaticShape :: "Dims \<Rightarrow> bool" where
  "HasStaticShape dims =
     (if nbDims dims < 0 then False
      else list_all (\<lambda>i. \<not> d_arr dims ! i < 0) [0..<nat (nbDims dims)])"

text \<open>
  \<^verbatim>\<open>TrtDimsNumElements\<close>: 0 for rank 0, otherwise the product of the sizes,
  accumulated from 1 in an \<^verbatim>\<open>int64_t\<close> counter: every multiplication wraps around at
  64 bits, so that four axes of size 65536 give 0.
\<close>

definition TrtDimsNumElements :: "Dims \<Rightarrow> int" where
  "TrtDimsNumElements dims =
     (if nbDims dims = 0 then 0
      else foldl (\<lambda>count i. to_int64 (count * d_arr dims ! i)) 1 [0..<nat (nbDims dims)])"

subsection \<open>TensorRTGetBroadcastShape\<close>

text \<open>
  \<^verbatim>\<open>std::memcpy(dst + off, src, n * element_size)\<close> on arrays of \<^verbatim>\<open>int\<close>: the
  \<open>n\<close> entries of \<open>dst\<close> from \<open>off\<close> on become the first \<open>n\<close> entries of \<open>src\<close>.
\<close>

definition memcpy_int :: "int list \<Rightarrow> nat \<Rightarrow> int list \<Rightarrow> nat \<Rightarrow> int list" where
  "memcpy_int dst off src n = take off dst @ take n src @ drop (off + n) dst"

text \<open>
  The feasibility loop \<^verbatim>\<open>for (int i = max_d - 1; i >= 0; i--)\<close>: the argument counts
  the indices still to visit, \<open>Suc i\<close> meaning that index \<open>i\<close> is visited next.
\<close>

fun compare_broadcast_feasibility :: "int list \<Rightarrow> int list \<Rightarrow> nat \<Rightarrow> bool" where
  "compare_broadcast_feasibility l_s r_s 0 = True"
| "compare_broadcast_feasibility l_s r_s (Suc i) =
     (if (l_s ! i \<noteq> r_s ! i) \<and> (l_s ! i \<noteq> 1) \<and> (r_s ! i \<noteq> 1) then False
      else compare_broadcast_feasibility l_s r_s i)"

text \<open>
  The function returns \<^verbatim>\<open>false\<close> (here \<open>None\<close>) or \<^verbatim>\<open>true\<close> with the two new
  shapes written through its output pointers (here \<open>Some\<close> of the pair). The C++ code is
  defined only when both ranks are within \<open>0..MAX_DIMS\<close> and the largest padded rank
  \<open>max_d\<close> is not 0 (with \<open>max_d = 0\<close> the last two \<^verbatim>\<open>memcpy\<close> calls get a negative
  size); the callers in this file pass at least one tensor operand, so that \<open>max_d \<ge> 1\<close>.
\<close>

definition TensorRTGetBroadcastShape ::
  "Dims \<Rightarrow> bool \<Rightarrow> Dims \<Rightarrow> bool \<Rightarrow> (Dims \<times> Dims) option" where
  "TensorRTGetBroadcastShape operand_l operand_l_is_tensor operand_r operand_r_is_tensor =
     (let max_nb_dims = MAX_DIMS + 1;
          l_s = replicate max_nb_dims 1;
          l_d = (if operand_l_is_tensor then nbDims operand_l + 1 else nbDims operand_l);
          r_s = replicate max_nb_dims 1;
          r_d = (if operand_r_is_tensor then nbDims operand_r + 1 else nbDims operand_r);
          max_d = max l_d r_d;
          l_s = memcpy_int l_s (nat (max_d - nbDims operand_l)) (d_arr operand_l) (nat (nbDims operand_l));
          r_s = memcpy_int r_s (nat (max_d - nbDims operand_r)) (d_arr operand_r) (nat (nbDims operand_r))
      in if operand_l_is_tensor \<and> max_d \<noteq> l_d then None
         else let l_s = (if operand_l_is_tensor then l_s[0 := - 1] else l_s)
          in if operand_r_is_tensor \<and> max_d \<noteq> r_d then None
         else let r_s = (if operand_r_is_tensor then r_s[0 := - 1] else r_s)
          in if \<not> compare_broadcast_feasibility l_s r_s (nat max_d) then None
         else Some (\<lparr>nbDims = max_d - 1, d_arr = take (nat (max_d - 1)) (drop 1 l_s)\<rparr>,
                    \<lparr>nbDims = max_d - 1, d_arr = take (nat (max_d - 1)) (drop 1 r_s)\<rparr>))"

text \<open>
  The resolver as the specification words it: both shapes right-aligned to the common
  padded rank, padded with 1 on the left, the batch slot of a tensor operand set to -1.
\<close>

definition aligned_shape :: "Dims \<Rightarrow> bool \<Rightarrow> nat \<Rightarrow> int list" where
  "aligned_shape operand as_tensor max_d =
     (let s = replicate (max_d - nat (nbDims operand)) 1 @ dims_of operand
      in if as_tensor then s[0 := - 1] else s)"

definition padded_rank :: "Dims \<Rightarrow> bool \<Rightarrow> int" where
  "padded_rank operand as_tensor = (if as_tensor then nbDims operand + 1 else nbDims operand)"

definition broadcast_spec :: "Dims \<Rightarrow> bool \<Rightarrow> Dims \<Rightarrow> bool \<Rightarrow> (Dims \<times> Dims) option" where
  "broadcast_spec operand_l l_is_tensor operand_r r_is_tensor =
     (let max_d = max (padded_rank operand_l l_is_tensor) (padded_rank operand_r r_is_tensor);
          l_s = aligned_shape operand_l l_is_tensor (nat max_d);
          r_s = aligned_shape operand_r r_is_tensor (nat max_d)
      in if (l_is_tensor \<and> padded_rank operand_l l_is_tensor \<noteq> max_d)
            \<or> (r_is_tensor \<and> padded_rank operand_r r_is_tensor \<noteq> max_d)
            \<or> (\<exists>i < nat max_d. l_s ! i \<noteq> r_s ! i \<and> l_s ! i \<noteq> 1 \<and> r_s ! i \<noteq> 1)
         then None
         else Some (\<lparr>nbDims = max_d - 1, d_arr = tl l_s\<rparr>, \<lparr>nbDims = max_d - 1, d_arr = tl r_s\<rparr>))"

subsection \<open>Calls that change state\<close>

text \<open>
  A C++ function that returns a \<^verbatim>\<open>Status\<close>, writes results through pointers and changes
  objects it was handed has one of three outcomes: the program stops (\<open>Crash\<close>), the
  function returns an error status (\<open>Fail\<close>, with the state as the function left it), or
  it returns \<^verbatim>\<open>Status::OK()\<close> (\<open>Done\<close>, with the values it wrote and the state).
\<close>

datatype ('s, 'v) call = Crash fault | Fail Status 's | Done 'v 's

subsection \<open>Element types\<close>

text \<open>
  The element types of the host framework this file distinguishes; \<open>DT_OTHER s\<close> stands
  for any other type, \<open>s\<close> being its \<^verbatim>\<open>DataTypeSize\<close>.
\<close>

datatype DataType = DT_FLOAT | DT_HALF | DT_INT8 | DT_INT16 | DT_INT32 | DT_UINT8 | DT_OTHER nat

datatype TrtDataType = kFLOAT | kHALF | kINT8 | kINT32

definition ConvertDType :: "DataType \<Rightarrow> Status + TrtDataType" where
  "ConvertDType tf_dtype =
     (case tf_dtype of
        DT_FLOAT \<Rightarrow> Inr kFLOAT
      | DT_INT8 \<Rightarrow> Inr kINT8
      | DT_HALF \<Rightarrow> Inr kHALF
      | DT_INT32 \<Rightarrow> Inr kINT32
      | _ \<Rightarrow> Inl InvalidArgument)"

subsection \<open>TRT\_ShapedWeights\<close>

text \<open>
  A weight blob: its shape, its element type and the contents of its buffer, one integer
  per element (the element as an \<^verbatim>\<open>int\<close> pointer reads it; for a floating-point type
  this is the bit pattern). A C++ member \<^verbatim>\<open>x_\<close> is the field \<open>x_m\<close>
  (\<open>values_m\<close> stands for the buffer of the member \<^verbatim>\<open>tensor_\<close>). Copies share the buffer in C++; no function embedded here
  writes to a buffer after another copy of the weights was taken, so the contents are
  held by value.
\<close>

record TRT_ShapedWeights =
  shape_m :: Dims
  type_m :: DataType
  values_m :: "int list"

text \<open>The constructor \<^verbatim>\<open>TRT_ShapedWeights(DataType type)\<close>: rank 0, no buffer.\<close>

definition TRT_ShapedWeights_of_type :: "DataType \<Rightarrow> TRT_ShapedWeights" where
  "TRT_ShapedWeights_of_type type = \<lparr>shape_m = \<lparr>nbDims = 0, d_arr = []\<rparr>, type_m = type, values_m = []\<rparr>"

definition count :: "TRT_ShapedWeights \<Rightarrow> int" where
  "count w = TrtDimsNumElements (shape_m w)"

text \<open>\<^verbatim>\<open>nvinfer1::Weights\<close>, and \<^verbatim>\<open>GetTrtWeights\<close> with its \<^verbatim>\<open>TF_CHECK_OK\<close>.\<close>

record Weights =
  w_type :: TrtDataType
  w_values :: "int list"
  w_count :: int

definition GetTrtWeights :: "TRT_ShapedWeights \<Rightarrow> fault + Weights" where
  "GetTrtWeights w =
     (case ConvertDType (type_m w) of
        Inl st \<Rightarrow> Inl CheckFailed
      | Inr trt_type \<Rightarrow> Inr \<lparr>w_type = trt_type, w_values = values_m w, w_count = count w\<rparr>)"

definition wf_weights :: "TRT_ShapedWeights \<Rightarrow> bool" where
  "wf_weights w = (wf_Dims (shape_m w) \<and> int (length (values_m w)) = count w)"

subsection \<open>Tensors of the accelerator network\<close>

text \<open>
  An \<^verbatim>\<open>nvinfer1::ITensor*\<close> is a value of \<open>ITensor option\<close> (\<open>None\<close> is the null
  pointer). The tensor object is its address together with the dimensions and element
  type that \<^verbatim>\<open>getDimensions()\<close> and \<^verbatim>\<open>getType()\<close> report; the code embedded here
  takes a tensor from a layer only after the layer is configured, so both are fixed when
  the pointer is obtained. The name of a tensor can change (\<^verbatim>\<open>setName\<close>); names are kept
  in the network, by address.
\<close>

record ITensor =
  tensor_addr :: nat
  tensor_dims :: Dims
  tensor_type :: TrtDataType

subsection \<open>TRT\_TensorOrWeights\<close>

record TRT_TensorOrWeights =
  tensor_m :: "ITensor option"
  tow_batch_size_m :: int
  weights_m :: TRT_ShapedWeights
  initialized_m :: bool
  is_tensor_m :: bool

text \<open>
  Modelled from the spec: the declaration of the class (convert\_nodes.h) is not among the
  sources. The converter's batch size is "initially unknown (negative sentinel)"; the
  default of a tensor's batch size is taken to be that sentinel, -1.
\<close>

definition unknown_batch_size :: int where
  "unknown_batch_size = - 1"

text \<open>The two constructors of convert\_nodes.cc.\<close>

definition TensorOrWeights_of_tensor :: "ITensor option \<Rightarrow> int \<Rightarrow> TRT_TensorOrWeights" where
  "TensorOrWeights_of_tensor tensor batch_size =
     \<lparr>tensor_m = tensor, tow_batch_size_m = batch_size, weights_m = TRT_ShapedWeights_of_type DT_FLOAT,
      initialized_m = True, is_tensor_m = True\<rparr>"

definition TensorOrWeights_of_weights :: "TRT_ShapedWeights \<Rightarrow> TRT_TensorOrWeights" where
  "TensorOrWeights_of_weights weights =
     \<lparr>tensor_m = None, tow_batch_size_m = unknown_batch_size, weights_m = weights,
      initialized_m = True, is_tensor_m = False\<rparr>"

text \<open>
  Modelled from the spec: the accessors are declared in convert\_nodes.h, which is not
  among the sources. "Exactly one variant is active (\<open>is_tensor\<close> xor \<open>is_weights\<close>)";
  \<open>tensor()\<close>, \<open>weights()\<close> and \<open>batch_size()\<close> read the fields.
\<close>

definition is_tensor :: "TRT_TensorOrWeights \<Rightarrow> bool" where
  "is_tensor tw = is_tensor_m tw"

definition is_weights :: "TRT_TensorOrWeights \<Rightarrow> bool" where
  "is_weights tw = (\<not> is_tensor_m tw)"

definition tensor :: "TRT_TensorOrWeights \<Rightarrow> ITensor option" where
  "tensor tw = tensor_m tw"

definition weights :: "TRT_TensorOrWeights \<Rightarrow> TRT_ShapedWeights" where
  "weights tw = weights_m tw"

definition batch_size :: "TRT_TensorOrWeights \<Rightarrow> int" where
  "batch_size tw = tow_batch_size_m tw"

definition set_batch_size :: "TRT_TensorOrWeights \<Rightarrow> int \<Rightarrow> TRT_TensorOrWeights" where
  "set_batch_size tw b = tw\<lparr>tow_batch_size_m := b\<rparr>"

text \<open>\<^verbatim>\<open>GetTrtDims\<close>: \<^verbatim>\<open>tensor()->getDimensions()\<close> dereferences the tensor pointer.\<close>

definition GetTrtDims :: "TRT_TensorOrWeights \<Rightarrow> fault + Dims" where
  "GetTrtDims tw =
     (if is_tensor tw then
        (case tensor tw of None \<Rightarrow> Inl NullDereference | Some t \<Rightarrow> Inr (tensor_dims t))
      else Inr (shape_m (weights tw)))"

subsection \<open>The accelerator network\<close>

datatype ScaleMode = kUNIFORM | kCHANNEL | kELEMENTWISE

datatype UnaryOperation = kEXP | kLOG | kSQRT | kRECIP | kABS | kNEG

datatype ElementWiseOperation = kSUM | kPROD | kMAX | kMIN | kSUB | kDIV | kPOW

text \<open>
  The layers the embedded converters add, each with the arguments of the \<^verbatim>\<open>add...\<close>
  call and, for a shuffle layer, what \<^verbatim>\<open>setFirstTranspose\<close> and
  \<^verbatim>\<open>setReshapeDimensions\<close> set right after it (the per-axis type tags of a
  \<open>Dims\<close> are not represented).
\<close>

datatype Layer =
    ShuffleLayer ITensor "int list option" "Dims option"
  | ConstantLayer Dims Weights
  | ScaleLayer ITensor ScaleMode Weights Weights Weights
  | UnaryLayer ITensor UnaryOperation
  | ElementWiseLayer ITensor ITensor ElementWiseOperation
  | FullyConnectedLayer ITensor int Weights Weights

record INetworkDefinition =
  layers :: "Layer list"
  tensor_names :: "nat \<Rightarrow> string option"
  next_tensor :: nat

subsection \<open>The weight store\<close>

text \<open>The store owns one host tensor per temporary buffer: its element type and shape.\<close>

record TrtWeightStore =
  store_m :: "(DataType \<times> Dims) list"

subsection \<open>Converter, node definitions and converter parameters\<close>

record Converter =
  trt_network_m :: INetworkDefinition
  is_fp16_m :: bool
  batch_size_m :: int
  trt_tensors_m :: "string \<Rightarrow> TRT_TensorOrWeights option"
  weight_store_m :: TrtWeightStore

text \<open>
  A partial tensor shape of the host framework: \<open>None\<close> when the rank is unknown
  (as in a default-constructed \<^verbatim>\<open>PartialTensorShape\<close>), otherwise the sizes.
\<close>

type_synonym PartialTensorShape = "int list option"

text \<open>
  A node attribute value, with what the embedded code reads or sets: \<open>type()\<close>,
  \<open>b()\<close> and a shape. A node definition: name, operator, inputs and attributes.
\<close>

record AttrValue =
  attr_type :: DataType
  attr_b :: bool
  attr_shape :: PartialTensorShape

record NodeDef =
  node_name :: string
  node_op :: string
  node_input :: "string list"
  node_attr :: "string \<Rightarrow> AttrValue option"

text \<open>
  \<^verbatim>\<open>OpConverterParams\<close>. The pointers \<open>converter\<close> and \<open>outputs\<close> may be null
  (\<open>None\<close>); the objects they point to are held in the record, and a converter function
  returns the record with these objects as it left them. \<open>weight_store\<close> points to the
  store of whoever built the parameters (the \<open>Converter\<close> or the validator): it is held
  here during the call and written back by the caller.
\<close>

record OpConverterParams =
  converter :: "Converter option"
  node_def :: NodeDef
  inputs :: "TRT_TensorOrWeights list"
  outputs :: "TRT_TensorOrWeights list option"
  validation_only :: bool
  weight_store :: TrtWeightStore

type_synonym OpConverter = "OpConverterParams \<Rightarrow> (OpConverterParams, unit) call"

subsection \<open>What lies outside this file\<close>

text \<open>
  The behaviour of code that is not in convert\_nodes.cc is a parameter of the embedding:
  \<^item> \<open>MakeShape_ok\<close>: whether \<^verbatim>\<open>TensorShapeUtils::MakeShape\<close> accepts a shape;
  \<^item> \<open>float_to_half_rtne\<close>, \<open>float_neg\<close>, \<open>float_recip\<close>, \<open>float_rsqrt\<close>,
    \<open>half_neg\<close>, \<open>half_rsqrt\<close>: floating-point operations on one buffer element;
  \<^item> \<open>trt_rejects\<close>: whether the accelerator refuses a layer (the \<^verbatim>\<open>add...\<close> call
    returns a null pointer); \<open>trt_output_dims\<close>, \<open>trt_output_type\<close> and
    \<open>trt_output_name\<close>: dimensions, type and initial name (null is \<open>None\<close>) of the
    output tensor of a layer it accepts;
  \<^item> \<open>IsPlugin\<close> and \<open>plugin_converter\<close>: the plugin factory and the conversion through
    it; \<open>other_converter\<close>: for an operator name, the registered converter function
    when that function is not embedded here.
\<close>

record Externals =
  MakeShape_ok :: "Dims \<Rightarrow> bool"
  float_to_half_rtne :: "int \<Rightarrow> int"
  float_neg :: "int \<Rightarrow> int"
  float_recip :: "int \<Rightarrow> int"
  float_rsqrt :: "int \<Rightarrow> int"
  half_neg :: "int \<Rightarrow> int"
  half_rsqrt :: "int \<Rightarrow> int"
  trt_rejects :: "INetworkDefinition \<Rightarrow> Layer \<Rightarrow> bool"
  trt_output_dims :: "INetworkDefinition \<Rightarrow> Layer \<Rightarrow> Dims"
  trt_output_type :: "INetworkDefinition \<Rightarrow> Layer \<Rightarrow> TrtDataType"
  trt_output_name :: "INetworkDefinition \<Rightarrow> Layer \<Rightarrow> string option"
  IsPlugin :: "string \<Rightarrow> bool"
  plugin_converter :: OpConverter
  other_converter :: "string \<Rightarrow> OpConverter"

text \<open>
  Adding a layer: a null pointer (\<open>None\<close>) when the accelerator refuses it, otherwise the
  layer's output tensor (\<^verbatim>\<open>layer->getOutput(0)\<close>) and the network with the layer.
\<close>

definition add_layer ::
  "Externals \<Rightarrow> INetworkDefinition \<Rightarrow> Layer \<Rightarrow> (ITensor \<times> INetworkDefinition) option" where
  "add_layer ext net layer =
     (if trt_rejects ext net layer then None
      else Some (\<lparr>tensor_addr = next_tensor net,
                  tensor_dims = trt_output_dims ext net layer,
                  tensor_type = trt_output_type ext net layer\<rparr>,
                 net\<lparr>layers := layers net @ [layer],
                     tensor_names := (tensor_names net)(next_tensor net := trt_output_name ext net layer),
                     next_tensor := Suc (next_tensor net)\<rparr>))"

text \<open>
  \<^verbatim>\<open>TrtWeightStore::GetTempWeights(type, dims)\<close>: \<^verbatim>\<open>TF_CHECK_OK\<close> stops the program
  when the shape is refused; the new buffer has \<open>TrtDimsNumElements dims\<close> elements
  (zero here; every caller embedded below overwrites them).
\<close>

definition GetTempWeights ::
  "Externals \<Rightarrow> TrtWeightStore \<Rightarrow> DataType \<Rightarrow> Dims \<Rightarrow> fault + (TRT_ShapedWeights \<times> TrtWeightStore)" where
  "GetTempWeights ext store type dims =
     (if \<not> MakeShape_ok ext dims then Inl CheckFailed
      else Inr (\<lparr>shape_m = dims, type_m = type, values_m = replicate (nat (TrtDimsNumElements dims)) 0\<rparr>,
                store\<lparr>store_m := store_m store @ [(type, dims)]\<rparr>))"

subsection \<open>Converter: batch size and symbol table\<close>

definition MaybeUpdateBatchSize :: "Converter \<Rightarrow> int \<Rightarrow> (Converter, unit) call" where
  "MaybeUpdateBatchSize c batch_size_arg =
     (if batch_size_m c < 0 \<or> batch_size_arg < 0 \<or> batch_size_m c = batch_size_arg then
        Done () (if batch_size_m c < 0 \<and> batch_size_arg \<ge> 0 then c\<lparr>batch_size_m := batch_size_arg\<rparr> else c)
      else Fail InvalidArgument c)"

text \<open>
  \<^verbatim>\<open>trt_tensors_.insert({name, input})\<close> inserts only when the key is absent, and says
  whether it did.
\<close>

definition AddTensorOrWeights ::
  "Converter \<Rightarrow> string \<Rightarrow> TRT_TensorOrWeights \<Rightarrow> (Converter, unit) call" where
  "AddTensorOrWeights c name input =
     (let input = (if is_tensor input then set_batch_size input (batch_size_m c) else input)
      in if trt_tensors_m c name = None then Done () (c\<lparr>trt_tensors_m := (trt_tensors_m c)(name \<mapsto> input)\<rparr>)
         else Fail AlreadyExists c)"

definition GetTensorOrWeights ::
  "Converter \<Rightarrow> string \<Rightarrow> (Converter, TRT_TensorOrWeights) call" where
  "GetTensorOrWeights c name =
     (case trt_tensors_m c name of
        None \<Rightarrow> Fail NotFound c
      | Some output \<Rightarrow> Done output c)"

subsection \<open>Sequencing\<close>

text \<open>
  \<open>and_then\<close> is \<^verbatim>\<open>TF_RETURN_IF_ERROR\<close>: go on only after \<^verbatim>\<open>Status::OK()\<close>.
  \<open>or_crash\<close> goes on after a step that may stop the program. \<open>via_converter\<close> is a
  call \<^verbatim>\<open>params->converter->f(...)\<close>: it dereferences the converter pointer, which is
  null in validation-only mode. \<open>push_back_output\<close> is
  \<^verbatim>\<open>params->outputs->push_back(x)\<close>.
\<close>

definition and_then :: "('s, 'v) call \<Rightarrow> ('v \<Rightarrow> 's \<Rightarrow> ('s, 'w) call) \<Rightarrow> ('s, 'w) call" where
  "and_then m f = (case m of Crash x \<Rightarrow> Crash x | Fail st s \<Rightarrow> Fail st s | Done v s \<Rightarrow> f v s)"

definition or_crash :: "fault + 'a \<Rightarrow> ('a \<Rightarrow> ('s, 'v) call) \<Rightarrow> ('s, 'v) call" where
  "or_crash m f = (case m of Inl x \<Rightarrow> Crash x | Inr a \<Rightarrow> f a)"

definition deref :: "'a option \<Rightarrow> fault + 'a" where
  "deref ptr = (case ptr of None \<Rightarrow> Inl NullDereference | Some x \<Rightarrow> Inr x)"

definition via_converter ::
  "OpConverterParams \<Rightarrow> (Converter \<Rightarrow> (Converter, 'v) call) \<Rightarrow> (OpConverterParams, 'v) call" where
  "via_converter params f =
     (case converter params of
        None \<Rightarrow> Crash NullDereference
      | Some c \<Rightarrow>
          (case f c of
             Crash x \<Rightarrow> Crash x
           | Fail st c' \<Rightarrow> Fail st (params\<lparr>converter := Some c'\<rparr>)
           | Done v c' \<Rightarrow> Done v (params\<lparr>converter := Some c'\<rparr>)))"

definition push_back_output ::
  "OpConverterParams \<Rightarrow> TRT_TensorOrWeights \<Rightarrow> (OpConverterParams, unit) call" where
  "push_back_output params x =
     (case outputs params of
        None \<Rightarrow> Crash NullDereference
      | Some outs \<Rightarrow> Done () (params\<lparr>outputs := Some (outs @ [x])\<rparr>))"

text \<open>Conversion of an \<^verbatim>\<open>int\<close> to \<^verbatim>\<open>size_t\<close> (64 bits).\<close>

definition size_t_of :: "int \<Rightarrow> int" where
  "size_t_of x = x mod 2 ^ 64"

subsection \<open>Converter: TransposeTensor and PrepareTensorForShape\<close>

text \<open>
  A layer the network refuses is a null pointer, which \<^verbatim>\<open>TFTRT_RETURN_ERROR_IF_NULLPTR\<close>
  turns into an Internal error.
\<close>

definition network_add ::
  "Externals \<Rightarrow> Converter \<Rightarrow> Layer \<Rightarrow> (Converter, ITensor option) call" where
  "network_add ext c layer =
     (case add_layer ext (trt_network_m c) layer of
        None \<Rightarrow> Fail Internal c
      | Some (out, net) \<Rightarrow> Done (Some out) (c\<lparr>trt_network_m := net\<rparr>))"

definition TransposeTensor ::
  "Externals \<Rightarrow> Converter \<Rightarrow> ITensor option \<Rightarrow> int list \<Rightarrow> (Converter, ITensor option) call" where
  "TransposeTensor ext c input_tensor order_with_batch_dim =
     or_crash (deref input_tensor) (\<lambda>t.
       let dims = tensor_dims t
       in if size_t_of (int (length order_with_batch_dim) - 1) \<noteq> size_t_of (nbDims dims)
          then Fail InvalidArgument c
          else if order_with_batch_dim = [] then Crash IndexOutOfRange
          else if order_with_batch_dim ! 0 \<noteq> 0 then Fail Unimplemented c
          else
            let permutation = map (\<lambda>i. order_with_batch_dim ! (i + 1) - 1) [0..<nat (nbDims dims)];
                reshape_dims = \<lparr>nbDims = nbDims dims, d_arr = map (\<lambda>i. 0) [0..<nat (nbDims dims)]\<rparr>
            in network_add ext c (ShuffleLayer t (Some permutation) (Some reshape_dims)))"

text \<open>
  In \<open>PrepareTensorForShape\<close> the dimensions of the input are read for the element
  count only when no target axis is -1 (the \<^verbatim>\<open>&&\<close> of the C++ condition).
\<close>

definition PrepareTensorForShape ::
  "Externals \<Rightarrow> Converter \<Rightarrow> TRT_TensorOrWeights \<Rightarrow> Dims \<Rightarrow> (Converter, ITensor option) call" where
  "PrepareTensorForShape ext c input dims =
     (let can_check_shapes = \<not> list_ex (\<lambda>i. d_arr dims ! i = - 1) [0..<nat (nbDims dims)]
      in or_crash (if can_check_shapes then GetTrtDims input else Inr dims) (\<lambda>input_dims.
         if can_check_shapes \<and> TrtDimsNumElements input_dims \<noteq> TrtDimsNumElements dims
         then Fail InvalidArgument c
         else if is_tensor input then
           or_crash (GetTrtDims input) (\<lambda>input_dims.
             if DimsEqual input_dims dims then Done (tensor input) c
             else or_crash (deref (tensor input)) (\<lambda>t.
               network_add ext c (ShuffleLayer t None (Some dims))))
         else
           or_crash (GetTrtWeights (weights input)) (\<lambda>w.
             network_add ext c (ConstantLayer dims w))))"

subsection \<open>Converter: GetInputs\<close>

text \<open>\<^verbatim>\<open>std::string::find_last_of(ch)\<close>: the last position of \<open>ch\<close>, if any.\<close>

definition find_last_of :: "string \<Rightarrow> char \<Rightarrow> nat option" where
  "find_last_of str ch =
     (case filter (\<lambda>i. str ! i = ch) (rev [0..<length str]) of [] \<Rightarrow> None | i # _ \<Rightarrow> Some i)"

definition input_tensor_name :: "string \<Rightarrow> string" where
  "input_tensor_name input_name =
     (case find_last_of input_name (CHR '':'') of
        None \<Rightarrow> input_name
      | Some last_pos \<Rightarrow>
          if last_pos + 2 = length input_name \<and> input_name ! (last_pos + 1) = CHR ''0''
          then take last_pos input_name else input_name)"

text \<open>
  The loop of \<open>GetInputs\<close> over the node's inputs, with the vector \<open>inputs\<close> filled so
  far. \<^verbatim>\<open>input_name[0]\<close> of an empty string is the terminating zero.
\<close>

fun GetInputs_loop ::
  "Converter \<Rightarrow> string list \<Rightarrow> TRT_TensorOrWeights list \<Rightarrow> (TRT_TensorOrWeights list, unit) call" where
  "GetInputs_loop c [] inputs_v = Done () inputs_v"
| "GetInputs_loop c (input_name # rest) inputs_v =
     (if input_name \<noteq> [] \<and> input_name ! 0 = CHR ''^'' then GetInputs_loop c rest inputs_v
      else
        let name = input_tensor_name input_name
        in case trt_tensors_m c name of
             Some input \<Rightarrow> GetInputs_loop c rest (inputs_v @ [input])
           | None \<Rightarrow> Fail InvalidArgument inputs_v)"

definition GetInputs ::
  "Converter \<Rightarrow> NodeDef \<Rightarrow> TRT_TensorOrWeights list \<Rightarrow> (TRT_TensorOrWeights list, unit) call" where
  "GetInputs c nd inputs_v = GetInputs_loop c (node_input nd) inputs_v"

subsection \<open>Node attributes\<close>

text \<open>
  \<^verbatim>\<open>TFAttrs::at(key)\<close> ends the program (\<^verbatim>\<open>LOG(FATAL)\<close>) when the node has no
  attribute \<open>key\<close>.
\<close>

definition TFAttrs_at :: "NodeDef \<Rightarrow> string \<Rightarrow> fault + AttrValue" where
  "TFAttrs_at nd key = (case node_attr nd key of None \<Rightarrow> Inl CheckFailed | Some a \<Rightarrow> Inr a)"

subsection \<open>ConvertTranspose and ConvertReshape\<close>

text \<open>
  The permutation is read from the weight buffer through an \<^verbatim>\<open>int\<close> pointer:
  \<open>count\<close> elements from its start.
\<close>

definition ConvertTranspose :: "Externals \<Rightarrow> OpConverter" where
  "ConvertTranspose ext params =
     (let inputs_v = inputs params
      in if length inputs_v \<noteq> 2 \<or> \<not> is_tensor (inputs_v ! 0) \<or> \<not> is_weights (inputs_v ! 1)
         then Fail InvalidArgument params
         else
           let weights_v = weights (inputs_v ! 1);
               perm = take (nat (count weights_v)) (values_m weights_v);
               input_tensor = tensor (inputs_v ! 0)
           in or_crash (deref input_tensor) (\<lambda>t.
                if size_t_of (int (length perm) - 1) \<noteq> size_t_of (nbDims (tensor_dims t))
                then Fail InvalidArgument params
                else if perm = [] then Crash IndexOutOfRange
                else if perm ! 0 \<noteq> 0 then Fail Unimplemented params
                else if validation_only params then Done () params
                else
                  and_then (via_converter params (\<lambda>c. TransposeTensor ext c input_tensor perm))
                    (\<lambda>output_tensor params.
                       push_back_output params (TensorOrWeights_of_tensor output_tensor unknown_batch_size))))"

text \<open>
  The batch-dimension check of \<open>ConvertReshape\<close> (the variable
  \<^verbatim>\<open>reshape_may_change_batch_dim\<close>).
\<close>

definition reshape_may_change_batch_dim :: "int \<Rightarrow> int \<Rightarrow> Dims \<Rightarrow> Dims \<Rightarrow> bool" where
  "reshape_may_change_batch_dim input_batch_dim reshape_batch_dim input_dims reshape_dims =
     (if input_batch_dim > 0 then
        (if reshape_batch_dim = - 1 then
           (if \<not> HasStaticShape input_dims
               \<or> TrtDimsNumElements reshape_dims \<noteq> TrtDimsNumElements input_dims
            then True else False)
         else if reshape_batch_dim \<noteq> input_batch_dim then True
         else False)
      else if HasStaticShape input_dims then
        (if \<not> HasStaticShape reshape_dims
            \<or> TrtDimsNumElements reshape_dims \<noteq> TrtDimsNumElements input_dims
         then True else False)
      else True)"

definition ConvertReshape :: "Externals \<Rightarrow> OpConverter" where
  "ConvertReshape ext params =
     (let inputs_v = inputs params
      in if length inputs_v \<noteq> 2 \<or> \<not> is_weights (inputs_v ! 1)
         then Fail InvalidArgument params
         else
           let input_tensor = inputs_v ! 0;
               weights_v = weights (inputs_v ! 1)
           in if count weights_v = 0 then Fail Unimplemented params
              else
                let weights_ptr = values_m weights_v;
                    input_batch_dim = batch_size input_tensor;
                    reshape_batch_dim = weights_ptr ! 0
                in or_crash (GetTrtDims input_tensor) (\<lambda>input_dims.
                     let reshape_dims =
                           \<lparr>nbDims = count weights_v - 1,
                            d_arr = map (\<lambda>i. weights_ptr ! i) [1..<nat (count weights_v)]\<rparr>
                     in if reshape_may_change_batch_dim input_batch_dim reshape_batch_dim
                             input_dims reshape_dims
                        then Fail Unimplemented params
                        else if validation_only params then Done () params
                        else
                          and_then
                            (via_converter params
                               (\<lambda>c. PrepareTensorForShape ext c input_tensor reshape_dims))
                            (\<lambda>output_tensor params.
                               push_back_output params
                                 (TensorOrWeights_of_tensor output_tensor unknown_batch_size))))"

subsection \<open>ConvertIdentity\<close>

definition ConvertIdentity :: OpConverter where
  "ConvertIdentity params =
     (if inputs params = [] then Crash IndexOutOfRange
      else push_back_output params (inputs params ! 0))"

subsection \<open>ConvertMatMul\<close>

text \<open>
  \<^verbatim>\<open>Reorder2\<close>: for every \<open>h < shape.h\<close> and \<open>w < shape.w\<close>, the output element at
  \<open>h * ostrides.h + w * ostrides.w\<close> becomes the input element at
  \<open>h * istrides.h + w * istrides.w\<close>.
\<close>

definition Reorder2 ::
  "int \<times> int \<Rightarrow> int list \<Rightarrow> int \<times> int \<Rightarrow> int list \<Rightarrow> int \<times> int \<Rightarrow> int list" where
  "Reorder2 shape idata istrides odata ostrides =
     foldl (\<lambda>od h.
        foldl (\<lambda>od w.
           od[nat (int h * fst ostrides + int w * snd ostrides)
                := idata ! nat (int h * fst istrides + int w * snd istrides)])
          od [0..<nat (snd shape)])
       odata [0..<nat (fst shape)]"

definition ReorderCKtoKC :: "TRT_ShapedWeights \<Rightarrow> TRT_ShapedWeights \<Rightarrow> fault + TRT_ShapedWeights" where
  "ReorderCKtoKC iweights oweights =
     (let c = d_arr (shape_m iweights) ! 0;
          k = d_arr (shape_m iweights) ! 1;
          oshape = (shape_m oweights)\<lparr>d_arr := (d_arr (shape_m oweights))[0 := k, 1 := c]\<rparr>;
          istrides = (1, k);
          ostrides = (c, 1)
      in if type_m iweights = DT_FLOAT \<or> type_m iweights = DT_HALF
         then Inr (oweights\<lparr>shape_m := oshape,
                     values_m := Reorder2 (k, c) (values_m iweights) istrides (values_m oweights) ostrides\<rparr>)
         else Inl CheckFailed)"

text \<open>
  The loop \<^verbatim>\<open>while (input_dim.nbDims != 3) input_dim.d[input_dim.nbDims++] = 1\<close> pads a
  shape of rank below 3 with ones; from a rank above 3 (or below 0) it writes outside the
  array.
\<close>

definition pad_to_rank_3 :: "Dims \<Rightarrow> fault + Dims" where
  "pad_to_rank_3 input_dim =
     (if nbDims input_dim < 0 \<or> 3 < nbDims input_dim then Inl IndexOutOfRange
      else Inr \<lparr>nbDims = 3,
                d_arr = take (nat (nbDims input_dim)) (d_arr input_dim)
                        @ replicate (3 - nat (nbDims input_dim)) 1\<rparr>)"

definition ConvertMatMulHelper ::
  "Externals \<Rightarrow> OpConverterParams \<Rightarrow> TRT_TensorOrWeights \<Rightarrow> TRT_ShapedWeights \<Rightarrow> bool \<Rightarrow> string
     \<Rightarrow> (OpConverterParams, unit) call" where
  "ConvertMatMulHelper ext params tensor_input weights_raw transpose_weight node_name_v =
     (if \<not> is_tensor tensor_input then Fail InvalidArgument params
      else
        or_crash
          (if transpose_weight then Inr (weights_raw, weight_store params)
           else (case GetTempWeights ext (weight_store params) (type_m weights_raw) (shape_m weights_raw) of
                   Inl x \<Rightarrow> Inl x
                 | Inr (w, store) \<Rightarrow>
                     (case ReorderCKtoKC weights_raw w of Inl x \<Rightarrow> Inl x | Inr w' \<Rightarrow> Inr (w', store))))
          (\<lambda>(weights_v, store).
             let params = params\<lparr>weight_store := store\<rparr>;
                 biases = TRT_ShapedWeights_of_type (type_m weights_v);
                 noutput = d_arr (shape_m weights_v) ! 0
             in or_crash (deref (tensor tensor_input)) (\<lambda>t.
                or_crash (pad_to_rank_3 (tensor_dims t)) (\<lambda>input_dim.
                  and_then (via_converter params (\<lambda>c. PrepareTensorForShape ext c tensor_input input_dim))
                    (\<lambda>tensor_v params.
                       or_crash (deref tensor_v) (\<lambda>t.
                       or_crash (GetTrtWeights weights_v) (\<lambda>w.
                       or_crash (GetTrtWeights biases) (\<lambda>b.
                         and_then (via_converter params
                                     (\<lambda>c. network_add ext c (FullyConnectedLayer t noutput w b)))
                           (\<lambda>output_tensor params.
                              or_crash (deref output_tensor) (\<lambda>ot.
                                let output_dim = (tensor_dims ot)\<lparr>nbDims := 1\<rparr>
                                in and_then
                                     (via_converter params (\<lambda>c.
                                        PrepareTensorForShape ext c
                                          (TensorOrWeights_of_tensor output_tensor unknown_batch_size)
                                          output_dim))
                                     (\<lambda>temp_tensor params.
                                        push_back_output params
                                          (TensorOrWeights_of_tensor temp_tensor unknown_batch_size))))))))))))"

definition ConvertMatMul :: "Externals \<Rightarrow> OpConverter" where
  "ConvertMatMul ext params =
     (let inputs_v = inputs params; nd = node_def params
      in if length inputs_v \<noteq> 2 \<or> \<not> is_tensor (inputs_v ! 0) \<or> \<not> is_weights (inputs_v ! 1)
         then Fail InvalidArgument params
         else
           or_crash (TFAttrs_at nd ''T'') (\<lambda>a.
             let tf_dtype = attr_type a
             in if tf_dtype \<noteq> DT_FLOAT \<and> tf_dtype \<noteq> DT_HALF then Fail Unimplemented params
                else
                  or_crash (TFAttrs_at nd ''transpose_a'') (\<lambda>ta.
                  or_crash (TFAttrs_at nd ''transpose_b'') (\<lambda>tb.
                    let transpose_a = attr_b ta; transpose_b = attr_b tb
                    in if transpose_a then Fail Internal params
                       else ConvertMatMulHelper ext params (inputs_v ! 0) (weights (inputs_v ! 1))
                              transpose_b (node_name nd)))))"

subsection \<open>Constant folding helpers\<close>

datatype OP_CATEGORY = RSQRT | NEG | ADD | MUL | SUB | RECIP

text \<open>
  \<^verbatim>\<open>LambdaFactory::unary<T>()\<close> for \<^verbatim>\<open>float\<close> and for \<^verbatim>\<open>Eigen::half\<close>: a function
  of one element, or null (\<open>None\<close>).
\<close>

definition unary_float :: "Externals \<Rightarrow> OP_CATEGORY \<Rightarrow> (int \<Rightarrow> int) option" where
  "unary_float ext op_v =
     (case op_v of
        RSQRT \<Rightarrow> Some (float_rsqrt ext)
      | NEG \<Rightarrow> Some (float_neg ext)
      | RECIP \<Rightarrow> Some (float_recip ext)
      | _ \<Rightarrow> None)"

definition unary_half :: "Externals \<Rightarrow> OP_CATEGORY \<Rightarrow> (int \<Rightarrow> int) option" where
  "unary_half ext op_v =
     (case op_v of
        RSQRT \<Rightarrow> Some (half_rsqrt ext)
      | NEG \<Rightarrow> Some (half_neg ext)
      | _ \<Rightarrow> None)"

text \<open>
  \<^verbatim>\<open>std::transform(inp, inp + n, oup, f)\<close>; calling a null \<^verbatim>\<open>std::function\<close> throws
  \<^verbatim>\<open>std::bad_function_call\<close>.
\<close>

definition std_transform ::
  "int list \<Rightarrow> nat \<Rightarrow> int list \<Rightarrow> (int \<Rightarrow> int) option \<Rightarrow> fault + int list" where
  "std_transform inp n oup f =
     (case f of
        None \<Rightarrow> (if n = 0 then Inr oup else Inl BadFunctionCall)
      | Some g \<Rightarrow> Inr (map g (take n inp) @ drop n oup))"

definition UnaryCompute ::
  "Externals \<Rightarrow> TRT_ShapedWeights \<Rightarrow> TRT_ShapedWeights \<Rightarrow> OP_CATEGORY
     \<Rightarrow> (TRT_ShapedWeights, unit) call" where
  "UnaryCompute ext iweights oweights unary_op =
     (if type_m iweights \<noteq> type_m oweights then Crash CheckFailed
      else
        (case type_m iweights of
           DT_FLOAT \<Rightarrow>
             or_crash (std_transform (values_m iweights) (nat (count iweights)) (values_m oweights)
                         (unary_float ext unary_op))
               (\<lambda>v. Done () (oweights\<lparr>values_m := v\<rparr>))
         | DT_HALF \<Rightarrow>
             or_crash (std_transform (values_m iweights) (nat (count iweights)) (values_m oweights)
                         (unary_half ext unary_op))
               (\<lambda>v. Done () (oweights\<lparr>values_m := v\<rparr>))
         | _ \<Rightarrow> Fail Unimplemented oweights))"

definition ConvertFP32ToFP16 ::
  "Externals \<Rightarrow> TrtWeightStore \<Rightarrow> TRT_ShapedWeights \<Rightarrow> fault + (TRT_ShapedWeights \<times> TrtWeightStore)" where
  "ConvertFP32ToFP16 ext store weights_src =
     (case GetTempWeights ext store DT_HALF (shape_m weights_src) of
        Inl x \<Rightarrow> Inl x
      | Inr (weights_v, store') \<Rightarrow>
          Inr (weights_v\<lparr>values_m :=
                 map (float_to_half_rtne ext) (take (nat (count weights_src)) (values_m weights_src))
                 @ drop (nat (count weights_src)) (values_m weights_v)\<rparr>, store'))"

subsection \<open>BinaryTensorOpWeight\<close>

text \<open>
  The part of \<open>BinaryTensorOpWeight\<close> that chooses the scale mode and decides whether
  the tensor must be transposed (\<open>permutation_flag\<close>), from \<^verbatim>\<open>if (weights.count() == 1)\<close>
  to the end of its \<^verbatim>\<open>else\<close> branch.
\<close>

definition BinaryTensorOpWeight_scale_mode ::
  "TRT_ShapedWeights \<Rightarrow> Dims \<Rightarrow> Status + (ScaleMode \<times> bool)" where
  "BinaryTensorOpWeight_scale_mode weights_v dims_t =
     (let dims_w = shape_m weights_v
      in if count weights_v = 1 then Inr (kUNIFORM, False)
         else
           (case (if nbDims dims_w = nbDims dims_t + 1 then
                    (if d_arr dims_w ! 0 = 1 then
                       Inr \<lparr>nbDims = nbDims dims_w - 1,
                            d_arr = map (\<lambda>i. d_arr dims_w ! i) [1..<nat (nbDims dims_w)]\<rparr>
                     else Inl InvalidArgument)
                  else Inr dims_w) of
              Inl st \<Rightarrow> Inl st
            | Inr dims_w \<Rightarrow>
                if nbDims dims_w = nbDims dims_t \<and> d_arr dims_w ! 0 = d_arr dims_t ! 0 then
                  (let scale_mode =
                         (if list_ex (\<lambda>i. d_arr dims_w ! i \<noteq> d_arr dims_t ! i) [1..<nat (nbDims dims_w)]
                          then kCHANNEL else kELEMENTWISE)
                   in if scale_mode = kCHANNEL
                         \<and> list_ex (\<lambda>i. d_arr dims_w ! i \<noteq> 1) [1..<nat (nbDims dims_w)]
                      then Inl InvalidArgument
                      else Inr (scale_mode, False))
                else if nbDims dims_w = 1
                        \<and> d_arr dims_w ! 0 = d_arr dims_t ! nat (nbDims dims_t - 1)
                then Inr (kCHANNEL, True)
                else Inl InvalidArgument))"

text \<open>
  The part that prepares the operands of the scale layer, by operator: the tensor
  (negated or inverted by a unary layer when the inputs are swapped), the shift weights
  and the scale weights. \<^verbatim>\<open>GetTempWeights(weights)\<close> allocates for the type and shape
  of \<open>weights\<close>.
\<close>

definition BinaryTensorOpWeight_operands ::
  "Externals \<Rightarrow> OpConverterParams \<Rightarrow> ITensor option \<Rightarrow> TRT_ShapedWeights \<Rightarrow> bool
     \<Rightarrow> (OpConverterParams, ITensor option \<times> TRT_ShapedWeights \<times> TRT_ShapedWeights) call" where
  "BinaryTensorOpWeight_operands ext params tensor_v weights_v swapped_inputs =
     (let op_v = node_op (node_def params);
          shift_weights = TRT_ShapedWeights_of_type (type_m weights_v);
          scale_weights = TRT_ShapedWeights_of_type (type_m weights_v);
          unary_layer = (\<lambda>uop.
             via_converter params (\<lambda>c.
               or_crash (deref tensor_v) (\<lambda>t. network_add ext c (UnaryLayer t uop))));
          folded = (\<lambda>category.
             or_crash (GetTempWeights ext (weight_store params) (type_m weights_v) (shape_m weights_v))
               (\<lambda>(temp_weights, store).
                  (case UnaryCompute ext weights_v temp_weights category of
                     Crash x \<Rightarrow> Crash x
                   | Fail st w \<Rightarrow> Fail st (params\<lparr>weight_store := store\<rparr>)
                   | Done u w \<Rightarrow> Done w (params\<lparr>weight_store := store\<rparr>))))
      in if op_v = ''Sub'' then
           (if swapped_inputs then
              and_then (unary_layer kNEG) (\<lambda>out params. Done (out, weights_v, scale_weights) params)
            else
              and_then (folded NEG) (\<lambda>neg_weights params. Done (tensor_v, neg_weights, scale_weights) params))
         else if op_v = ''Div'' \<or> op_v = ''RealDiv'' then
           (if swapped_inputs then
              and_then (unary_layer kRECIP) (\<lambda>out params. Done (out, shift_weights, weights_v) params)
            else
              and_then (folded RECIP) (\<lambda>recip_weights params. Done (tensor_v, shift_weights, recip_weights) params))
         else if op_v = ''Mul'' then Done (tensor_v, shift_weights, weights_v) params
         else if op_v = ''Add'' then Done (tensor_v, weights_v, scale_weights) params
         else Fail Unimplemented params)"

text \<open>
  The last part: the scale layer, the transposition back, and the output
  (\<open>power_weights\<close> are the empty weights of the element type).
\<close>

definition BinaryTensorOpWeight_scale ::
  "Externals \<Rightarrow> OpConverterParams \<Rightarrow> ITensor option \<Rightarrow> ScaleMode
     \<Rightarrow> TRT_ShapedWeights \<Rightarrow> TRT_ShapedWeights \<Rightarrow> TRT_ShapedWeights \<Rightarrow> bool \<Rightarrow> int list
     \<Rightarrow> (OpConverterParams, unit) call" where
  "BinaryTensorOpWeight_scale ext params tensor_v scale_mode shift_weights scale_weights
       power_weights permutation_flag permutation =
     and_then
       (via_converter params (\<lambda>c.
          or_crash (deref tensor_v) (\<lambda>t.
          or_crash (GetTrtWeights shift_weights) (\<lambda>shift.
          or_crash (GetTrtWeights scale_weights) (\<lambda>scale.
          or_crash (GetTrtWeights power_weights) (\<lambda>power.
            network_add ext c (ScaleLayer t scale_mode shift scale power)))))))
       (\<lambda>output_tensor params.
          and_then
            (if permutation_flag
             then via_converter params (\<lambda>c. TransposeTensor ext c output_tensor permutation)
             else Done output_tensor params)
            (\<lambda>output_tensor params.
               push_back_output params (TensorOrWeights_of_tensor output_tensor unknown_batch_size)))"

definition BinaryTensorOpWeight ::
  "Externals \<Rightarrow> OpConverterParams \<Rightarrow> ITensor option \<Rightarrow> TRT_ShapedWeights \<Rightarrow> bool
     \<Rightarrow> (OpConverterParams, unit) call" where
  "BinaryTensorOpWeight ext params tensor_v weights_v swapped_inputs =
     (let op_v = node_op (node_def params)
      in if op_v \<noteq> ''Sub'' \<and> op_v \<noteq> ''Add'' \<and> op_v \<noteq> ''Mul'' \<and> op_v \<noteq> ''Div''
            \<and> op_v \<noteq> ''RealDiv''
         then Fail Unimplemented params
         else
           (case ConvertDType (type_m weights_v) of
              Inl st \<Rightarrow> Fail st params
            | Inr ttype \<Rightarrow>
                or_crash (deref tensor_v) (\<lambda>t.
                  let dims_t = tensor_dims t
                  in if nbDims dims_t \<noteq> 3 then Fail InvalidArgument params
                     else
                       (case BinaryTensorOpWeight_scale_mode weights_v dims_t of
                          Inl st \<Rightarrow> Fail st params
                        | Inr (scale_mode, permutation_flag) \<Rightarrow>
                            let permutation =
                                  (if permutation_flag \<and> scale_mode = kCHANNEL \<and> nbDims dims_t > 1
                                   then ((map int [0..<nat (nbDims dims_t + 1)])
                                           [1 := nbDims dims_t])[nat (nbDims dims_t) := 1]
                                   else replicate (nat (nbDims dims_t + 1)) 0)
                            in and_then
                                 (if permutation_flag then
                                    (if scale_mode = kCHANNEL \<and> nbDims dims_t > 1
                                     then via_converter params (\<lambda>c. TransposeTensor ext c tensor_v permutation)
                                     else Fail InvalidArgument params)
                                  else Done tensor_v params)
                                 (\<lambda>tensor_v params.
                                    or_crash (deref (converter params)) (\<lambda>c.
                                    or_crash (if is_fp16_m c
                                              then ConvertFP32ToFP16 ext (weight_store params) weights_v
                                              else Inr (weights_v, weight_store params))
                                      (\<lambda>(weights_v, store).
                                         and_then
                                           (BinaryTensorOpWeight_operands ext
                                              (params\<lparr>weight_store := store\<rparr>) tensor_v weights_v swapped_inputs)
                                           (\<lambda>(tensor_v, shift_weights, scale_weights) params.
                                              BinaryTensorOpWeight_scale ext params tensor_v scale_mode
                                                shift_weights scale_weights
                                                (TRT_ShapedWeights_of_type (type_m weights_v))
                                                permutation_flag permutation))))))))"

subsection \<open>BinaryTensorOpTensor and ConvertBinary\<close>

definition elementwise_ops :: "string \<Rightarrow> ElementWiseOperation option" where
  "elementwise_ops op_v =
     (if op_v = ''Add'' then Some kSUM
      else if op_v = ''Mul'' then Some kPROD
      else if op_v = ''Sub'' then Some kSUB
      else if op_v = ''Div'' then Some kDIV
      else if op_v = ''RealDiv'' then Some kDIV
      else if op_v = ''Minimum'' then Some kMIN
      else if op_v = ''Maximum'' then Some kMAX
      else None)"

text \<open>
  \<^verbatim>\<open>TFAttrs::get<nvinfer1::DataType>(key)\<close> and \<^verbatim>\<open>TFTRT_CHECK_EQ_TYPE\<close> end the
  program when the attribute is missing, its type has no accelerator type, or the types
  differ.
\<close>

definition TFAttrs_get_trt_type :: "NodeDef \<Rightarrow> string \<Rightarrow> fault + TrtDataType" where
  "TFAttrs_get_trt_type nd key =
     (case TFAttrs_at nd key of
        Inl x \<Rightarrow> Inl x
      | Inr a \<Rightarrow> (case ConvertDType (attr_type a) of Inl st \<Rightarrow> Inl CheckFailed | Inr t \<Rightarrow> Inr t))"

definition check_eq_type :: "ITensor option \<Rightarrow> TrtDataType \<Rightarrow> fault + unit" where
  "check_eq_type tensor_v dtype =
     (case tensor_v of
        None \<Rightarrow> Inl NullDereference
      | Some t \<Rightarrow> if tensor_type t = dtype then Inr () else Inl CheckFailed)"

definition BinaryTensorOpTensor ::
  "Externals \<Rightarrow> OpConverterParams \<Rightarrow> TRT_TensorOrWeights \<Rightarrow> TRT_TensorOrWeights
     \<Rightarrow> (OpConverterParams, unit) call" where
  "BinaryTensorOpTensor ext params operand_l operand_r =
     (let nd = node_def params
      in or_crash (GetTrtDims operand_l) (\<lambda>dims_l.
         or_crash (GetTrtDims operand_r) (\<lambda>dims_r.
           (case TensorRTGetBroadcastShape dims_l (is_tensor operand_l) dims_r (is_tensor operand_r) of
              None \<Rightarrow> Fail InvalidArgument params
            | Some (dim_l, dim_r) \<Rightarrow>
                and_then (via_converter params (\<lambda>c. PrepareTensorForShape ext c operand_l dim_l))
                  (\<lambda>tensor_l params.
                and_then (via_converter params (\<lambda>c. PrepareTensorForShape ext c operand_r dim_r))
                  (\<lambda>tensor_r params.
                     or_crash (TFAttrs_get_trt_type nd ''T'') (\<lambda>dtype.
                     or_crash (check_eq_type tensor_l dtype) (\<lambda>u.
                     or_crash (check_eq_type tensor_r dtype) (\<lambda>u.
                       (case elementwise_ops (node_op nd) of
                          None \<Rightarrow> Fail Unimplemented params
                        | Some eop \<Rightarrow>
                            and_then
                              (via_converter params (\<lambda>c.
                                 or_crash (deref tensor_l) (\<lambda>tl.
                                 or_crash (deref tensor_r) (\<lambda>tr.
                                   network_add ext c (ElementWiseLayer tl tr eop)))))
                              (\<lambda>output_tensor params.
                                 push_back_output params
                                   (TensorOrWeights_of_tensor output_tensor unknown_batch_size))))))))))))"

definition ConvertBinary :: "Externals \<Rightarrow> OpConverter" where
  "ConvertBinary ext params =
     (let inputs_v = inputs params
      in if length inputs_v \<noteq> 2 then Fail FailedPrecondition params
         else if is_weights (inputs_v ! 0) \<and> is_weights (inputs_v ! 1) then Fail Unimplemented params
         else
           (case (if is_tensor (inputs_v ! 0) \<and> is_weights (inputs_v ! 1) then
                    BinaryTensorOpWeight ext params (tensor (inputs_v ! 0)) (weights (inputs_v ! 1)) False
                  else if is_weights (inputs_v ! 0) \<and> is_tensor (inputs_v ! 1) then
                    BinaryTensorOpWeight ext params (tensor (inputs_v ! 1)) (weights (inputs_v ! 0)) True
                  else Done () params) of
              Crash x \<Rightarrow> Crash x
            | Fail st params' \<Rightarrow>
                if (is_tensor (inputs_v ! 0) \<and> is_tensor (inputs_v ! 1)) \<or> \<not> ok st
                then BinaryTensorOpTensor ext params' (inputs_v ! 0) (inputs_v ! 1)
                else Fail st params'
            | Done u params' \<Rightarrow>
                if is_tensor (inputs_v ! 0) \<and> is_tensor (inputs_v ! 1)
                then BinaryTensorOpTensor ext params' (inputs_v ! 0) (inputs_v ! 1)
                else Done () params'))"

subsection \<open>Decimal numbers in names\<close>

text \<open>\<^verbatim>\<open>StrCat\<close> writes an integer in decimal.\<close>

definition digit_char :: "nat \<Rightarrow> char" where
  "digit_char n = char_of (48 + n)"

fun string_of_nat :: "nat \<Rightarrow> string" where
  "string_of_nat n =
     (if n < 10 then [digit_char n] else string_of_nat (n div 10) @ [digit_char (n mod 10)])"

declare string_of_nat.simps [simp del]

definition string_of_int :: "int \<Rightarrow> string" where
  "string_of_int i = (if i < 0 then CHR ''-'' # string_of_nat (nat (- i)) else string_of_nat (nat i))"

subsection \<open>The registries\<close>

text \<open>
  \<open>RegisterOpConverters\<close> and \<open>RegisterOpValidators\<close>: the converter registered for
  an operator name. The functions embedded above are named; every other registered
  function is the parameter \<open>other_converter\<close> at that name.
\<close>

definition binary_ops :: "string list" where
  "binary_ops = [''Add'', ''Mul'', ''Sub'', ''Div'', ''RealDiv'', ''Maximum'', ''Minimum'']"

definition other_registered_ops :: "string list" where
  "other_registered_ops =
     [''Conv2D'', ''DepthwiseConv2dNative'', ''Relu'', ''MaxPool'', ''AvgPool'', ''BiasAdd'',
      ''Const'', ''Pad'', ''ConcatV2'', ''FusedBatchNorm'', ''FusedBatchNormV2'', ''Rsqrt'',
      ''Reciprocal'', ''Exp'', ''Log'', ''Sqrt'', ''Abs'', ''Neg'', ''Sum'', ''Prod'', ''Max'',
      ''Min'', ''Mean'', ''Softmax'', ''BatchMatMul'', ''TopKV2'']"

definition op_registry :: "Externals \<Rightarrow> string \<Rightarrow> OpConverter option" where
  "op_registry ext op_v =
     (if op_v \<in> set binary_ops then Some (ConvertBinary ext)
      else if op_v = ''Identity'' \<or> op_v = ''Snapshot'' then Some ConvertIdentity
      else if op_v = ''Transpose'' then Some (ConvertTranspose ext)
      else if op_v = ''Reshape'' then Some (ConvertReshape ext)
      else if op_v = ''MatMul'' then Some (ConvertMatMul ext)
      else if op_v \<in> set other_registered_ops then Some (other_converter ext op_v)
      else None)"

definition op_validators :: "Externals \<Rightarrow> string \<Rightarrow> OpConverter option" where
  "op_validators ext op_v =
     (if op_v = ''Const'' then Some (other_converter ext ''Const'')
      else if op_v = ''Transpose'' then Some (ConvertTranspose ext)
      else if op_v = ''Reshape'' then Some (ConvertReshape ext)
      else if op_v = ''MatMul'' then Some (ConvertMatMul ext)
      else None)"

subsection \<open>TrtNodeValidator::ValidateNode\<close>

text \<open>The validator's state is its weight store.\<close>

definition ValidateNode ::
  "Externals \<Rightarrow> TrtWeightStore \<Rightarrow> NodeDef \<Rightarrow> TRT_TensorOrWeights list \<Rightarrow> (TrtWeightStore, unit) call" where
  "ValidateNode ext store nd inputs_v =
     (case op_validators ext (node_op nd) of
        None \<Rightarrow> Done () store
      | Some validator \<Rightarrow>
          (case validator \<lparr>converter = None, node_def = nd, inputs = inputs_v, outputs = None,
                           validation_only = True, weight_store = store\<rparr> of
             Crash x \<Rightarrow> Crash x
           | Fail st params \<Rightarrow> Fail st (weight_store params)
           | Done u params \<Rightarrow> Done () (weight_store params)))"

subsection \<open>Converter::ConvertNode\<close>

text \<open>
  The converter as a converter function left it: the object the parameters point to,
  with the weight store the parameters held.
\<close>

definition converter_after :: "Converter \<Rightarrow> OpConverterParams \<Rightarrow> Converter" where
  "converter_after c params =
     (case converter params of
        None \<Rightarrow> c\<lparr>weight_store_m := weight_store params\<rparr>
      | Some c' \<Rightarrow> c'\<lparr>weight_store_m := weight_store params\<rparr>)"

definition output_name_of :: "NodeDef \<Rightarrow> nat \<Rightarrow> string" where
  "output_name_of nd i = (if i \<noteq> 0 then node_name nd @ '':'' @ string_of_nat i else node_name nd)"

text \<open>
  The loop of \<open>ConvertNode\<close> over the outputs, from index \<open>i\<close>: an unnamed output
  tensor gets the output's name, then the output is added to the symbol table.
\<close>

fun ConvertNode_outputs ::
  "Converter \<Rightarrow> NodeDef \<Rightarrow> TRT_TensorOrWeights list \<Rightarrow> nat \<Rightarrow> (Converter, unit) call" where
  "ConvertNode_outputs c nd [] i = Done () c"
| "ConvertNode_outputs c nd (output # rest) i =
     (let output_name = output_name_of nd i
      in or_crash
           (if is_tensor output then
              (case tensor output of
                 None \<Rightarrow> Inl NullDereference
               | Some t \<Rightarrow>
                   let tensor_name = tensor_names (trt_network_m c) (tensor_addr t)
                   in if tensor_name = None \<or> tensor_name = Some []
                      then Inr (c\<lparr>trt_network_m := (trt_network_m c)
                                 \<lparr>tensor_names := (tensor_names (trt_network_m c))
                                    (tensor_addr t := Some output_name)\<rparr>\<rparr>)
                      else Inr c)
            else Inr c)
           (\<lambda>c. and_then (AddTensorOrWeights c output_name output)
                   (\<lambda>u c. ConvertNode_outputs c nd rest (Suc i))))"

definition ConvertNode :: "Externals \<Rightarrow> Converter \<Rightarrow> NodeDef \<Rightarrow> (Converter, unit) call" where
  "ConvertNode ext c nd =
     (case GetInputs c nd [] of
        Crash x \<Rightarrow> Crash x
      | Fail st inputs_v \<Rightarrow> Fail st c
      | Done u inputs_v \<Rightarrow>
          let params = \<lparr>converter = Some c, node_def = nd, inputs = inputs_v, outputs = Some [],
                        validation_only = False, weight_store = weight_store_m c\<rparr>;
              op_v = node_op nd
          in (case (if IsPlugin ext op_v then plugin_converter ext params
                    else (case op_registry ext op_v of
                            None \<Rightarrow> Fail Unimplemented params
                          | Some op_converter \<Rightarrow> op_converter params)) of
                Crash x \<Rightarrow> Crash x
              | Fail st params' \<Rightarrow> Fail st (converter_after c params')
              | Done u params' \<Rightarrow>
                  ConvertNode_outputs (converter_after c params') nd
                    (case outputs params' of None \<Rightarrow> [] | Some outs \<Rightarrow> outs) 0))"

subsection \<open>Segment extraction: data\<close>

definition kInputPHName :: string where
  "kInputPHName = ''TensorRTInputPH_''"

definition kOutputPHName :: string where
  "kOutputPHName = ''TensorRTOutputPH_''"

text \<open>\<^verbatim>\<open>Graph::kControlSlot\<close>, the port of a control edge, is -1 in the host framework.\<close>

definition kControlSlot :: int where
  "kControlSlot = - 1"

definition StartsWith :: "string \<Rightarrow> string \<Rightarrow> bool" where
  "StartsWith text_v prefix_v = (take (length prefix_v) text_v = prefix_v)"

text \<open>
  What the host graph provides (all outside this file): a node with its definition and
  the element types of its outputs and inputs; the graph as the function
  \<^verbatim>\<open>FindNodeId\<close> (null is \<open>None\<close>); the inferred properties, for a node name the
  element type and shape of each output and each input, when known.
\<close>

record Node =
  node_def_of :: NodeDef
  output_types :: "DataType list"
  input_types :: "DataType list"

type_synonym Graph = "int \<Rightarrow> Node option"

record GraphProperties =
  output_properties :: "string \<Rightarrow> (DataType \<times> PartialTensorShape) list option"
  input_properties :: "string \<Rightarrow> (DataType \<times> PartialTensorShape) list option"

text \<open>
  Modelled from the spec: \<^verbatim>\<open>EngineConnection\<close> is declared in convert\_nodes.h, which
  is not among the sources. Its fields are those the spec lists: "outside node
  id/name/port, inside node id/name/port, is input edge?, is control edge?, port number,
  resolved dtype, resolved shape on each side".
\<close>

record EngineConnection =
  outside_node_name :: string
  outside_id :: int
  outside_port :: int
  outside_shape :: PartialTensorShape
  inside_node_name :: string
  inside_id :: int
  inside_port :: int
  inside_shape :: PartialTensorShape
  connection_type :: DataType
  is_input_edge :: bool
  is_control_edge :: bool
  port_number :: int

text \<open>
  \<^verbatim>\<open>std::vector::at\<close> throws when the index is out of range; \<^verbatim>\<open>Node::output_type\<close>
  and \<^verbatim>\<open>Node::input_type\<close> index a vector.
\<close>

definition vector_at :: "'a list \<Rightarrow> int \<Rightarrow> fault + 'a" where
  "vector_at xs i = (if 0 \<le> i \<and> i < int (length xs) then Inr (xs ! nat i) else Inl IndexOutOfRange)"

text \<open>
  \<open>GetOutputProperties\<close> and \<open>GetInputProperties\<close> write an element type and, when
  the properties of the node are known, a shape; the shape they are given stays otherwise.
\<close>

definition GetOutputProperties ::
  "GraphProperties \<Rightarrow> Node \<Rightarrow> int \<Rightarrow> PartialTensorShape \<Rightarrow> fault + (PartialTensorShape \<times> DataType)" where
  "GetOutputProperties graph_properties node out_port shape =
     (case output_properties graph_properties (node_name (node_def_of node)) of
        Some output_params \<Rightarrow>
          (case vector_at output_params out_port of
             Inl x \<Rightarrow> Inl x
           | Inr out_shape \<Rightarrow> Inr (snd out_shape, fst out_shape))
      | None \<Rightarrow>
          (case vector_at (output_types node) out_port of
             Inl x \<Rightarrow> Inl x
           | Inr dtype \<Rightarrow> Inr (shape, dtype)))"

definition GetInputProperties ::
  "GraphProperties \<Rightarrow> Node \<Rightarrow> int \<Rightarrow> PartialTensorShape \<Rightarrow> fault + (PartialTensorShape \<times> DataType)" where
  "GetInputProperties graph_properties node in_port shape =
     (case input_properties graph_properties (node_name (node_def_of node)) of
        Some input_params \<Rightarrow>
          (case vector_at input_params in_port of
             Inl x \<Rightarrow> Inl x
           | Inr in_shape \<Rightarrow> Inr (snd in_shape, fst in_shape))
      | None \<Rightarrow>
          (case vector_at (input_types node) in_port of
             Inl x \<Rightarrow> Inl x
           | Inr dtype \<Rightarrow> Inr (shape, dtype)))"

subsection \<open>GetCommonNameScope\<close>

text \<open>
  The loop over the common positions of the two names: \<open>i\<close> is the position of the
  heads of the two lists, \<open>last_scope_separator\<close> the value of the C++ variable.
\<close>

fun scope_separator_loop :: "string \<Rightarrow> string \<Rightarrow> nat \<Rightarrow> nat \<Rightarrow> nat" where
  "scope_separator_loop (a # as) (b # bs) i last_scope_separator =
     (if a \<noteq> b then last_scope_separator
      else scope_separator_loop as bs (i + 1)
             (if a = CHR ''/'' then i + 1 else last_scope_separator))"
| "scope_separator_loop [] bs i last_scope_separator = last_scope_separator"
| "scope_separator_loop as [] i last_scope_separator = last_scope_separator"

definition GetCommonNameScope :: "string \<Rightarrow> string \<Rightarrow> string" where
  "GetCommonNameScope op_name_a op_name_b = take (scope_separator_loop op_name_a op_name_b 0 0) op_name_a"

subsection \<open>ConvertSegmentToGraphDef\<close>

text \<open>
  The nodes \<^verbatim>\<open>NodeDefBuilder\<close> finalizes for an input and for an output connection.
  Modelled from the spec: the builder is outside this file; the spec says "emit exactly
  one placeholder node named by a fixed prefix + port number" and "exactly one identity
  node named by a fixed prefix + port number, wired to the inside endpoint".
\<close>

definition placeholder_node :: "string \<Rightarrow> PartialTensorShape \<Rightarrow> DataType \<Rightarrow> NodeDef" where
  "placeholder_node name_v partial_shape dtype =
     \<lparr>node_name = name_v, node_op = ''Placeholder'', node_input = [],
      node_attr = [''shape'' \<mapsto> \<lparr>attr_type = dtype, attr_b = False, attr_shape = partial_shape\<rparr>,
                   ''dtype'' \<mapsto> \<lparr>attr_type = dtype, attr_b = False, attr_shape = None\<rparr>]\<rparr>"

definition identity_node :: "string \<Rightarrow> string \<Rightarrow> DataType \<Rightarrow> NodeDef" where
  "identity_node name_v input_v dtype =
     \<lparr>node_name = name_v, node_op = ''Identity'', node_input = [input_v],
      node_attr = [''T'' \<mapsto> \<lparr>attr_type = dtype, attr_b = False, attr_shape = None\<rparr>]\<rparr>"

text \<open>
  First loop, one connection: the state is the set \<open>marker_nodes\<close> and the fragment
  \<open>segment_def\<close>; the value is the connection with shape and type filled in.
\<close>

definition add_marker_node ::
  "Graph \<Rightarrow> GraphProperties \<Rightarrow> EngineConnection \<Rightarrow> string set \<times> NodeDef list
     \<Rightarrow> (string set \<times> NodeDef list, EngineConnection) call" where
  "add_marker_node graph graph_properties connection st =
     (let marker_nodes = fst st; segment_def = snd st
      in if is_control_edge connection then Done connection st
         else
           (case graph (outside_id connection) of
              None \<Rightarrow> Fail NotFound st
            | Some outside_node \<Rightarrow>
                or_crash
                  (if is_input_edge connection
                   then GetOutputProperties graph_properties outside_node (outside_port connection) None
                   else GetInputProperties graph_properties outside_node (outside_port connection) None)
                  (\<lambda>(partial_shape, dtype).
                     let connection =
                           (if is_input_edge connection
                            then connection\<lparr>outside_shape := partial_shape\<rparr>
                            else connection\<lparr>inside_shape := partial_shape\<rparr>)\<lparr>connection_type := dtype\<rparr>
                     in if is_input_edge connection then
                          (let node_name_v = kInputPHName @ string_of_int (port_number connection)
                           in if node_name_v \<in> marker_nodes then Done connection st
                              else Done connection
                                     (insert node_name_v marker_nodes,
                                      segment_def @ [placeholder_node node_name_v partial_shape dtype]))
                        else
                          (let node_name_v = kOutputPHName @ string_of_int (port_number connection)
                           in if node_name_v \<in> marker_nodes then Done connection st
                              else Done connection
                                     (insert node_name_v marker_nodes,
                                      segment_def @ [identity_node node_name_v
                                                       (inside_node_name connection) dtype])))))"

text \<open>
  The first loop over all connections; \<open>done_v\<close> are the connections already visited,
  as the loop left them.
\<close>

fun add_marker_nodes ::
  "Graph \<Rightarrow> GraphProperties \<Rightarrow> EngineConnection list \<Rightarrow> EngineConnection list
     \<Rightarrow> string set \<times> NodeDef list
     \<Rightarrow> (EngineConnection list \<times> string set \<times> NodeDef list, unit) call" where
  "add_marker_nodes graph graph_properties [] done_v st = Done () (done_v, st)"
| "add_marker_nodes graph graph_properties (connection # rest) done_v st =
     (case add_marker_node graph graph_properties connection st of
        Crash x \<Rightarrow> Crash x
      | Fail status st1 \<Rightarrow> Fail status (done_v @ connection # rest, st1)
      | Done connection1 st1 \<Rightarrow>
          add_marker_nodes graph graph_properties rest (done_v @ [connection1]) st1)"

text \<open>
  Second loop: the nodes of the segment are copied; the state is the scope, the map from
  node id to position, and the fragment.
\<close>

fun copy_internal_nodes ::
  "Graph \<Rightarrow> int list \<Rightarrow> string \<Rightarrow> (int \<Rightarrow> nat option) \<Rightarrow> NodeDef list
     \<Rightarrow> fault + (string \<times> (int \<Rightarrow> nat option) \<times> NodeDef list)" where
  "copy_internal_nodes graph [] local_scope old_to_new_id_map segment_def =
     Inr (local_scope, old_to_new_id_map, segment_def)"
| "copy_internal_nodes graph (node_id # rest) local_scope old_to_new_id_map segment_def =
     (case graph node_id of
        None \<Rightarrow> Inl NullDereference
      | Some node \<Rightarrow>
          copy_internal_nodes graph rest
            (GetCommonNameScope local_scope (node_name (node_def_of node)))
            (old_to_new_id_map(node_id \<mapsto> length segment_def))
            (segment_def @ [node_def_of node]))"

text \<open>
  Third loop: the input of an inside node that an input connection feeds is set to the
  placeholder's name. \<^verbatim>\<open>old_to_new_id_map[id]\<close> is 0 for an absent key;
  \<^verbatim>\<open>mutable_node\<close> and \<^verbatim>\<open>set_input\<close> need an index in range.
\<close>

definition update_input ::
  "(int \<Rightarrow> nat option) \<Rightarrow> EngineConnection \<Rightarrow> NodeDef list \<Rightarrow> fault + NodeDef list" where
  "update_input old_to_new_id_map connection segment_def =
     (if is_control_edge connection \<or> \<not> is_input_edge connection then Inr segment_def
      else
        let pos = (case old_to_new_id_map (inside_id connection) of None \<Rightarrow> 0 | Some k \<Rightarrow> k);
            placeholder_name = kInputPHName @ string_of_int (port_number connection)
        in if \<not> pos < length segment_def then Inl IndexOutOfRange
           else
             let snode = segment_def ! pos
             in if \<not> (0 \<le> inside_port connection
                       \<and> inside_port connection < int (length (node_input snode)))
                then Inl IndexOutOfRange
                else Inr (segment_def
                            [pos := snode\<lparr>node_input :=
                                (node_input snode)[nat (inside_port connection) := placeholder_name]\<rparr>]))"

fun update_inputs ::
  "(int \<Rightarrow> nat option) \<Rightarrow> EngineConnection list \<Rightarrow> NodeDef list \<Rightarrow> fault + NodeDef list" where
  "update_inputs old_to_new_id_map [] segment_def = Inr segment_def"
| "update_inputs old_to_new_id_map (connection # rest) segment_def =
     (case update_input old_to_new_id_map connection segment_def of
        Inl x \<Rightarrow> Inl x
      | Inr segment_def1 \<Rightarrow> update_inputs old_to_new_id_map rest segment_def1)"

text \<open>
  Fourth loop, one node. \<open>ParseTensorName\<close> (outside this file) is a parameter: it
  gives the node name and the port of an input reference, the port being
  \<open>kControlSlot\<close> for a control input. An input is outside when its node is neither in
  the segment nor named like an input placeholder.
\<close>

definition outside_reference ::
  "(string \<Rightarrow> string \<times> int) \<Rightarrow> string set \<Rightarrow> string \<Rightarrow> bool" where
  "outside_reference ParseTensorName subgraph_node_names input_v =
     (let input_id = ParseTensorName input_v
      in fst input_id \<notin> subgraph_node_names \<and> \<not> StartsWith (fst input_id) kInputPHName)"

text \<open>
  The \<^verbatim>\<open>while (input_idx < input_size)\<close> loop on the inputs of one node, which are
  moved in place: the result is the error flag, the inputs, and \<open>actual_input_idx\<close>.
\<close>

function remove_control_inputs_loop ::
  "(string \<Rightarrow> string \<times> int) \<Rightarrow> string set \<Rightarrow> nat \<Rightarrow> string list \<Rightarrow> nat \<Rightarrow> nat
     \<Rightarrow> bool \<times> string list \<times> nat" where
  "remove_control_inputs_loop ParseTensorName subgraph_node_names input_size input_v input_idx actual_input_idx =
     (if input_idx < input_size then
        (if outside_reference ParseTensorName subgraph_node_names (input_v ! input_idx) then
           (if snd (ParseTensorName (input_v ! input_idx)) = kControlSlot
            then remove_control_inputs_loop ParseTensorName subgraph_node_names input_size input_v
                   (input_idx + 1) actual_input_idx
            else (True, input_v, actual_input_idx))
         else
           remove_control_inputs_loop ParseTensorName subgraph_node_names input_size
             (if actual_input_idx \<noteq> input_idx then input_v[actual_input_idx := input_v ! input_idx]
              else input_v)
             (input_idx + 1) (actual_input_idx + 1))
      else (False, input_v, actual_input_idx))"
  by pat_completeness auto
termination
  by (relation "measure (\<lambda>(p, names, input_size, input_v, input_idx, actual_input_idx). input_size - input_idx)")
     auto

declare remove_control_inputs_loop.simps [simp del]

text \<open>
  One node: on an error the function returns at once, the inputs moved so far staying
  where they are; otherwise the last \<open>input_size - actual_input_idx\<close> inputs are
  removed.
\<close>

definition remove_control_inputs ::
  "(string \<Rightarrow> string \<times> int) \<Rightarrow> string set \<Rightarrow> NodeDef \<Rightarrow> (Status \<times> NodeDef) + NodeDef" where
  "remove_control_inputs ParseTensorName subgraph_node_names snode =
     (case remove_control_inputs_loop ParseTensorName subgraph_node_names
             (length (node_input snode)) (node_input snode) 0 0 of
        (failed, input_v, actual_input_idx) \<Rightarrow>
          if failed then Inl (InvalidArgument, snode\<lparr>node_input := input_v\<rparr>)
          else Inr (snode\<lparr>node_input := take actual_input_idx input_v\<rparr>))"

text \<open>
  The fourth loop over the nodes of the fragment: \<open>done_v\<close> are the nodes already
  visited.
\<close>

fun remove_outside_inputs ::
  "(string \<Rightarrow> string \<times> int) \<Rightarrow> string set \<Rightarrow> NodeDef list \<Rightarrow> NodeDef list
     \<Rightarrow> (NodeDef list, unit) call" where
  "remove_outside_inputs ParseTensorName subgraph_node_names [] done_v = Done () done_v"
| "remove_outside_inputs ParseTensorName subgraph_node_names (snode # rest) done_v =
     (case remove_control_inputs ParseTensorName subgraph_node_names snode of
        Inl (status, snode1) \<Rightarrow> Fail status (done_v @ snode1 # rest)
      | Inr snode1 \<Rightarrow>
          remove_outside_inputs ParseTensorName subgraph_node_names rest (done_v @ [snode1]))"

text \<open>
  The fragment after the first three loops, with the connections and the scope: what
  the last loop starts from.
\<close>

definition segment_before_cleanup ::
  "Graph \<Rightarrow> GraphProperties \<Rightarrow> int list \<Rightarrow> EngineConnection list \<Rightarrow> NodeDef list
     \<Rightarrow> (EngineConnection list \<times> NodeDef list, string) call" where
  "segment_before_cleanup graph graph_properties subgraph_node_ids connections segment_def =
     (case add_marker_nodes graph graph_properties connections [] ({}, segment_def) of
        Crash x \<Rightarrow> Crash x
      | Fail status (connections1, marker_nodes, segment_def1) \<Rightarrow> Fail status (connections1, segment_def1)
      | Done u (connections1, marker_nodes, segment_def1) \<Rightarrow>
          (case subgraph_node_ids of
             [] \<Rightarrow> Crash IndexOutOfRange
           | first_id # ids \<Rightarrow>
               or_crash (deref (graph first_id)) (\<lambda>first_node.
               or_crash (copy_internal_nodes graph subgraph_node_ids
                           (node_name (node_def_of first_node)) Map.empty segment_def1)
                 (\<lambda>(local_scope, old_to_new_id_map, segment_def2).
                    or_crash (update_inputs old_to_new_id_map connections1 segment_def2)
                      (\<lambda>segment_def3. Done local_scope (connections1, segment_def3))))))"

text \<open>
  The whole function. The state is the connection list and the fragment (both are
  changed in place); the value is \<open>common_scope\<close>.
\<close>

definition ConvertSegmentToGraphDef ::
  "(string \<Rightarrow> string \<times> int) \<Rightarrow> Graph \<Rightarrow> GraphProperties \<Rightarrow> string set \<Rightarrow> int list
     \<Rightarrow> EngineConnection list \<Rightarrow> NodeDef list
     \<Rightarrow> (EngineConnection list \<times> NodeDef list, string) call" where
  "ConvertSegmentToGraphDef ParseTensorName graph graph_properties subgraph_node_names
       subgraph_node_ids connections segment_def =
     and_then (segment_before_cleanup graph graph_properties subgraph_node_ids connections segment_def)
       (\<lambda>local_scope (connections1, segment_def1).
          (case remove_outside_inputs ParseTensorName subgraph_node_names segment_def1 [] of
             Crash x \<Rightarrow> Crash x
           | Fail status segment_def2 \<Rightarrow> Fail status (connections1, segment_def2)
           | Done u segment_def2 \<Rightarrow> Done local_scope (connections1, segment_def2)))"

text \<open>The Placeholder nodes of a fragment that have a given name, in the order of the fragment.\<close>

definition placeholders_named :: "string \<Rightarrow> NodeDef list \<Rightarrow> NodeDef list" where
  "placeholders_named name_v segment_def =
     filter (\<lambda>n. node_op n = ''Placeholder'' \<and> node_name n = name_v) segment_def"

text \<open>
  An input reference that the last loop refuses: outside the segment, not the name of an
  input placeholder, and not a control input.
\<close>

definition refused_reference ::
  "(string \<Rightarrow> string \<times> int) \<Rightarrow> string set \<Rightarrow> string \<Rightarrow> bool" where
  "refused_reference ParseTensorName subgraph_node_names input_v =
     (outside_reference ParseTensorName subgraph_node_names input_v
      \<and> snd (ParseTensorName input_v) \<noteq> kControlSlot)"

text \<open>
  A sequence of calls of \<open>MaybeUpdateBatchSize\<close> on one converter, each call on the
  state the previous one left: the statuses returned and the final converter.
\<close>

fun MaybeUpdateBatchSize_calls :: "Converter \<Rightarrow> int list \<Rightarrow> Status list \<times> Converter" where
  "MaybeUpdateBatchSize_calls c [] = ([], c)"
| "MaybeUpdateBatchSize_calls c (b # bs) =
     (case MaybeUpdateBatchSize c b of
        Crash f \<Rightarrow> ([], c)
      | Fail st c' \<Rightarrow> (st # fst (MaybeUpdateBatchSize_calls c' bs), snd (MaybeUpdateBatchSize_calls c' bs))
      | Done u c' \<Rightarrow> (OK # fst (MaybeUpdateBatchSize_calls c' bs), snd (MaybeUpdateBatchSize_calls c' bs)))"

subsection \<open>Error statuses\<close>

text \<open>A call that, when it fails, fails with a status other than OK.\<close>

fun fails_with_error :: "('s, 'v) call \<Rightarrow> bool" where
  "fails_with_error (Fail st s) = (\<not> ok st)"
| "fails_with_error (Crash x) = True"
| "fails_with_error (Done v s) = True"

subsection \<open>Values for examples\<close>

definition empty_network :: INetworkDefinition where
  "empty_network = \<lparr>layers = [], tensor_names = (\<lambda>a. None), next_tensor = 0\<rparr>"

definition float_tensor :: "nat \<Rightarrow> int list \<Rightarrow> ITensor" where
  "float_tensor a sizes = \<lparr>tensor_addr = a, tensor_dims = \<lparr>nbDims = int (length sizes), d_arr = sizes\<rparr>,
                           tensor_type = kFLOAT\<rparr>"

definition vector_weights :: "DataType \<Rightarrow> int list \<Rightarrow> TRT_ShapedWeights" where
  "vector_weights t vs = \<lparr>shape_m = \<lparr>nbDims = 1, d_arr = [int (length vs)]\<rparr>, type_m = t, values_m = vs\<rparr>"

definition plain_node :: "string \<Rightarrow> string \<Rightarrow> string list \<Rightarrow> NodeDef" where
  "plain_node n op_v ins = \<lparr>node_name = n, node_op = op_v, node_input = ins, node_attr = (\<lambda>k. None)\<rparr>"

definition validation_params :: "NodeDef \<Rightarrow> TRT_TensorOrWeights list \<Rightarrow> OpConverterParams" where
  "validation_params nd ins =
     \<lparr>converter = None, node_def = nd, inputs = ins, outputs = None, validation_only = True,
      weight_store = \<lparr>store_m = []\<rparr>\<rparr>"

definition construction_params :: "Converter \<Rightarrow> NodeDef \<Rightarrow> TRT_TensorOrWeights list \<Rightarrow> OpConverterParams" where
  "construction_params c nd ins =
     \<lparr>converter = Some c, node_def = nd, inputs = ins, outputs = Some [], validation_only = False,
      weight_store = weight_store_m c\<rparr>"

definition new_converter :: Converter where
  "new_converter =
     \<lparr>trt_network_m = empty_network, is_fp16_m = False, batch_size_m = - 1,
      trt_tensors_m = (\<lambda>n. None), weight_store_m = \<lparr>store_m = []\<rparr>\<rparr>"

text \<open>
  An accelerator that accepts every layer and leaves new tensors unnamed, without plugins,
  with the other parameters trivial.
\<close>

definition accepting_externals :: Externals where
  "accepting_externals =
     \<lparr>MakeShape_ok = (\<lambda>dims. True),
      float_to_half_rtne = (\<lambda>x. x), float_neg = (\<lambda>x. x), float_recip = (\<lambda>x. x),
      float_rsqrt = (\<lambda>x. x), half_neg = (\<lambda>x. x), half_rsqrt = (\<lambda>x. x),
      trt_rejects = (\<lambda>net layer. False),
      trt_output_dims = (\<lambda>net layer. \<lparr>nbDims = 0, d_arr = []\<rparr>),
      trt_output_type = (\<lambda>net layer. kFLOAT),
      trt_output_name = (\<lambda>net layer. None),
      IsPlugin = (\<lambda>op_v. False),
      plugin_converter = (\<lambda>params. Fail Unimplemented params),
      other_converter = (\<lambda>op_v params. Fail Unimplemented params)\<rparr>"

text \<open>
  A converter with batch size 2 that holds the tensor \<open>x\<close> of dimensions [3, 4, 4] and
  the one-element weight \<open>w\<close>.
\<close>

definition add_example_converter :: Converter where
  "add_example_converter =
     \<lparr>trt_network_m = \<lparr>layers = [], tensor_names = (\<lambda>a. None), next_tensor = 1\<rparr>,
      is_fp16_m = False, batch_size_m = 2,
      trt_tensors_m = [''x'' \<mapsto> TensorOrWeights_of_tensor (Some (float_tensor 0 [3, 4, 4])) 2,
                       ''w'' \<mapsto> TensorOrWeights_of_weights (vector_weights DT_FLOAT [5])],
      weight_store_m = \<lparr>store_m = []\<rparr>\<rparr>"

text \<open>
  A MatMul node with the attributes \<open>T\<close> (float), \<open>transpose_a\<close> (false) and
  \<open>transpose_b\<close> (true), and its inputs: a tensor of dimensions [2] and a 3 by 2 float
  weight.
\<close>

definition MatMul_example_node :: NodeDef where
  "MatMul_example_node =
     \<lparr>node_name = ''m'', node_op = ''MatMul'', node_input = [''x'', ''w''],
      node_attr = (\<lambda>k. if k = ''T'' then Some \<lparr>attr_type = DT_FLOAT, attr_b = False, attr_shape = None\<rparr>
                       else if k = ''transpose_a'' then Some \<lparr>attr_type = DT_FLOAT, attr_b = False, attr_shape = None\<rparr>
                       else if k = ''transpose_b'' then Some \<lparr>attr_type = DT_FLOAT, attr_b = True, attr_shape = None\<rparr>
                       else None)\<rparr>"

definition MatMul_example_inputs :: "TRT_TensorOrWeights list" where
  "MatMul_example_inputs =
     [TensorOrWeights_of_tensor (Some (float_tensor 0 [2])) 4,
      TensorOrWeights_of_weights
        \<lparr>shape_m = \<lparr>nbDims = 2, d_arr = [3, 2]\<rparr>, type_m = DT_FLOAT, values_m = [1, 2, 3, 4, 5, 6]\<rparr>]"

text \<open>
  A segment of two nodes, \<open>s/x\<close> (id 2) and \<open>s/y\<close> (id 3). Output 0 of the outside
  node \<open>a\<close> (id 1) feeds both, \<open>s/x\<close> has a control input from the outside node
  \<open>c\<close> (id 5), and the outside node \<open>o\<close> (id 4) reads \<open>s/y\<close>. The two input
  connections share port number 0.
\<close>

definition segment_example_graph :: Graph where
  "segment_example_graph =
     (\<lambda>node_id.
        if node_id = 1 then
          Some \<lparr>node_def_of = plain_node ''a'' ''Const'' [], output_types = [DT_FLOAT], input_types = []\<rparr>
        else if node_id = 2 then
          Some \<lparr>node_def_of = plain_node ''s/x'' ''Relu'' [''a'', ''^c''],
                output_types = [DT_FLOAT], input_types = [DT_FLOAT]\<rparr>
        else if node_id = 3 then
          Some \<lparr>node_def_of = plain_node ''s/y'' ''Add'' [''s/x'', ''a''],
                output_types = [DT_FLOAT], input_types = [DT_FLOAT, DT_FLOAT]\<rparr>
        else if node_id = 4 then
          Some \<lparr>node_def_of = plain_node ''o'' ''Identity'' [''s/y''],
                output_types = [DT_FLOAT], input_types = [DT_FLOAT]\<rparr>
        else if node_id = 5 then
          Some \<lparr>node_def_of = plain_node ''c'' ''NoOp'' [], output_types = [], input_types = []\<rparr>
        else None)"

definition segment_example_properties :: GraphProperties where
  "segment_example_properties =
     \<lparr>output_properties = (\<lambda>n. if n = ''a'' then Some [(DT_FLOAT, Some [2, 3])] else None),
      input_properties = (\<lambda>n. None)\<rparr>"

definition example_edge ::
  "string \<Rightarrow> int \<Rightarrow> int \<Rightarrow> string \<Rightarrow> int \<Rightarrow> int \<Rightarrow> bool \<Rightarrow> bool \<Rightarrow> int \<Rightarrow> EngineConnection" where
  "example_edge outside_name_v outside_id_v outside_port_v inside_name_v inside_id_v inside_port_v
       input_edge control_edge port_v =
     \<lparr>outside_node_name = outside_name_v, outside_id = outside_id_v, outside_port = outside_port_v,
      outside_shape = None,
      inside_node_name = inside_name_v, inside_id = inside_id_v, inside_port = inside_port_v,
      inside_shape = None,
      connection_type = DT_OTHER 0, is_input_edge = input_edge, is_control_edge = control_edge,
      port_number = port_v\<rparr>"

definition segment_example_connections :: "EngineConnection list" where
  "segment_example_connections =
     [example_edge ''a'' 1 0 ''s/x'' 2 0 True False 0,
      example_edge ''a'' 1 0 ''s/y'' 3 1 True False 0,
      example_edge ''c'' 5 kControlSlot ''s/x'' 2 kControlSlot True True kControlSlot,
      example_edge ''o'' 4 0 ''s/y'' 3 0 False False 0]"

text \<open>
  The connections as the first loop leaves them, and the fragment when the function
  returns.
\<close>

definition segment_example_connections_after :: "EngineConnection list" where
  "segment_example_connections_after =
     [(example_edge ''a'' 1 0 ''s/x'' 2 0 True False 0)
        \<lparr>outside_shape := Some [2, 3], connection_type := DT_FLOAT\<rparr>,
      (example_edge ''a'' 1 0 ''s/y'' 3 1 True False 0)
        \<lparr>outside_shape := Some [2, 3], connection_type := DT_FLOAT\<rparr>,
      example_edge ''c'' 5 kControlSlot ''s/x'' 2 kControlSlot True True kControlSlot,
      (example_edge ''o'' 4 0 ''s/y'' 3 0 False False 0)\<lparr>connection_type := DT_FLOAT\<rparr>]"

definition segment_example_fragment :: "NodeDef list" where
  "segment_example_fragment =
     [placeholder_node ''TensorRTInputPH_0'' (Some [2, 3]) DT_FLOAT,
      identity_node ''TensorRTOutputPH_0'' ''s/y'' DT_FLOAT,
      plain_node ''s/x'' ''Relu'' [''TensorRTInputPH_0''],
      plain_node ''s/y'' ''Add'' [''s/x'', ''TensorRTInputPH_0'']]"

text \<open>
  How a reference without a port suffix is read: a leading \<open>^\<close> marks a control input,
  any other reference names output 0.
\<close>

definition example_ParseTensorName :: "string \<Rightarrow> string \<times> int" where
  "example_ParseTensorName s =
     (case s of [] \<Rightarrow> ([], 0)
      | c # rest \<Rightarrow> if c = CHR ''^'' then (rest, kControlSlot) else (s, 0))"

section \<open>Verified properties\<close>

subsection \<open>Broadcast shapes\<close>

lemma compare_broadcast_feasibility_iff:
  "compare_broadcast_feasibility l_s r_s n =
     (\<forall>i<n. \<not> (l_s ! i \<noteq> r_s ! i \<and> l_s ! i \<noteq> 1 \<and> r_s ! i \<noteq> 1))"
  by (induction n) (auto simp: less_Suc_eq)

lemma compare_broadcast_feasibility_append:
  "n \<le> length l_s \<Longrightarrow> n \<le> length r_s \<Longrightarrow>
   compare_broadcast_feasibility (l_s @ ls') (r_s @ rs') n = compare_broadcast_feasibility l_s r_s n"
  by (simp add: compare_broadcast_feasibility_iff nth_append)

lemma memcpy_into_ones:
  assumes "off + nb \<le> N" and "nb \<le> length src"
  shows "memcpy_int (replicate N 1) off src nb
        = (replicate off 1 @ take nb src) @ replicate (N - (off + nb)) 1"
  using assms by (simp add: memcpy_int_def min_def)

lemma broadcast_buffer:
  assumes "wf_Dims operand" and "nbDims operand \<le> max_d" and "max_d \<le> int MAX_DIMS + 1" and "0 < max_d"
  shows "(let s = memcpy_int (replicate (MAX_DIMS + 1) 1) (nat (max_d - nbDims operand))
                    (d_arr operand) (nat (nbDims operand))
          in if as_tensor then s[0 := - 1] else s)
         = aligned_shape operand as_tensor (nat max_d) @ replicate (MAX_DIMS + 1 - nat max_d) 1"
    and "length (aligned_shape operand as_tensor (nat max_d)) = nat max_d"
proof -
  define nb where "nb = nat (nbDims operand)"
  define off where "off = nat (max_d - nbDims operand)"
  define A where "A = replicate off (1::int) @ take nb (d_arr operand)"
  define P where "P = replicate (MAX_DIMS + 1 - nat max_d) (1::int)"
  have nb: "nb \<le> length (d_arr operand)" and nb0: "0 \<le> nbDims operand"
    using assms(1) by (simp_all add: wf_Dims_def nb_def)
  have off: "off = nat max_d - nb" using nb0 assms(2) by (simp add: off_def nb_def)
  have sum: "off + nb = nat max_d" using nb0 assms(2) by (simp add: off_def nb_def)
  have len: "length A = nat max_d"
    using nb sum by (simp add: A_def)
  have bound: "off + nb \<le> MAX_DIMS + 1" using assms(3) assms(4) sum by linarith
  have m: "memcpy_int (replicate (MAX_DIMS + 1) 1) off (d_arr operand) nb = A @ P"
    using memcpy_into_ones [OF bound nb] by (simp only: sum A_def P_def)
  have pos: "0 < length A" using len assms(4) by simp
  have al: "aligned_shape operand as_tensor (nat max_d) = (if as_tensor then A[0 := - 1] else A)"
    by (simp add: aligned_shape_def dims_of_def A_def off nb_def)
  show "length (aligned_shape operand as_tensor (nat max_d)) = nat max_d"
    using len by (simp add: al)
  have "(let s = memcpy_int (replicate (MAX_DIMS + 1) 1) off (d_arr operand) nb
          in if as_tensor then s[0 := - 1] else s)
         = aligned_shape operand as_tensor (nat max_d) @ P"
    unfolding Let_def m al using pos by (simp add: list_update_append1)
  then show "(let s = memcpy_int (replicate (MAX_DIMS + 1) 1) (nat (max_d - nbDims operand))
                    (d_arr operand) (nat (nbDims operand))
          in if as_tensor then s[0 := - 1] else s)
         = aligned_shape operand as_tensor (nat max_d) @ replicate (MAX_DIMS + 1 - nat max_d) 1"
    by (simp only: off_def nb_def P_def)
qed

lemma strip_batch_slot:
  "length s = n \<Longrightarrow> 0 < n \<Longrightarrow> take (n - 1) (drop 1 (s @ pad)) = tl s"
  by (cases s) simp_all


lemma TensorRTGetBroadcastShape_eq_spec:
  assumes l: "wf_Dims operand_l" and r: "wf_Dims operand_r"
    and pos: "0 < max (padded_rank operand_l l_is_tensor) (padded_rank operand_r r_is_tensor)"
  shows "TensorRTGetBroadcastShape operand_l l_is_tensor operand_r r_is_tensor
       = broadcast_spec operand_l l_is_tensor operand_r r_is_tensor"
proof -
  define max_d where "max_d = max (padded_rank operand_l l_is_tensor) (padded_rank operand_r r_is_tensor)"
  define L where "L = aligned_shape operand_l l_is_tensor (nat max_d)"
  define R where "R = aligned_shape operand_r r_is_tensor (nat max_d)"
  define P where "P = replicate (MAX_DIMS + 1 - nat max_d) (1::int)"
  have p0: "0 < max_d" using pos by (simp add: max_d_def)
  have lb: "nbDims operand_l \<le> max_d" and rb: "nbDims operand_r \<le> max_d"
    by (simp_all add: max_d_def padded_rank_def max_def)
  have ub: "max_d \<le> int MAX_DIMS + 1"
    using l r by (simp add: max_d_def padded_rank_def wf_Dims_def max_def)
  note bl = broadcast_buffer [OF l lb ub p0, of l_is_tensor, folded L_def P_def]
  note br = broadcast_buffer [OF r rb ub p0, of r_is_tensor, folded R_def P_def]
  have lenL: "length L = nat max_d" and lenR: "length R = nat max_d"
    using bl(2) br(2) by simp_all
  have feas: "compare_broadcast_feasibility (L @ P) (R @ P) (nat max_d)
      = (\<not> (\<exists>i < nat max_d. L ! i \<noteq> R ! i \<and> L ! i \<noteq> 1 \<and> R ! i \<noteq> 1))"
  proof -
    have "compare_broadcast_feasibility (L @ P) (R @ P) (nat max_d)
        = compare_broadcast_feasibility L R (nat max_d)"
      by (rule compare_broadcast_feasibility_append) (simp_all add: lenL lenR)
    then show ?thesis by (simp add: compare_broadcast_feasibility_iff)
  qed
  have n1: "nat (max_d - 1) = nat max_d - 1" using p0 by simp
  have sl: "take (nat (max_d - 1)) (drop 1 (L @ P)) = tl L"
    unfolding n1 using lenL p0 by (intro strip_batch_slot) simp_all
  have sr: "take (nat (max_d - 1)) (drop 1 (R @ P)) = tl R"
    unfolding n1 using lenR p0 by (intro strip_batch_slot) simp_all
  have pl: "(if l_is_tensor then nbDims operand_l + 1 else nbDims operand_l) = padded_rank operand_l l_is_tensor"
    and pr: "(if r_is_tensor then nbDims operand_r + 1 else nbDims operand_r) = padded_rank operand_r r_is_tensor"
    by (simp_all add: padded_rank_def)
  have impl: "TensorRTGetBroadcastShape operand_l l_is_tensor operand_r r_is_tensor =
      (if l_is_tensor \<and> max_d \<noteq> padded_rank operand_l l_is_tensor then None
       else if r_is_tensor \<and> max_d \<noteq> padded_rank operand_r r_is_tensor then None
       else if \<not> compare_broadcast_feasibility (L @ P) (R @ P) (nat max_d) then None
       else Some (\<lparr>nbDims = max_d - 1, d_arr = take (nat (max_d - 1)) (drop 1 (L @ P))\<rparr>,
                  \<lparr>nbDims = max_d - 1, d_arr = take (nat (max_d - 1)) (drop 1 (R @ P))\<rparr>))"
    apply (unfold TensorRTGetBroadcastShape_def Let_def)
    apply (unfold pl pr)
    apply (fold max_d_def)
    apply (unfold bl(1) [unfolded Let_def] br(1) [unfolded Let_def])
    apply (rule refl)
    done
  have spec: "broadcast_spec operand_l l_is_tensor operand_r r_is_tensor =
      (if (l_is_tensor \<and> padded_rank operand_l l_is_tensor \<noteq> max_d)
            \<or> (r_is_tensor \<and> padded_rank operand_r r_is_tensor \<noteq> max_d)
            \<or> (\<exists>i < nat max_d. L ! i \<noteq> R ! i \<and> L ! i \<noteq> 1 \<and> R ! i \<noteq> 1)
         then None
         else Some (\<lparr>nbDims = max_d - 1, d_arr = tl L\<rparr>, \<lparr>nbDims = max_d - 1, d_arr = tl R\<rparr>))"
    unfolding broadcast_spec_def Let_def max_d_def [symmetric] L_def [symmetric] R_def [symmetric] ..
  show ?thesis
    unfolding impl spec feas sl sr by (cases l_is_tensor; cases r_is_tensor; simp)
qed


lemma broadcast_example:
  "TensorRTGetBroadcastShape \<lparr>nbDims = 1, d_arr = [3]\<rparr> True \<lparr>nbDims = 2, d_arr = [1, 3]\<rparr> False
     = Some (\<lparr>nbDims = 1, d_arr = [3]\<rparr>, \<lparr>nbDims = 1, d_arr = [3]\<rparr>)"
  by (simp add: TensorRTGetBroadcastShape_def MAX_DIMS_def memcpy_int_def Let_def eval_nat_numeral)

text \<open>
  C1. For well-formed operand shapes, not both of padded rank 0, \<open>TensorRTGetBroadcastShape\<close>
  computes what the specification says: with \<open>max_d\<close> the larger of the two padded ranks
  (rank + 1 for a tensor, rank for a weight), each shape is right-aligned to \<open>max_d\<close> axes,
  padded with 1 on the left, its batch slot (index 0) set to -1 if it is a tensor; the call
  fails when a tensor's padded rank is not \<open>max_d\<close> or when on some axis the two aligned
  sizes differ and neither is 1; otherwise it returns both aligned shapes without the batch
  slot, of rank \<open>max_d - 1\<close>. For the tensor of TRT dims [3] and the weight [1, 3] both
  returned shapes are [3].
\<close>

theorem TensorRTGetBroadcastShape_correct:
  assumes "wf_Dims operand_l" and "wf_Dims operand_r"
    and "0 < max (padded_rank operand_l l_is_tensor) (padded_rank operand_r r_is_tensor)"
  shows "TensorRTGetBroadcastShape operand_l l_is_tensor operand_r r_is_tensor =
     (let max_d = max (padded_rank operand_l l_is_tensor) (padded_rank operand_r r_is_tensor);
          l_s = aligned_shape operand_l l_is_tensor (nat max_d);
          r_s = aligned_shape operand_r r_is_tensor (nat max_d)
      in if (l_is_tensor \<and> padded_rank operand_l l_is_tensor \<noteq> max_d)
            \<or> (r_is_tensor \<and> padded_rank operand_r r_is_tensor \<noteq> max_d)
            \<or> (\<exists>i < nat max_d. l_s ! i \<noteq> r_s ! i \<and> l_s ! i \<noteq> 1 \<and> r_s ! i \<noteq> 1)
         then None
         else Some (\<lparr>nbDims = max_d - 1, d_arr = tl l_s\<rparr>, \<lparr>nbDims = max_d - 1, d_arr = tl r_s\<rparr>))
   \<and> TensorRTGetBroadcastShape \<lparr>nbDims = 1, d_arr = [3]\<rparr> True \<lparr>nbDims = 2, d_arr = [1, 3]\<rparr> False
     = Some (\<lparr>nbDims = 1, d_arr = [3]\<rparr>, \<lparr>nbDims = 1, d_arr = [3]\<rparr>)"
  using TensorRTGetBroadcastShape_eq_spec [OF assms] broadcast_example
  by (simp only: broadcast_spec_def simp_thms)

theorem TensorRTGetBroadcastShape_correct_witness:
  "TensorRTGetBroadcastShape \<lparr>nbDims = 3, d_arr = [1, 3, 5]\<rparr> True
       \<lparr>nbDims = 4, d_arr = [1, 1, 3, 1]\<rparr> False
     = Some (\<lparr>nbDims = 3, d_arr = [1, 3, 5]\<rparr>, \<lparr>nbDims = 3, d_arr = [1, 3, 1]\<rparr>)
   \<and> TensorRTGetBroadcastShape \<lparr>nbDims = 3, d_arr = [3, 5, 1]\<rparr> True
       \<lparr>nbDims = 7, d_arr = [1, 1, 1, 1, 3, 5, 1]\<rparr> False = None"
proof -
  have a: "wf_Dims \<lparr>nbDims = 3, d_arr = [1, 3, 5]\<rparr>" "wf_Dims \<lparr>nbDims = 4, d_arr = [1, 1, 3, 1]\<rparr>"
    "wf_Dims \<lparr>nbDims = 3, d_arr = [3, 5, 1]\<rparr>" "wf_Dims \<lparr>nbDims = 7, d_arr = [1, 1, 1, 1, 3, 5, 1]\<rparr>"
    by (simp_all add: wf_Dims_def MAX_DIMS_def)
  have p: "0 < max (padded_rank \<lparr>nbDims = 3, d_arr = [1, 3, 5]\<rparr> True)
                   (padded_rank \<lparr>nbDims = 4, d_arr = [1, 1, 3, 1]\<rparr> False)"
    "0 < max (padded_rank \<lparr>nbDims = 3, d_arr = [3, 5, 1]\<rparr> True)
             (padded_rank \<lparr>nbDims = 7, d_arr = [1, 1, 1, 1, 3, 5, 1]\<rparr> False)"
    by (simp_all add: padded_rank_def)
  from TensorRTGetBroadcastShape_correct [OF a(1) a(2) p(1)]
  have 1: "TensorRTGetBroadcastShape \<lparr>nbDims = 3, d_arr = [1, 3, 5]\<rparr> True
       \<lparr>nbDims = 4, d_arr = [1, 1, 3, 1]\<rparr> False
     = Some (\<lparr>nbDims = 3, d_arr = [1, 3, 5]\<rparr>, \<lparr>nbDims = 3, d_arr = [1, 3, 1]\<rparr>)"
    by (simp add: padded_rank_def aligned_shape_def dims_of_def Let_def eval_nat_numeral
        Ex_less_Suc All_less_Suc)
  from TensorRTGetBroadcastShape_correct [OF a(3) a(4) p(2)]
  have 2: "TensorRTGetBroadcastShape \<lparr>nbDims = 3, d_arr = [3, 5, 1]\<rparr> True
       \<lparr>nbDims = 7, d_arr = [1, 1, 1, 1, 3, 5, 1]\<rparr> False = None"
    by (simp add: padded_rank_def Let_def)
  from 1 2 show ?thesis by simp
qed

subsection \<open>Same padding\<close>

lemma cpp_div_nonneg: "0 \<le> a \<Longrightarrow> 0 < b \<Longrightarrow> cpp_div a b = a div b"
  by (cases "a = 0") (simp_all add: cpp_div_def)

lemma to_int32_id: "- (2 ^ 31) \<le> x \<Longrightarrow> x < 2 ^ 31 \<Longrightarrow> to_int32 x = x"
  by (simp add: to_int32_def)

lemma same_padding_total_bounds:
  fixes input_i stride_i kernel_i :: int
  assumes "0 < input_i" "0 < stride_i"
  shows "kernel_i - stride_i \<le> ((input_i - 1) div stride_i) * stride_i + kernel_i - input_i"
    and "((input_i - 1) div stride_i) * stride_i + kernel_i - input_i \<le> kernel_i - 1"
proof -
  have eq: "((input_i - 1) div stride_i) * stride_i = (input_i - 1) - (input_i - 1) mod stride_i"
    by (simp add: minus_mod_eq_div_mult)
  have m0: "0 \<le> (input_i - 1) mod stride_i" using assms by simp
  have m1: "(input_i - 1) mod stride_i < stride_i" using assms by simp
  show "kernel_i - stride_i \<le> ((input_i - 1) div stride_i) * stride_i + kernel_i - input_i"
    using eq m1 by linarith
  show "((input_i - 1) div stride_i) * stride_i + kernel_i - input_i \<le> kernel_i - 1"
    using eq m0 by linarith
qed

lemma same_padding_axis_eq:
  assumes "0 < input_i" "input_i \<le> INT64_MAX"
    and "0 < stride_i" "stride_i \<le> INT32_MAX"
    and "0 < kernel_i" "kernel_i \<le> INT32_MAX"
  shows "same_padding_axis stride_i kernel_i input_i =
     (let p = max 0 (((input_i - 1) div stride_i) * stride_i + kernel_i - input_i)
      in (p div 2, p - p div 2))"
proof -
  let ?t = "((input_i - 1) div stride_i) * stride_i + kernel_i - input_i"
  have lo: "kernel_i - stride_i \<le> ?t" and hi: "?t \<le> kernel_i - 1"
    using same_padding_total_bounds [OF assms(1) assms(3)] by blast+
  have "- (2 ^ 31) \<le> ?t" using lo assms by (simp add: INT32_MAX_def)
  moreover have "?t < 2 ^ 31" using hi assms by (simp add: INT32_MAX_def)
  ultimately have t32: "to_int32 ?t = ?t" by (rule to_int32_id)
  have d: "cpp_div (input_i - 1) stride_i = (input_i - 1) div stride_i"
    using assms by (simp add: cpp_div_nonneg)
  have h: "cpp_div (max 0 ?t) 2 = max 0 ?t div 2"
    by (simp add: cpp_div_nonneg)
  have m: "(if ?t > 0 then ?t else 0) = max 0 ?t" by simp
  show ?thesis
    unfolding same_padding_axis_def Let_def d t32 m h by simp
qed

lemma same_padding_axis_example: "same_padding_axis 2 3 7 = (1, 1)"
  by (simp add: same_padding_axis_def to_int32_def cpp_div_def Let_def)

text \<open>
  C7. For a spatial axis with positive input size, stride and kernel size (within the
  ranges of their C++ types), \<open>CreateSamePadding\<close> returns for that axis the pair
  \<open>(left, right)\<close> with \<open>p = max 0 (((input - 1) div stride) * stride + kernel - input)\<close>,
  \<open>left = p div 2\<close> and \<open>right = p - left\<close>, so \<open>left \<le> right\<close>; for input 7,
  stride 2 and kernel 3 the total is 2, split as (1, 1).
\<close>

theorem CreateSamePadding_formula:
  assumes "nbDims stride = int (length input_dims)"
    and "i < length input_dims"
    and "0 < input_dims ! i" "input_dims ! i \<le> INT64_MAX"
    and "0 < d_arr stride ! i" "d_arr stride ! i \<le> INT32_MAX"
    and "0 < d_arr kernel_hw ! i" "d_arr kernel_hw ! i \<le> INT32_MAX"
  shows "\<exists>padding p. CreateSamePadding stride kernel_hw input_dims = Inr padding
      \<and> length padding = length input_dims
      \<and> p = max 0 (((input_dims ! i - 1) div (d_arr stride ! i)) * (d_arr stride ! i)
                     + d_arr kernel_hw ! i - input_dims ! i)
      \<and> padding ! i = (p div 2, p - p div 2)
      \<and> fst (padding ! i) \<le> snd (padding ! i)
      \<and> fst (padding ! i) + snd (padding ! i) = p
      \<and> same_padding_axis 2 3 7 = (1, 1)"
proof -
  let ?p = "max 0 (((input_dims ! i - 1) div (d_arr stride ! i)) * (d_arr stride ! i)
                     + d_arr kernel_hw ! i - input_dims ! i)"
  let ?padding = "map (\<lambda>i. same_padding_axis (d_arr stride ! i) (d_arr kernel_hw ! i) (input_dims ! i))
                  [0..<length input_dims]"
  have r: "CreateSamePadding stride kernel_hw input_dims = Inr ?padding"
    using assms(1) by (simp add: CreateSamePadding_def)
  have a: "?padding ! i = (?p div 2, ?p - ?p div 2)"
    using assms(2) same_padding_axis_eq [OF assms(3-8)] by (simp add: Let_def)
  note c = same_padding_axis_example
  have "0 \<le> ?p" by simp
  then have le: "?p div 2 \<le> ?p - ?p div 2" by linarith
  show ?thesis
    using r a c le by simp
qed

theorem CreateSamePadding_formula_witness:
  "CreateSamePadding (DimsHW 2 2) (DimsHW 3 3) [7, 7] = Inr [(1, 1), (1, 1)]"
proof -
  have "\<exists>padding p. CreateSamePadding (DimsHW 2 2) (DimsHW 3 3) [7, 7] = Inr padding
      \<and> length padding = length [7, 7 :: int]
      \<and> p = max 0 ((([7, 7] ! 0 - 1) div (d_arr (DimsHW 2 2) ! 0)) * (d_arr (DimsHW 2 2) ! 0)
                     + d_arr (DimsHW 3 3) ! 0 - [7, 7] ! 0)
      \<and> padding ! 0 = (p div 2, p - p div 2)
      \<and> fst (padding ! 0) \<le> snd (padding ! 0)
      \<and> fst (padding ! 0) + snd (padding ! 0) = p
      \<and> same_padding_axis 2 3 7 = (1, 1)"
    by (rule CreateSamePadding_formula)
       (simp_all add: DimsHW_def INT64_MAX_def INT32_MAX_def)
  then show ?thesis
    by (simp add: CreateSamePadding_def DimsHW_def same_padding_axis_example)
qed

subsection \<open>Batch size of the converter\<close>

lemma MaybeUpdateBatchSize_known_fixed:
  "0 \<le> batch_size_m c \<Longrightarrow>
   batch_size_m (snd (MaybeUpdateBatchSize_calls c bs)) = batch_size_m c"
proof (induction bs arbitrary: c)
  case Nil
  then show ?case by simp
next
  case (Cons b bs)
  show ?case
  proof (cases "b < 0 \<or> batch_size_m c = b")
    case True
    then have "MaybeUpdateBatchSize c b = Done () c"
      using Cons.prems by (auto simp: MaybeUpdateBatchSize_def)
    then show ?thesis using Cons.IH [OF Cons.prems] by simp
  next
    case False
    then have "MaybeUpdateBatchSize c b = Fail InvalidArgument c"
      using Cons.prems by (auto simp: MaybeUpdateBatchSize_def)
    then show ?thesis using Cons.IH [OF Cons.prems] by simp
  qed
qed

lemma MaybeUpdateBatchSize_example:
  assumes "batch_size_m c < 0"
  shows "MaybeUpdateBatchSize_calls c [- 1, 4, 5, 4] = ([OK, OK, InvalidArgument, OK], c\<lparr>batch_size_m := 4\<rparr>)"
  using assms by (simp add: MaybeUpdateBatchSize_def)

text \<open>
  C3. A call of \<open>MaybeUpdateBatchSize\<close> returns OK exactly when the stored batch size is
  negative, the candidate is negative, or the two are equal, and otherwise returns
  InvalidArgument and changes nothing; when the stored value is negative and the candidate
  is not, the stored value becomes the candidate, and in every other successful call the
  converter is unchanged. In any sequence of calls a stored value that is known stays as
  it is. From a converter with unknown batch size, the calls with -1, 4, 5, 4 return OK, OK,
  InvalidArgument, OK and leave the batch size 4.
\<close>

theorem MaybeUpdateBatchSize_correct:
  "((\<exists>c'. MaybeUpdateBatchSize c b = Done () c')
      \<longleftrightarrow> (batch_size_m c < 0 \<or> b < 0 \<or> batch_size_m c = b))
   \<and> (\<not> (batch_size_m c < 0 \<or> b < 0 \<or> batch_size_m c = b)
      \<longrightarrow> MaybeUpdateBatchSize c b = Fail InvalidArgument c)
   \<and> (batch_size_m c < 0 \<and> 0 \<le> b
      \<longrightarrow> MaybeUpdateBatchSize c b = Done () (c\<lparr>batch_size_m := b\<rparr>))
   \<and> ((b < 0 \<or> batch_size_m c = b) \<longrightarrow> MaybeUpdateBatchSize c b = Done () c)
   \<and> (0 \<le> batch_size_m c
      \<longrightarrow> batch_size_m (snd (MaybeUpdateBatchSize_calls c bs)) = batch_size_m c)
   \<and> (batch_size_m c < 0
      \<longrightarrow> MaybeUpdateBatchSize_calls c [- 1, 4, 5, 4]
          = ([OK, OK, InvalidArgument, OK], c\<lparr>batch_size_m := 4\<rparr>))"
proof -
  have 1: "(\<exists>c'. MaybeUpdateBatchSize c b = Done () c')
      \<longleftrightarrow> (batch_size_m c < 0 \<or> b < 0 \<or> batch_size_m c = b)"
    by (simp add: MaybeUpdateBatchSize_def)
  have 2: "\<not> (batch_size_m c < 0 \<or> b < 0 \<or> batch_size_m c = b)
      \<longrightarrow> MaybeUpdateBatchSize c b = Fail InvalidArgument c"
    by (simp add: MaybeUpdateBatchSize_def)
  have 3: "batch_size_m c < 0 \<and> 0 \<le> b
      \<longrightarrow> MaybeUpdateBatchSize c b = Done () (c\<lparr>batch_size_m := b\<rparr>)"
    by (simp add: MaybeUpdateBatchSize_def)
  have 4: "(b < 0 \<or> batch_size_m c = b) \<longrightarrow> MaybeUpdateBatchSize c b = Done () c"
    by (auto simp: MaybeUpdateBatchSize_def)
  show ?thesis
    using 1 2 3 4 MaybeUpdateBatchSize_known_fixed [of c bs] MaybeUpdateBatchSize_example [of c]
    by blast
qed

theorem MaybeUpdateBatchSize_correct_witness:
  "MaybeUpdateBatchSize new_converter 4 = Done () (new_converter\<lparr>batch_size_m := 4\<rparr>)
   \<and> MaybeUpdateBatchSize (new_converter\<lparr>batch_size_m := 4\<rparr>) 5
       = Fail InvalidArgument (new_converter\<lparr>batch_size_m := 4\<rparr>)
   \<and> MaybeUpdateBatchSize (new_converter\<lparr>batch_size_m := 4\<rparr>) 4
       = Done () (new_converter\<lparr>batch_size_m := 4\<rparr>)
   \<and> MaybeUpdateBatchSize_calls new_converter [- 1, 4, 5, 4]
       = ([OK, OK, InvalidArgument, OK], new_converter\<lparr>batch_size_m := 4\<rparr>)
   \<and> batch_size_m (snd (MaybeUpdateBatchSize_calls (new_converter\<lparr>batch_size_m := 4\<rparr>) [7, - 1, 4, 0])) = 4"
  using MaybeUpdateBatchSize_correct [of new_converter 4 "[]"]
    MaybeUpdateBatchSize_correct [of "new_converter\<lparr>batch_size_m := 4\<rparr>" 5 "[7, - 1, 4, 0]"]
    MaybeUpdateBatchSize_correct [of "new_converter\<lparr>batch_size_m := 4\<rparr>" 4 "[]"]
  by (simp add: new_converter_def)

subsection \<open>Symbol table of the converter\<close>

text \<open>
  C6. \<open>AddTensorOrWeights c name v\<close> returns AlreadyExists and leaves the converter (so
  its symbol table) unchanged when \<open>name\<close> is bound; otherwise it binds \<open>name\<close> to \<open>v\<close>,
  with the converter's batch size stamped on it when \<open>v\<close> is a tensor, and changes
  nothing else; a second insertion under the same name then fails.
  \<open>GetTensorOrWeights c name\<close> returns NotFound exactly when \<open>name\<close> is unbound, and
  otherwise the bound value.
\<close>

theorem AddTensorOrWeights_GetTensorOrWeights_correct:
  "(trt_tensors_m c name \<noteq> None \<longrightarrow> AddTensorOrWeights c name v = Fail AlreadyExists c)
   \<and> (trt_tensors_m c name = None \<longrightarrow>
        AddTensorOrWeights c name v =
          Done () (c\<lparr>trt_tensors_m := (trt_tensors_m c)
             (name \<mapsto> (if is_tensor v then v\<lparr>tow_batch_size_m := batch_size_m c\<rparr> else v))\<rparr>))
   \<and> (\<forall>c'. AddTensorOrWeights c name v = Done () c' \<longrightarrow>
          AddTensorOrWeights c' name v' = Fail AlreadyExists c'
          \<and> GetTensorOrWeights c' name
              = Done (if is_tensor v then v\<lparr>tow_batch_size_m := batch_size_m c\<rparr> else v) c')
   \<and> ((\<exists>c'. GetTensorOrWeights c name = Fail NotFound c') \<longleftrightarrow> trt_tensors_m c name = None)
   \<and> (trt_tensors_m c name = None \<longrightarrow> GetTensorOrWeights c name = Fail NotFound c)
   \<and> (\<forall>w. trt_tensors_m c name = Some w \<longrightarrow> GetTensorOrWeights c name = Done w c)"
proof -
  have 1: "trt_tensors_m c name \<noteq> None \<longrightarrow> AddTensorOrWeights c name v = Fail AlreadyExists c"
    by (simp add: AddTensorOrWeights_def Let_def)
  have 2: "trt_tensors_m c name = None \<longrightarrow>
        AddTensorOrWeights c name v =
          Done () (c\<lparr>trt_tensors_m := (trt_tensors_m c)
             (name \<mapsto> (if is_tensor v then v\<lparr>tow_batch_size_m := batch_size_m c\<rparr> else v))\<rparr>)"
    by (simp add: AddTensorOrWeights_def Let_def set_batch_size_def)
  have 3: "\<forall>c'. AddTensorOrWeights c name v = Done () c' \<longrightarrow>
          AddTensorOrWeights c' name v' = Fail AlreadyExists c'
          \<and> GetTensorOrWeights c' name
              = Done (if is_tensor v then v\<lparr>tow_batch_size_m := batch_size_m c\<rparr> else v) c'"
    by (auto simp: AddTensorOrWeights_def GetTensorOrWeights_def Let_def set_batch_size_def
        split: if_splits)
  have 4: "(\<exists>c'. GetTensorOrWeights c name = Fail NotFound c') \<longleftrightarrow> trt_tensors_m c name = None"
    by (auto simp: GetTensorOrWeights_def split: option.splits)
  have 5: "trt_tensors_m c name = None \<longrightarrow> GetTensorOrWeights c name = Fail NotFound c"
    by (simp add: GetTensorOrWeights_def)
  have 6: "\<forall>w. trt_tensors_m c name = Some w \<longrightarrow> GetTensorOrWeights c name = Done w c"
    by (simp add: GetTensorOrWeights_def)
  show ?thesis using 1 2 3 4 5 6 by blast
qed

theorem AddTensorOrWeights_GetTensorOrWeights_correct_witness:
  "GetTensorOrWeights new_converter ''x'' = Fail NotFound new_converter
   \<and> (\<exists>c'. AddTensorOrWeights new_converter ''x''
              (TensorOrWeights_of_weights (TRT_ShapedWeights_of_type DT_FLOAT)) = Done () c'
         \<and> GetTensorOrWeights c' ''x''
              = Done (TensorOrWeights_of_weights (TRT_ShapedWeights_of_type DT_FLOAT)) c'
         \<and> AddTensorOrWeights c' ''x''
              (TensorOrWeights_of_weights (TRT_ShapedWeights_of_type DT_INT32)) = Fail AlreadyExists c')"
proof -
  let ?v = "TensorOrWeights_of_weights (TRT_ShapedWeights_of_type DT_FLOAT)"
  let ?v' = "TensorOrWeights_of_weights (TRT_ShapedWeights_of_type DT_INT32)"
  have unbound: "trt_tensors_m new_converter ''x'' = None"
    by (simp add: new_converter_def)
  have w: "\<not> is_tensor ?v"
    by (simp add: is_tensor_def TensorOrWeights_of_weights_def)
  note t = AddTensorOrWeights_GetTensorOrWeights_correct [of new_converter "''x''" ?v ?v']
  from t unbound have g: "GetTensorOrWeights new_converter ''x'' = Fail NotFound new_converter"
    by blast
  from t unbound w obtain c' where a: "AddTensorOrWeights new_converter ''x'' ?v = Done () c'"
    by blast
  from t have r: "AddTensorOrWeights new_converter ''x'' ?v = Done () c' \<longrightarrow>
      AddTensorOrWeights c' ''x'' ?v' = Fail AlreadyExists c'
      \<and> GetTensorOrWeights c' ''x''
          = Done (if is_tensor ?v then ?v\<lparr>tow_batch_size_m := batch_size_m new_converter\<rparr> else ?v) c'"
    by blast
  have "(if is_tensor ?v then ?v\<lparr>tow_batch_size_m := batch_size_m new_converter\<rparr> else ?v) = ?v"
    using w by simp
  with r a have "AddTensorOrWeights c' ''x'' ?v' = Fail AlreadyExists c'
      \<and> GetTensorOrWeights c' ''x'' = Done ?v c'"
    by metis
  with g a show ?thesis by blast
qed

subsection \<open>Reshape\<close>

lemma to_int64_id: "- (2 ^ 63) \<le> x \<Longrightarrow> x < 2 ^ 63 \<Longrightarrow> to_int64 x = x"
  by (simp add: to_int64_def)

lemma count_vector_weights:
  "length vs < 2 ^ 63 \<Longrightarrow> count (vector_weights ty vs) = int (length vs)"
  by (simp add: count_def vector_weights_def TrtDimsNumElements_def to_int64_id)

lemma wf_vector_weights: "length vs \<le> MAX_DIMS \<Longrightarrow> wf_weights (vector_weights ty vs)"
proof -
  assume l: "length vs \<le> MAX_DIMS"
  then have "length vs < 2 ^ 63" by (simp add: MAX_DIMS_def)
  then have "count (vector_weights ty vs) = int (length vs)" by (rule count_vector_weights)
  then show ?thesis by (simp add: wf_weights_def wf_Dims_def vector_weights_def MAX_DIMS_def)
qed

lemma reshape_inputs_simps:
  "is_tensor (TensorOrWeights_of_tensor tp b)" "tensor (TensorOrWeights_of_tensor tp b) = tp"
  "batch_size (TensorOrWeights_of_tensor tp b) = b"
  "is_weights (TensorOrWeights_of_weights w)" "weights (TensorOrWeights_of_weights w) = w"
  "\<not> is_tensor (TensorOrWeights_of_weights w)" "\<not> is_weights (TensorOrWeights_of_tensor tp b)"
  by (simp_all add: is_tensor_def is_weights_def tensor_def batch_size_def weights_def
      TensorOrWeights_of_tensor_def TensorOrWeights_of_weights_def)

lemma ConvertReshape_unfold:
  assumes "length (inputs params) = 2" and "is_weights (inputs params ! 1)"
    and "count (weights (inputs params ! 1)) \<noteq> 0"
    and "is_tensor (inputs params ! 0)" and "tensor (inputs params ! 0) = Some t"
  shows "ConvertReshape ext params =
     (let input_tensor = inputs params ! 0;
          weights_v = weights (inputs params ! 1);
          reshape_dims = \<lparr>nbDims = count weights_v - 1,
                          d_arr = map (\<lambda>i. values_m weights_v ! i) [1..<nat (count weights_v)]\<rparr>
      in if reshape_may_change_batch_dim (batch_size input_tensor) (values_m weights_v ! 0)
              (tensor_dims t) reshape_dims
         then Fail Unimplemented params
         else if validation_only params then Done () params
         else and_then (via_converter params (\<lambda>c. PrepareTensorForShape ext c input_tensor reshape_dims))
                (\<lambda>output_tensor params.
                   push_back_output params (TensorOrWeights_of_tensor output_tensor unknown_batch_size)))"
  using assms by (simp add: ConvertReshape_def Let_def GetTrtDims_def or_crash_def)


lemma network_add_Fail: "network_add ext c layer = Fail st c' \<Longrightarrow> st = Internal"
  by (auto simp: network_add_def split: option.splits prod.splits)

lemma PrepareTensorForShape_Fail:
  "PrepareTensorForShape ext c input dims = Fail st c' \<Longrightarrow> st = InvalidArgument \<or> st = Internal"
  by (auto simp: PrepareTensorForShape_def Let_def or_crash_def
      split: sum.splits if_splits dest: network_add_Fail)

lemma via_converter_Fail:
  "via_converter params f = Fail st p' \<Longrightarrow> \<exists>c c'. converter params = Some c \<and> f c = Fail st c'"
  by (auto simp: via_converter_def split: option.splits call.splits)

lemma push_back_output_not_Fail: "push_back_output params x \<noteq> Fail st p'"
  by (simp add: push_back_output_def split: option.splits)

lemma and_then_Fail:
  "and_then m f = Fail st s' \<Longrightarrow> m = Fail st s' \<or> (\<exists>v s. m = Done v s \<and> f v s = Fail st s')"
  by (cases m) (simp_all add: and_then_def)

text \<open>
  C10. When the second input of a Reshape node is a weight with zero elements,
  \<open>ConvertReshape\<close> returns Unimplemented and hands back its parameters as they were
  (nothing is added to the network, the outputs or the weight store), whether
  \<open>validation_only\<close> is set or not.
\<close>

theorem ConvertReshape_empty_shape:
  assumes "length (inputs params) = 2" and "is_weights (inputs params ! 1)"
    and "count (weights (inputs params ! 1)) = 0"
  shows "ConvertReshape ext params = Fail Unimplemented params"
  using assms by (simp add: ConvertReshape_def Let_def)

theorem ConvertReshape_empty_shape_witness:
  "(\<forall>ext. ConvertReshape ext
       (validation_params (plain_node ''r'' ''Reshape'' [''x'', ''s''])
          [TensorOrWeights_of_tensor (Some (float_tensor 0 [3, 4])) 4,
           TensorOrWeights_of_weights (vector_weights DT_INT32 [])])
     = Fail Unimplemented
         (validation_params (plain_node ''r'' ''Reshape'' [''x'', ''s''])
            [TensorOrWeights_of_tensor (Some (float_tensor 0 [3, 4])) 4,
             TensorOrWeights_of_weights (vector_weights DT_INT32 [])]))
   \<and> (\<forall>ext. ConvertReshape ext
       (construction_params new_converter (plain_node ''r'' ''Reshape'' [''x'', ''s''])
          [TensorOrWeights_of_tensor (Some (float_tensor 0 [3, 4])) 4,
           TensorOrWeights_of_weights (vector_weights DT_INT32 [])])
     = Fail Unimplemented
         (construction_params new_converter (plain_node ''r'' ''Reshape'' [''x'', ''s''])
            [TensorOrWeights_of_tensor (Some (float_tensor 0 [3, 4])) 4,
             TensorOrWeights_of_weights (vector_weights DT_INT32 [])]))"
proof (intro conjI allI)
  fix ext
  let ?p = "validation_params (plain_node ''r'' ''Reshape'' [''x'', ''s''])
          [TensorOrWeights_of_tensor (Some (float_tensor 0 [3, 4])) 4,
           TensorOrWeights_of_weights (vector_weights DT_INT32 [])]"
  have i: "inputs ?p = [TensorOrWeights_of_tensor (Some (float_tensor 0 [3, 4])) 4,
           TensorOrWeights_of_weights (vector_weights DT_INT32 [])]"
    by (simp add: validation_params_def)
  show "ConvertReshape ext ?p = Fail Unimplemented ?p"
    using ConvertReshape_empty_shape [of ?p ext]
    by (simp add: i reshape_inputs_simps count_vector_weights)
next
  fix ext
  let ?p = "construction_params new_converter (plain_node ''r'' ''Reshape'' [''x'', ''s''])
          [TensorOrWeights_of_tensor (Some (float_tensor 0 [3, 4])) 4,
           TensorOrWeights_of_weights (vector_weights DT_INT32 [])]"
  have i: "inputs ?p = [TensorOrWeights_of_tensor (Some (float_tensor 0 [3, 4])) 4,
           TensorOrWeights_of_weights (vector_weights DT_INT32 [])]"
    by (simp add: construction_params_def)
  show "ConvertReshape ext ?p = Fail Unimplemented ?p"
    using ConvertReshape_empty_shape [of ?p ext]
    by (simp add: i reshape_inputs_simps count_vector_weights)
qed

lemma via_converter_same:
  "converter params = Some c \<Longrightarrow> params\<lparr>converter := Some c\<rparr> = params"
  by simp

lemma vector_weights_values: "values_m (vector_weights ty vs) = vs"
  by (simp add: vector_weights_def)

lemma TrtDimsNumElements_examples:
  "TrtDimsNumElements \<lparr>nbDims = 2, d_arr = [3, 4]\<rparr> = 12"
  "TrtDimsNumElements \<lparr>nbDims = 2, d_arr = [5, 5]\<rparr> = 25"
  "TrtDimsNumElements \<lparr>nbDims = 2, d_arr = [2, 6]\<rparr> = 12"
  "TrtDimsNumElements \<lparr>nbDims = 2, d_arr = [0, 5]\<rparr> = 0"
  "TrtDimsNumElements \<lparr>nbDims = 4, d_arr = [65536, 65536, 65536, 65536]\<rparr> = 0"
  by (simp_all add: TrtDimsNumElements_def to_int64_def eval_nat_numeral)


lemma ConvertReshape_on_inputs:
  assumes "inputs params = [TensorOrWeights_of_tensor (Some t) b, TensorOrWeights_of_weights w]"
    and "count w \<noteq> 0"
    and "rd = \<lparr>nbDims = count w - 1, d_arr = map (\<lambda>i. values_m w ! i) [1..<nat (count w)]\<rparr>"
  shows "ConvertReshape ext params =
     (if reshape_may_change_batch_dim b (values_m w ! 0) (tensor_dims t) rd
      then Fail Unimplemented params
      else if validation_only params then Done () params
      else and_then
             (via_converter params
                (\<lambda>c. PrepareTensorForShape ext c (TensorOrWeights_of_tensor (Some t) b) rd))
             (\<lambda>output_tensor params.
                push_back_output params (TensorOrWeights_of_tensor output_tensor unknown_batch_size)))"
  using ConvertReshape_unfold [of params t ext] assms(2)
  unfolding assms(3) by (simp add: assms(1) reshape_inputs_simps Let_def)

text \<open>
  The element counts wrap around as in the code: four axes of size 65536 count 0
  elements, as does the shape [0, 5], so that this reshape passes the check.
\<close>

lemma ConvertReshape_wrapped_count_example:
  "ConvertReshape ext
     (validation_params (plain_node ''r'' ''Reshape'' [''x'', ''s''])
        [TensorOrWeights_of_tensor (Some (float_tensor 0 [65536, 65536, 65536, 65536])) 4,
         TensorOrWeights_of_weights (vector_weights DT_INT32 [- 1, 0, 5])])
   = Done ()
       (validation_params (plain_node ''r'' ''Reshape'' [''x'', ''s''])
          [TensorOrWeights_of_tensor (Some (float_tensor 0 [65536, 65536, 65536, 65536])) 4,
           TensorOrWeights_of_weights (vector_weights DT_INT32 [- 1, 0, 5])])"
proof -
  let ?p = "validation_params (plain_node ''r'' ''Reshape'' [''x'', ''s''])
        [TensorOrWeights_of_tensor (Some (float_tensor 0 [65536, 65536, 65536, 65536])) 4,
         TensorOrWeights_of_weights (vector_weights DT_INT32 [- 1, 0, 5])]"
  have i: "inputs ?p = [TensorOrWeights_of_tensor (Some (float_tensor 0 [65536, 65536, 65536, 65536])) 4,
         TensorOrWeights_of_weights (vector_weights DT_INT32 [- 1, 0, 5])]"
    and v: "validation_only ?p"
    by (simp_all add: validation_params_def)
  have d: "\<lparr>nbDims = 2, d_arr = [0, 5]\<rparr>
           = \<lparr>nbDims = count (vector_weights DT_INT32 [- 1, 0, 5]) - 1,
              d_arr = map (\<lambda>i. values_m (vector_weights DT_INT32 [- 1, 0, 5]) ! i)
                        [1..<nat (count (vector_weights DT_INT32 [- 1, 0, 5]))]\<rparr>"
    by (simp add: count_vector_weights vector_weights_values) (simp add: eval_nat_numeral)
  have s: "HasStaticShape (tensor_dims (float_tensor 0 [65536, 65536, 65536, 65536]))"
    by (simp add: HasStaticShape_def float_tensor_def eval_nat_numeral)
  have t: "tensor_dims (float_tensor 0 [65536, 65536, 65536, 65536])
             = \<lparr>nbDims = 4, d_arr = [65536, 65536, 65536, 65536]\<rparr>"
    by (simp add: float_tensor_def)
  have c: "count (vector_weights DT_INT32 [- 1, 0, 5]) \<noteq> 0"
    by (simp add: count_vector_weights)
  have r: "\<not> reshape_may_change_batch_dim 4 (values_m (vector_weights DT_INT32 [- 1, 0, 5]) ! 0)
            (tensor_dims (float_tensor 0 [65536, 65536, 65536, 65536])) \<lparr>nbDims = 2, d_arr = [0, 5]\<rparr>"
    unfolding reshape_may_change_batch_dim_def using s
    by (simp add: t TrtDimsNumElements_examples vector_weights_values)
  show ?thesis
    by (simp only: ConvertReshape_on_inputs [OF i c d] r v if_False if_True)
qed

text \<open>
  C2 (as amended). For a Reshape node over a tensor input with a known positive batch size
  and a non-empty shape weight, the element counts being those the code computes in 64
  bits. When the first value of the shape weight is -1 and the input's non-batch
  dimensions are not all static or the element counts of the two shapes differ,
  \<open>ConvertReshape\<close> returns Unimplemented. When the first value equals the input batch
  size, the batch-dimension check passes whatever the trailing values are: the result is
  never Unimplemented, and in validation-only mode the node is accepted (OK). In
  construction mode the trailing values still decide: when none of them is -1 and their
  element count differs from the input's, the result is InvalidArgument; otherwise the
  input tensor itself is the output when the dimensions are equal, and else a shuffle
  layer is added, with Internal when the accelerator refuses it.
\<close>

theorem ConvertReshape_batch_dimension:
  assumes "length (inputs params) = 2"
    and "is_tensor (inputs params ! 0)" and "tensor (inputs params ! 0) = Some t"
    and "is_weights (inputs params ! 1)"
    and "wf_weights (weights (inputs params ! 1))"
    and "0 < count (weights (inputs params ! 1))"
    and "count (weights (inputs params ! 1)) \<le> int MAX_DIMS + 1"
    and "0 < batch_size (inputs params ! 0)"
    and rd: "reshape_dims =
               \<lparr>nbDims = count (weights (inputs params ! 1)) - 1,
                d_arr = map (\<lambda>i. values_m (weights (inputs params ! 1)) ! i)
                          [1..<nat (count (weights (inputs params ! 1)))]\<rparr>"
    and mm: "mismatch \<longleftrightarrow>
               (\<not> list_ex (\<lambda>i. d_arr reshape_dims ! i = - 1) [0..<nat (nbDims reshape_dims)]
                \<and> TrtDimsNumElements (tensor_dims t) \<noteq> TrtDimsNumElements reshape_dims)"
  shows "(values_m (weights (inputs params ! 1)) ! 0 = - 1
          \<and> (\<not> HasStaticShape (tensor_dims t)
               \<or> TrtDimsNumElements reshape_dims \<noteq> TrtDimsNumElements (tensor_dims t))
          \<longrightarrow> ConvertReshape ext params = Fail Unimplemented params)
       \<and> (values_m (weights (inputs params ! 1)) ! 0 = batch_size (inputs params ! 0)
          \<longrightarrow> (\<forall>params'. ConvertReshape ext params \<noteq> Fail Unimplemented params')
            \<and> (validation_only params \<longrightarrow> ConvertReshape ext params = Done () params)
            \<and> (\<not> validation_only params \<and> converter params = Some c \<and> outputs params = Some outs
                 \<longrightarrow> (mismatch \<longrightarrow> ConvertReshape ext params = Fail InvalidArgument params)
                   \<and> (\<not> mismatch \<and> DimsEqual (tensor_dims t) reshape_dims
                        \<longrightarrow> ConvertReshape ext params =
                              Done () (params\<lparr>outputs := Some (outs @
                                 [TensorOrWeights_of_tensor (Some t) unknown_batch_size])\<rparr>))
                   \<and> (\<not> mismatch \<and> \<not> DimsEqual (tensor_dims t) reshape_dims
                        \<longrightarrow> (case add_layer ext (trt_network_m c) (ShuffleLayer t None (Some reshape_dims)) of
                               None \<Rightarrow> ConvertReshape ext params = Fail Internal params
                             | Some (out, net) \<Rightarrow>
                                 ConvertReshape ext params =
                                   Done () (params\<lparr>converter := Some (c\<lparr>trt_network_m := net\<rparr>),
                                                   outputs := Some (outs @
                                                     [TensorOrWeights_of_tensor (Some out) unknown_batch_size])\<rparr>)))))"
proof -
  let ?w = "weights (inputs params ! 1)"
  have ne: "count ?w \<noteq> 0" using assms(6) by simp
  note u = ConvertReshape_unfold [OF assms(1) assms(4) ne assms(2) assms(3), of ext, unfolded Let_def,
                                   folded rd]
  have reject: "values_m ?w ! 0 = - 1
          \<and> (\<not> HasStaticShape (tensor_dims t) \<or> TrtDimsNumElements reshape_dims \<noteq> TrtDimsNumElements (tensor_dims t))
          \<longrightarrow> ConvertReshape ext params = Fail Unimplemented params"
    using assms(8) by (auto simp: u reshape_may_change_batch_dim_def)
  have pass: "values_m ?w ! 0 = batch_size (inputs params ! 0)
      \<Longrightarrow> \<not> reshape_may_change_batch_dim (batch_size (inputs params ! 0)) (values_m ?w ! 0)
             (tensor_dims t) reshape_dims"
    using assms(8) by (simp add: reshape_may_change_batch_dim_def)
  have accept: "values_m ?w ! 0 = batch_size (inputs params ! 0)
          \<longrightarrow> (validation_only params \<longrightarrow> ConvertReshape ext params = Done () params)"
    using pass by (simp add: u)
  have build: "ConvertReshape ext params =
                 and_then
                   (via_converter params (\<lambda>c. PrepareTensorForShape ext c (inputs params ! 0) reshape_dims))
                   (\<lambda>output_tensor params.
                      push_back_output params (TensorOrWeights_of_tensor output_tensor unknown_batch_size))"
    if "values_m ?w ! 0 = batch_size (inputs params ! 0)" "\<not> validation_only params"
    using pass that by (simp add: u)
  have never: "values_m ?w ! 0 = batch_size (inputs params ! 0)
          \<longrightarrow> (\<forall>params'. ConvertReshape ext params \<noteq> Fail Unimplemented params')"
  proof (intro impI allI notI)
    fix params'
    assume eq: "values_m ?w ! 0 = batch_size (inputs params ! 0)"
      and f: "ConvertReshape ext params = Fail Unimplemented params'"
    from f pass [OF eq] have nv: "\<not> validation_only params"
      by (auto simp: u split: if_splits)
    with f build [OF eq] have
      "and_then (via_converter params (\<lambda>c. PrepareTensorForShape ext c (inputs params ! 0) reshape_dims))
         (\<lambda>output_tensor params.
            push_back_output params (TensorOrWeights_of_tensor output_tensor unknown_batch_size))
       = Fail Unimplemented params'"
      by simp
    then have "via_converter params (\<lambda>c. PrepareTensorForShape ext c (inputs params ! 0) reshape_dims)
        = Fail Unimplemented params'"
      by (auto dest!: and_then_Fail simp: push_back_output_not_Fail)
    then obtain c c' where "PrepareTensorForShape ext c (inputs params ! 0) reshape_dims = Fail Unimplemented c'"
      by (auto dest!: via_converter_Fail)
    then show False by (auto dest: PrepareTensorForShape_Fail)
  qed
  have prep: "PrepareTensorForShape ext c (inputs params ! 0) reshape_dims =
      (if mismatch then Fail InvalidArgument c
       else if DimsEqual (tensor_dims t) reshape_dims then Done (Some t) c
       else network_add ext c (ShuffleLayer t None (Some reshape_dims)))"
    using assms(2,3)
    by (simp add: PrepareTensorForShape_def Let_def GetTrtDims_def or_crash_def deref_def mm)
  have constr: "\<not> validation_only params \<and> converter params = Some c \<and> outputs params = Some outs
                 \<longrightarrow> (mismatch \<longrightarrow> ConvertReshape ext params = Fail InvalidArgument params)
                   \<and> (\<not> mismatch \<and> DimsEqual (tensor_dims t) reshape_dims
                        \<longrightarrow> ConvertReshape ext params =
                              Done () (params\<lparr>outputs := Some (outs @
                                 [TensorOrWeights_of_tensor (Some t) unknown_batch_size])\<rparr>))
                   \<and> (\<not> mismatch \<and> \<not> DimsEqual (tensor_dims t) reshape_dims
                        \<longrightarrow> (case add_layer ext (trt_network_m c) (ShuffleLayer t None (Some reshape_dims)) of
                               None \<Rightarrow> ConvertReshape ext params = Fail Internal params
                             | Some (out, net) \<Rightarrow>
                                 ConvertReshape ext params =
                                   Done () (params\<lparr>converter := Some (c\<lparr>trt_network_m := net\<rparr>),
                                                   outputs := Some (outs @
                                                     [TensorOrWeights_of_tensor (Some out) unknown_batch_size])\<rparr>)))"
    if eq: "values_m ?w ! 0 = batch_size (inputs params ! 0)"
  proof (intro impI, elim conjE)
    assume nv: "\<not> validation_only params" and cv: "converter params = Some c"
      and ov: "outputs params = Some outs"
    note b = build [OF eq nv]
    show "(mismatch \<longrightarrow> ConvertReshape ext params = Fail InvalidArgument params)
                   \<and> (\<not> mismatch \<and> DimsEqual (tensor_dims t) reshape_dims
                        \<longrightarrow> ConvertReshape ext params =
                              Done () (params\<lparr>outputs := Some (outs @
                                 [TensorOrWeights_of_tensor (Some t) unknown_batch_size])\<rparr>))
                   \<and> (\<not> mismatch \<and> \<not> DimsEqual (tensor_dims t) reshape_dims
                        \<longrightarrow> (case add_layer ext (trt_network_m c) (ShuffleLayer t None (Some reshape_dims)) of
                               None \<Rightarrow> ConvertReshape ext params = Fail Internal params
                             | Some (out, net) \<Rightarrow>
                                 ConvertReshape ext params =
                                   Done () (params\<lparr>converter := Some (c\<lparr>trt_network_m := net\<rparr>),
                                                   outputs := Some (outs @
                                                     [TensorOrWeights_of_tensor (Some out) unknown_batch_size])\<rparr>)))"
      by (auto simp: b via_converter_def cv ov prep and_then_def push_back_output_def
            network_add_def via_converter_same[OF cv] split: option.splits)
  qed
  from reject accept never constr show ?thesis by blast
qed

theorem ConvertReshape_batch_dimension_witness:
  "(\<forall>ext. ConvertReshape ext
       (validation_params (plain_node ''r'' ''Reshape'' [''x'', ''s''])
          [TensorOrWeights_of_tensor (Some (float_tensor 0 [- 1, 3])) 4,
           TensorOrWeights_of_weights (vector_weights DT_INT32 [- 1, 3])])
     = Fail Unimplemented
         (validation_params (plain_node ''r'' ''Reshape'' [''x'', ''s''])
            [TensorOrWeights_of_tensor (Some (float_tensor 0 [- 1, 3])) 4,
             TensorOrWeights_of_weights (vector_weights DT_INT32 [- 1, 3])]))
   \<and> (\<forall>ext. ConvertReshape ext
       (validation_params (plain_node ''r'' ''Reshape'' [''x'', ''s''])
          [TensorOrWeights_of_tensor (Some (float_tensor 0 [3, 4])) 4,
           TensorOrWeights_of_weights (vector_weights DT_INT32 [4, 5, 5])])
     = Done ()
         (validation_params (plain_node ''r'' ''Reshape'' [''x'', ''s''])
            [TensorOrWeights_of_tensor (Some (float_tensor 0 [3, 4])) 4,
             TensorOrWeights_of_weights (vector_weights DT_INT32 [4, 5, 5])]))
   \<and> (\<forall>ext. ConvertReshape ext
       (construction_params new_converter (plain_node ''r'' ''Reshape'' [''x'', ''s''])
          [TensorOrWeights_of_tensor (Some (float_tensor 0 [3, 4])) 4,
           TensorOrWeights_of_weights (vector_weights DT_INT32 [4, 5, 5])])
     = Fail InvalidArgument
         (construction_params new_converter (plain_node ''r'' ''Reshape'' [''x'', ''s''])
            [TensorOrWeights_of_tensor (Some (float_tensor 0 [3, 4])) 4,
             TensorOrWeights_of_weights (vector_weights DT_INT32 [4, 5, 5])]))
   \<and> (\<exists>params'. ConvertReshape accepting_externals
       (construction_params new_converter (plain_node ''r'' ''Reshape'' [''x'', ''s''])
          [TensorOrWeights_of_tensor (Some (float_tensor 0 [3, 4])) 4,
           TensorOrWeights_of_weights (vector_weights DT_INT32 [4, 2, 6])])
     = Done () params'
     \<and> (\<exists>c' out. converter params' = Some c'
           \<and> layers (trt_network_m c')
               = [ShuffleLayer (float_tensor 0 [3, 4]) None (Some \<lparr>nbDims = 2, d_arr = [2, 6]\<rparr>)]
           \<and> outputs params' = Some [TensorOrWeights_of_tensor (Some out) unknown_batch_size]))"
proof (intro conjI allI)
  fix ext
  let ?p = "validation_params (plain_node ''r'' ''Reshape'' [''x'', ''s''])
          [TensorOrWeights_of_tensor (Some (float_tensor 0 [- 1, 3])) 4,
           TensorOrWeights_of_weights (vector_weights DT_INT32 [- 1, 3])]"
  have i: "inputs ?p = [TensorOrWeights_of_tensor (Some (float_tensor 0 [- 1, 3])) 4,
           TensorOrWeights_of_weights (vector_weights DT_INT32 [- 1, 3])]"
    by (simp add: validation_params_def)
  have ns: "\<not> HasStaticShape (tensor_dims (float_tensor 0 [- 1, 3]))"
    by (simp add: HasStaticShape_def float_tensor_def eval_nat_numeral)
  have v0: "values_m (vector_weights DT_INT32 [- 1, 3]) ! 0 = - 1"
    by (simp add: vector_weights_values)
  show "ConvertReshape ext ?p = Fail Unimplemented ?p"
    using ConvertReshape_batch_dimension
      [where params = ?p and t = "float_tensor 0 [- 1, 3]" and ext = ext, OF _ _ _ _ _ _ _ _ refl refl]
      ns v0
    by (simp add: i reshape_inputs_simps count_vector_weights wf_vector_weights MAX_DIMS_def)
next
  fix ext
  let ?p = "validation_params (plain_node ''r'' ''Reshape'' [''x'', ''s''])
          [TensorOrWeights_of_tensor (Some (float_tensor 0 [3, 4])) 4,
           TensorOrWeights_of_weights (vector_weights DT_INT32 [4, 5, 5])]"
  have i: "inputs ?p = [TensorOrWeights_of_tensor (Some (float_tensor 0 [3, 4])) 4,
           TensorOrWeights_of_weights (vector_weights DT_INT32 [4, 5, 5])]"
    and v: "validation_only ?p"
    by (simp_all add: validation_params_def)
  have v0: "values_m (vector_weights DT_INT32 [4, 5, 5]) ! 0 = 4"
    by (simp add: vector_weights_values)
  show "ConvertReshape ext ?p = Done () ?p"
    using ConvertReshape_batch_dimension
      [where params = ?p and t = "float_tensor 0 [3, 4]" and ext = ext, OF _ _ _ _ _ _ _ _ refl refl]
      v v0
    by (simp add: i reshape_inputs_simps count_vector_weights wf_vector_weights MAX_DIMS_def)
next
  fix ext
  let ?p = "construction_params new_converter (plain_node ''r'' ''Reshape'' [''x'', ''s''])
          [TensorOrWeights_of_tensor (Some (float_tensor 0 [3, 4])) 4,
           TensorOrWeights_of_weights (vector_weights DT_INT32 [4, 5, 5])]"
  have i: "inputs ?p = [TensorOrWeights_of_tensor (Some (float_tensor 0 [3, 4])) 4,
           TensorOrWeights_of_weights (vector_weights DT_INT32 [4, 5, 5])]"
    and v: "\<not> validation_only ?p" and cv: "converter ?p = Some new_converter"
    and ov: "outputs ?p = Some []"
    by (simp_all add: construction_params_def)
  have d: "\<lparr>nbDims = 2, d_arr = [5, 5]\<rparr>
           = \<lparr>nbDims = count (weights (inputs ?p ! 1)) - 1,
              d_arr = map (\<lambda>i. values_m (weights (inputs ?p ! 1)) ! i)
                        [1..<nat (count (weights (inputs ?p ! 1)))]\<rparr>"
    by (simp add: i reshape_inputs_simps count_vector_weights vector_weights_values)
       (simp add: eval_nat_numeral)
  have m: "True \<longleftrightarrow>
             (\<not> list_ex (\<lambda>i. d_arr \<lparr>nbDims = 2, d_arr = [5, 5]\<rparr> ! i = - 1)
                  [0..<nat (nbDims \<lparr>nbDims = 2, d_arr = [5, 5]\<rparr>)]
              \<and> TrtDimsNumElements (tensor_dims (float_tensor 0 [3, 4]))
                  \<noteq> TrtDimsNumElements \<lparr>nbDims = 2, d_arr = [5, 5]\<rparr>)"
    by (simp add: float_tensor_def TrtDimsNumElements_examples eval_nat_numeral)
  have v0: "values_m (vector_weights DT_INT32 [4, 5, 5]) ! 0 = 4"
    by (simp add: vector_weights_values)
  show "ConvertReshape ext ?p = Fail InvalidArgument ?p"
    using ConvertReshape_batch_dimension
      [where params = ?p and t = "float_tensor 0 [3, 4]" and ext = ext and c = new_converter
         and outs = "[]", OF _ _ _ _ _ _ _ _ d m]
      v cv ov v0
    by (simp add: i reshape_inputs_simps count_vector_weights wf_vector_weights MAX_DIMS_def)
next
  let ?p = "construction_params new_converter (plain_node ''r'' ''Reshape'' [''x'', ''s''])
          [TensorOrWeights_of_tensor (Some (float_tensor 0 [3, 4])) 4,
           TensorOrWeights_of_weights (vector_weights DT_INT32 [4, 2, 6])]"
  let ?rd = "\<lparr>nbDims = 2, d_arr = [2, 6]\<rparr>"
  have i: "inputs ?p = [TensorOrWeights_of_tensor (Some (float_tensor 0 [3, 4])) 4,
           TensorOrWeights_of_weights (vector_weights DT_INT32 [4, 2, 6])]"
    and v: "\<not> validation_only ?p" and cv: "converter ?p = Some new_converter"
    and ov: "outputs ?p = Some []"
    by (simp_all add: construction_params_def)
  have d: "?rd = \<lparr>nbDims = count (weights (inputs ?p ! 1)) - 1,
              d_arr = map (\<lambda>i. values_m (weights (inputs ?p ! 1)) ! i)
                        [1..<nat (count (weights (inputs ?p ! 1)))]\<rparr>"
    by (simp add: i reshape_inputs_simps count_vector_weights vector_weights_values)
       (simp add: eval_nat_numeral)
  have m: "False \<longleftrightarrow>
             (\<not> list_ex (\<lambda>i. d_arr ?rd ! i = - 1) [0..<nat (nbDims ?rd)]
              \<and> TrtDimsNumElements (tensor_dims (float_tensor 0 [3, 4])) \<noteq> TrtDimsNumElements ?rd)"
    by (simp add: float_tensor_def TrtDimsNumElements_examples)
  have ne: "\<not> DimsEqual (tensor_dims (float_tensor 0 [3, 4])) ?rd"
    by (simp add: DimsEqual_def float_tensor_def eval_nat_numeral)
  have v0: "values_m (vector_weights DT_INT32 [4, 2, 6]) ! 0 = 4"
    by (simp add: vector_weights_values)
  have a: "add_layer accepting_externals (trt_network_m new_converter)
             (ShuffleLayer (float_tensor 0 [3, 4]) None (Some ?rd))
           = Some (\<lparr>tensor_addr = 0, tensor_dims = \<lparr>nbDims = 0, d_arr = []\<rparr>, tensor_type = kFLOAT\<rparr>,
                   \<lparr>layers = [ShuffleLayer (float_tensor 0 [3, 4]) None (Some ?rd)],
                    tensor_names = (\<lambda>a. None), next_tensor = 1\<rparr>)"
    by (simp add: add_layer_def accepting_externals_def new_converter_def empty_network_def fun_eq_iff)
  have "ConvertReshape accepting_externals ?p =
          Done () (?p\<lparr>converter := Some (new_converter\<lparr>trt_network_m :=
                          \<lparr>layers = [ShuffleLayer (float_tensor 0 [3, 4]) None (Some ?rd)],
                           tensor_names = (\<lambda>a. None), next_tensor = 1\<rparr>\<rparr>),
                      outputs := Some ([] @ [TensorOrWeights_of_tensor
                          (Some \<lparr>tensor_addr = 0, tensor_dims = \<lparr>nbDims = 0, d_arr = []\<rparr>,
                                  tensor_type = kFLOAT\<rparr>) unknown_batch_size])\<rparr>)"
    using ConvertReshape_batch_dimension
      [where params = ?p and t = "float_tensor 0 [3, 4]" and ext = accepting_externals
         and c = new_converter and outs = "[]", OF _ _ _ _ _ _ _ _ d m]
      v cv ov v0 ne
    by (simp add: i reshape_inputs_simps count_vector_weights wf_vector_weights MAX_DIMS_def a)
  then show "\<exists>params'. ConvertReshape accepting_externals ?p = Done () params'
     \<and> (\<exists>c' out. converter params' = Some c'
           \<and> layers (trt_network_m c') = [ShuffleLayer (float_tensor 0 [3, 4]) None (Some ?rd)]
           \<and> outputs params' = Some [TensorOrWeights_of_tensor (Some out) unknown_batch_size])"
    by simp blast
qed

text \<open>
  The claim as it was written fails in construction mode: a tensor of dimensions [3, 4]
  with batch size 4 and the shape [4, 5, 5], whose first value is the batch size, is
  refused with InvalidArgument.
\<close>

theorem ConvertReshape_batch_dimension_counterexample:
  "values_m (vector_weights DT_INT32 [4, 5, 5]) ! 0
     = batch_size (TensorOrWeights_of_tensor (Some (float_tensor 0 [3, 4])) 4)
   \<and> ConvertReshape accepting_externals
       (construction_params new_converter (plain_node ''r'' ''Reshape'' [''x'', ''s''])
          [TensorOrWeights_of_tensor (Some (float_tensor 0 [3, 4])) 4,
           TensorOrWeights_of_weights (vector_weights DT_INT32 [4, 5, 5])])
     = Fail InvalidArgument
         (construction_params new_converter (plain_node ''r'' ''Reshape'' [''x'', ''s''])
            [TensorOrWeights_of_tensor (Some (float_tensor 0 [3, 4])) 4,
             TensorOrWeights_of_weights (vector_weights DT_INT32 [4, 5, 5])])"
proof -
  let ?p = "construction_params new_converter (plain_node ''r'' ''Reshape'' [''x'', ''s''])
          [TensorOrWeights_of_tensor (Some (float_tensor 0 [3, 4])) 4,
           TensorOrWeights_of_weights (vector_weights DT_INT32 [4, 5, 5])]"
  have i: "inputs ?p = [TensorOrWeights_of_tensor (Some (float_tensor 0 [3, 4])) 4,
           TensorOrWeights_of_weights (vector_weights DT_INT32 [4, 5, 5])]"
    and v: "\<not> validation_only ?p" and cv: "converter ?p = Some new_converter"
    by (simp_all add: construction_params_def)
  have d: "\<lparr>nbDims = 2, d_arr = [5, 5]\<rparr>
           = \<lparr>nbDims = count (vector_weights DT_INT32 [4, 5, 5]) - 1,
              d_arr = map (\<lambda>i. values_m (vector_weights DT_INT32 [4, 5, 5]) ! i)
                        [1..<nat (count (vector_weights DT_INT32 [4, 5, 5]))]\<rparr>"
    by (simp add: count_vector_weights vector_weights_values) (simp add: eval_nat_numeral)
  have t: "tensor_dims (float_tensor 0 [3, 4]) = \<lparr>nbDims = 2, d_arr = [3, 4]\<rparr>"
    by (simp add: float_tensor_def)
  have c: "count (vector_weights DT_INT32 [4, 5, 5]) \<noteq> 0"
    by (simp add: count_vector_weights)
  have v0: "values_m (vector_weights DT_INT32 [4, 5, 5]) ! 0 = 4"
    by (simp add: vector_weights_values)
  have r: "\<not> reshape_may_change_batch_dim 4 (values_m (vector_weights DT_INT32 [4, 5, 5]) ! 0)
             (tensor_dims (float_tensor 0 [3, 4])) \<lparr>nbDims = 2, d_arr = [5, 5]\<rparr>"
    by (simp add: reshape_may_change_batch_dim_def v0)
  have p: "PrepareTensorForShape accepting_externals new_converter
             (TensorOrWeights_of_tensor (Some (float_tensor 0 [3, 4])) 4) \<lparr>nbDims = 2, d_arr = [5, 5]\<rparr>
           = Fail InvalidArgument new_converter"
    by (simp add: PrepareTensorForShape_def Let_def GetTrtDims_def reshape_inputs_simps or_crash_def
          t TrtDimsNumElements_examples eval_nat_numeral)
  have "ConvertReshape accepting_externals ?p = Fail InvalidArgument ?p"
    unfolding ConvertReshape_on_inputs [OF i c d]
    by (simp only: r v if_False) (simp add: via_converter_def cv p and_then_def)
  then show ?thesis by (simp add: v0 reshape_inputs_simps)
qed

subsection \<open>Binary operators\<close>

lemma fails_with_error_and_then:
  "fails_with_error m \<Longrightarrow> (\<And>v s. fails_with_error (f v s)) \<Longrightarrow> fails_with_error (and_then m f)"
  by (cases m) (simp_all add: and_then_def)

lemma fails_with_error_or_crash:
  "(\<And>a. fails_with_error (f a)) \<Longrightarrow> fails_with_error (or_crash m f)"
  by (cases m) (simp_all add: or_crash_def)

lemma fails_with_error_via_converter:
  "(\<And>c. fails_with_error (f c)) \<Longrightarrow> fails_with_error (via_converter params f)"
proof (cases "converter params")
  case None
  then show ?thesis by (simp add: via_converter_def)
next
  case (Some c)
  assume "\<And>c. fails_with_error (f c)"
  then have "fails_with_error (f c)" .
  with Some show ?thesis by (cases "f c") (simp_all add: via_converter_def)
qed

lemma fails_with_error_network_add: "fails_with_error (network_add ext c layer)"
  by (simp add: network_add_def ok_def split: option.splits prod.splits)

lemma fails_with_error_push_back_output: "fails_with_error (push_back_output params x)"
  by (simp add: push_back_output_def split: option.splits)

lemma fails_with_error_TransposeTensor: "fails_with_error (TransposeTensor ext c t order_v)"
  unfolding TransposeTensor_def Let_def
  by (intro fails_with_error_or_crash) (simp add: ok_def fails_with_error_network_add)

lemma fails_with_error_UnaryCompute: "fails_with_error (UnaryCompute ext iw ow cat)"
  unfolding UnaryCompute_def
  by (auto simp: ok_def intro!: fails_with_error_or_crash split: DataType.splits)

lemma UnaryCompute_Fail: "UnaryCompute ext iw ow cat = Fail st w \<Longrightarrow> \<not> ok st"
  using fails_with_error_UnaryCompute [of ext iw ow cat] by simp

lemmas fails_with_error_intros =
  fails_with_error_and_then fails_with_error_or_crash fails_with_error_via_converter
  fails_with_error_network_add fails_with_error_push_back_output fails_with_error_TransposeTensor

lemma fails_with_error_operands:
  "fails_with_error (BinaryTensorOpWeight_operands ext params t w swapped)"
  unfolding BinaryTensorOpWeight_operands_def Let_def
  by (auto simp: ok_def [of Unimplemented] intro!: fails_with_error_intros split: call.splits
      dest: UnaryCompute_Fail)

lemma fails_with_error_scale:
  "fails_with_error (BinaryTensorOpWeight_scale ext params t m sh sc pw flag perm)"
  unfolding BinaryTensorOpWeight_scale_def
  by (auto intro!: fails_with_error_intros)

lemma ConvertDType_Inl: "ConvertDType ty = Inl st \<Longrightarrow> st = InvalidArgument"
  by (auto simp: ConvertDType_def split: DataType.splits)

lemma scale_mode_Inl: "BinaryTensorOpWeight_scale_mode w dims_t = Inl st \<Longrightarrow> st = InvalidArgument"
  by (auto simp: BinaryTensorOpWeight_scale_mode_def Let_def split: if_splits sum.splits)

lemma fails_with_error_BinaryTensorOpWeight:
  "fails_with_error (BinaryTensorOpWeight ext params t w swapped)"
  unfolding BinaryTensorOpWeight_def Let_def
  by (auto simp: ok_def intro!: fails_with_error_intros fails_with_error_operands fails_with_error_scale
      split: sum.splits prod.splits dest: ConvertDType_Inl scale_mode_Inl)



lemma BinaryTensorOpWeight_Fail:
  "BinaryTensorOpWeight ext params t w swapped = Fail st params' \<Longrightarrow> \<not> ok st"
  using fails_with_error_BinaryTensorOpWeight [of ext params t w swapped] by simp

text \<open>
  C5. For a binary node with exactly two inputs: when both are weights \<open>ConvertBinary\<close>
  returns Unimplemented; when exactly one is a weight it first calls
  \<open>BinaryTensorOpWeight\<close> on the tensor and the weight (with \<open>swapped_inputs\<close> set when
  the weight is the left input), returns OK if that returns OK, and if that returns any
  error the result is what \<open>BinaryTensorOpTensor\<close> returns, run on the state the failed
  attempt left; when both are tensors the result is that of \<open>BinaryTensorOpTensor\<close> alone.
\<close>

theorem ConvertBinary_dispatch:
  assumes "length (inputs params) = 2"
  shows "(is_weights (inputs params ! 0) \<and> is_weights (inputs params ! 1)
           \<longrightarrow> ConvertBinary ext params = Fail Unimplemented params)
       \<and> (is_tensor (inputs params ! 0) \<and> is_weights (inputs params ! 1)
           \<longrightarrow> ConvertBinary ext params =
               (case BinaryTensorOpWeight ext params (tensor (inputs params ! 0))
                       (weights (inputs params ! 1)) False of
                  Crash x \<Rightarrow> Crash x
                | Fail st params' \<Rightarrow> BinaryTensorOpTensor ext params' (inputs params ! 0) (inputs params ! 1)
                | Done u params' \<Rightarrow> Done () params'))
       \<and> (is_weights (inputs params ! 0) \<and> is_tensor (inputs params ! 1)
           \<longrightarrow> ConvertBinary ext params =
               (case BinaryTensorOpWeight ext params (tensor (inputs params ! 1))
                       (weights (inputs params ! 0)) True of
                  Crash x \<Rightarrow> Crash x
                | Fail st params' \<Rightarrow> BinaryTensorOpTensor ext params' (inputs params ! 0) (inputs params ! 1)
                | Done u params' \<Rightarrow> Done () params'))
       \<and> (is_tensor (inputs params ! 0) \<and> is_tensor (inputs params ! 1)
           \<longrightarrow> ConvertBinary ext params
               = BinaryTensorOpTensor ext params (inputs params ! 0) (inputs params ! 1))"
proof -
  let ?i0 = "inputs params ! 0" and ?i1 = "inputs params ! 1"
  have ww: "is_weights ?i0 \<and> is_weights ?i1 \<longrightarrow> ConvertBinary ext params = Fail Unimplemented params"
    using assms by (simp add: ConvertBinary_def Let_def)
  have tw: "is_tensor ?i0 \<and> is_weights ?i1
           \<longrightarrow> ConvertBinary ext params =
               (case BinaryTensorOpWeight ext params (tensor ?i0) (weights ?i1) False of
                  Crash x \<Rightarrow> Crash x
                | Fail st params' \<Rightarrow> BinaryTensorOpTensor ext params' ?i0 ?i1
                | Done u params' \<Rightarrow> Done () params')"
  proof
    assume a: "is_tensor ?i0 \<and> is_weights ?i1"
    then have n: "\<not> is_weights ?i0" "\<not> is_tensor ?i1"
      by (simp_all add: is_weights_def is_tensor_def)
    show "ConvertBinary ext params =
               (case BinaryTensorOpWeight ext params (tensor ?i0) (weights ?i1) False of
                  Crash x \<Rightarrow> Crash x
                | Fail st params' \<Rightarrow> BinaryTensorOpTensor ext params' ?i0 ?i1
                | Done u params' \<Rightarrow> Done () params')"
      using assms a n
      by (cases "BinaryTensorOpWeight ext params (tensor ?i0) (weights ?i1) False")
         (auto simp: ConvertBinary_def Let_def dest: BinaryTensorOpWeight_Fail)
  qed
  have wt: "is_weights ?i0 \<and> is_tensor ?i1
           \<longrightarrow> ConvertBinary ext params =
               (case BinaryTensorOpWeight ext params (tensor ?i1) (weights ?i0) True of
                  Crash x \<Rightarrow> Crash x
                | Fail st params' \<Rightarrow> BinaryTensorOpTensor ext params' ?i0 ?i1
                | Done u params' \<Rightarrow> Done () params')"
  proof
    assume a: "is_weights ?i0 \<and> is_tensor ?i1"
    then have n: "\<not> is_tensor ?i0" "\<not> is_weights ?i1"
      by (simp_all add: is_weights_def is_tensor_def)
    show "ConvertBinary ext params =
               (case BinaryTensorOpWeight ext params (tensor ?i1) (weights ?i0) True of
                  Crash x \<Rightarrow> Crash x
                | Fail st params' \<Rightarrow> BinaryTensorOpTensor ext params' ?i0 ?i1
                | Done u params' \<Rightarrow> Done () params')"
      using assms a n
      by (cases "BinaryTensorOpWeight ext params (tensor ?i1) (weights ?i0) True")
         (auto simp: ConvertBinary_def Let_def dest: BinaryTensorOpWeight_Fail)
  qed
  have tt: "is_tensor ?i0 \<and> is_tensor ?i1
           \<longrightarrow> ConvertBinary ext params = BinaryTensorOpTensor ext params ?i0 ?i1"
    using assms by (simp add: ConvertBinary_def Let_def is_weights_def is_tensor_def)
  from ww tw wt tt show ?thesis by blast
qed

lemma broadcast_mismatch_example:
  "TensorRTGetBroadcastShape \<lparr>nbDims = 1, d_arr = [3]\<rparr> True \<lparr>nbDims = 1, d_arr = [2]\<rparr> False = None"
  by (simp add: TensorRTGetBroadcastShape_def MAX_DIMS_def memcpy_int_def Let_def eval_nat_numeral)

theorem ConvertBinary_dispatch_witness:
  "(\<forall>ext. ConvertBinary ext
       (validation_params (plain_node ''b'' ''Add'' [''x'', ''y''])
          [TensorOrWeights_of_weights (vector_weights DT_FLOAT [1]),
           TensorOrWeights_of_weights (vector_weights DT_FLOAT [2])])
     = Fail Unimplemented
         (validation_params (plain_node ''b'' ''Add'' [''x'', ''y''])
            [TensorOrWeights_of_weights (vector_weights DT_FLOAT [1]),
             TensorOrWeights_of_weights (vector_weights DT_FLOAT [2])]))
   \<and> (\<forall>ext. ConvertBinary ext
       (construction_params new_converter (plain_node ''b'' ''Maximum'' [''x'', ''y''])
          [TensorOrWeights_of_tensor (Some (float_tensor 0 [3])) 4,
           TensorOrWeights_of_weights (vector_weights DT_FLOAT [5, 6])])
     = Fail InvalidArgument
         (construction_params new_converter (plain_node ''b'' ''Maximum'' [''x'', ''y''])
            [TensorOrWeights_of_tensor (Some (float_tensor 0 [3])) 4,
             TensorOrWeights_of_weights (vector_weights DT_FLOAT [5, 6])]))"
proof (intro conjI allI)
  fix ext
  let ?p = "validation_params (plain_node ''b'' ''Add'' [''x'', ''y''])
          [TensorOrWeights_of_weights (vector_weights DT_FLOAT [1]),
           TensorOrWeights_of_weights (vector_weights DT_FLOAT [2])]"
  have i: "inputs ?p = [TensorOrWeights_of_weights (vector_weights DT_FLOAT [1]),
           TensorOrWeights_of_weights (vector_weights DT_FLOAT [2])]"
    by (simp add: validation_params_def)
  show "ConvertBinary ext ?p = Fail Unimplemented ?p"
    using ConvertBinary_dispatch [of ?p ext] by (simp add: i reshape_inputs_simps)
next
  fix ext
  let ?p = "construction_params new_converter (plain_node ''b'' ''Maximum'' [''x'', ''y''])
          [TensorOrWeights_of_tensor (Some (float_tensor 0 [3])) 4,
           TensorOrWeights_of_weights (vector_weights DT_FLOAT [5, 6])]"
  have i: "inputs ?p = [TensorOrWeights_of_tensor (Some (float_tensor 0 [3])) 4,
           TensorOrWeights_of_weights (vector_weights DT_FLOAT [5, 6])]"
    and o: "node_op (node_def ?p) = ''Maximum''"
    by (simp_all add: construction_params_def plain_node_def)
  have scale: "BinaryTensorOpWeight ext ?p (Some (float_tensor 0 [3])) (vector_weights DT_FLOAT [5, 6]) False
      = Fail Unimplemented ?p"
    by (simp add: BinaryTensorOpWeight_def o Let_def)
  have elt: "BinaryTensorOpTensor ext ?p (TensorOrWeights_of_tensor (Some (float_tensor 0 [3])) 4)
       (TensorOrWeights_of_weights (vector_weights DT_FLOAT [5, 6])) = Fail InvalidArgument ?p"
    by (simp add: BinaryTensorOpTensor_def Let_def GetTrtDims_def reshape_inputs_simps or_crash_def
        float_tensor_def vector_weights_def broadcast_mismatch_example)
  show "ConvertBinary ext ?p = Fail InvalidArgument ?p"
    using ConvertBinary_dispatch [of ?p ext]
    by (simp add: i reshape_inputs_simps scale elt)
qed

subsection \<open>Conversion of an Add node\<close>

lemma GetInputs_two:
  assumes "node_input nd = [xn, wn]"
    and "xn = [] \<or> xn ! 0 \<noteq> CHR ''^''" and "wn = [] \<or> wn ! 0 \<noteq> CHR ''^''"
    and "trt_tensors_m c (input_tensor_name xn) = Some tx"
    and "trt_tensors_m c (input_tensor_name wn) = Some tw"
  shows "GetInputs c nd [] = Done () [tx, tw]"
  using assms by (auto simp: GetInputs_def Let_def)

lemma scale_mode_uniform:
  "count w = 1 \<Longrightarrow> BinaryTensorOpWeight_scale_mode w dims_t = Inr (kUNIFORM, False)"
  by (simp add: BinaryTensorOpWeight_scale_mode_def Let_def)

lemma BinaryTensorOpWeight_Add_uniform:
  assumes op: "node_op (node_def params) = ''Add''"
    and conv: "converter params = Some c"
    and outs: "outputs params = Some outs_v"
    and ty: "ConvertDType (type_m w) = Inr ty"
    and rank: "nbDims (tensor_dims t) = 3"
    and cnt: "count w = 1"
    and shape_ok: "is_fp16_m c \<longrightarrow> MakeShape_ok ext (shape_m w)"
    and accepts: "\<forall>shift scale power. \<not> trt_rejects ext (trt_network_m c) (ScaleLayer t kUNIFORM shift scale power)"
  shows "\<exists>params' c' out_t shift scale power.
      BinaryTensorOpWeight ext params (Some t) w swapped = Done () params'
      \<and> node_def params' = node_def params
      \<and> outputs params' = Some (outs_v @ [TensorOrWeights_of_tensor (Some out_t) unknown_batch_size])
      \<and> converter params' = Some c'
      \<and> trt_tensors_m c' = trt_tensors_m c
      \<and> batch_size_m c' = batch_size_m c
      \<and> layers (trt_network_m c') = layers (trt_network_m c) @ [ScaleLayer t kUNIFORM shift scale power]"
proof (cases "is_fp16_m c")
  case False
  have ty': "ConvertDType (type_m (TRT_ShapedWeights_of_type (type_m w))) = Inr ty"
    by (simp add: TRT_ShapedWeights_of_type_def ty)
  show ?thesis
    using False op conv outs ty rank cnt accepts
    apply (simp add: BinaryTensorOpWeight_def Let_def scale_mode_uniform deref_def or_crash_def
       and_then_def BinaryTensorOpWeight_operands_def BinaryTensorOpWeight_scale_def via_converter_def
       network_add_def add_layer_def push_back_output_def GetTrtWeights_def ty')
    apply blast
    done
next
  case True
  then have ok: "MakeShape_ok ext (shape_m w)" using shape_ok by simp
  obtain w' store' where cv: "ConvertFP32ToFP16 ext (weight_store params) w = Inr (w', store')"
    and tw': "type_m w' = DT_HALF"
    using ok by (simp add: ConvertFP32ToFP16_def GetTempWeights_def)
  have ty': "ConvertDType (type_m w') = Inr kHALF"
    "ConvertDType (type_m (TRT_ShapedWeights_of_type (type_m w'))) = Inr kHALF"
    by (simp_all add: TRT_ShapedWeights_of_type_def tw' ConvertDType_def)
  show ?thesis
    using True op conv outs ty rank cnt accepts cv
    apply (simp add: BinaryTensorOpWeight_def Let_def scale_mode_uniform deref_def or_crash_def
       and_then_def BinaryTensorOpWeight_operands_def BinaryTensorOpWeight_scale_def via_converter_def
       network_add_def add_layer_def push_back_output_def GetTrtWeights_def ty')
    apply blast
    done
qed


lemma ConvertNode_outputs_single_tensor:
  assumes "trt_tensors_m c name_v = None" and "node_name nd = name_v"
  shows "\<exists>c'. ConvertNode_outputs c nd [TensorOrWeights_of_tensor (Some out_t) b] 0 = Done () c'
      \<and> trt_tensors_m c' = (trt_tensors_m c)
            (name_v \<mapsto> (TensorOrWeights_of_tensor (Some out_t) b)\<lparr>tow_batch_size_m := batch_size_m c\<rparr>)
      \<and> layers (trt_network_m c') = layers (trt_network_m c)"
  using assms
  by (simp add: reshape_inputs_simps Let_def or_crash_def and_then_def output_name_of_def
      AddTensorOrWeights_def set_batch_size_def)

text \<open>
  C9. \<open>ConvertNode\<close> on an Add node whose first input is bound to a tensor of rank 3
  (such as [3, 4, 4]) and whose second input is bound to a weight of one element, of an
  element type the accelerator has: the scale mode chosen by \<open>BinaryTensorOpWeight\<close> is
  uniform and, when the operator is not a plugin, the accelerator accepts the uniform
  scale layer on that tensor, and the node's name is not bound yet, the call returns OK,
  the network gains exactly that scale layer, and the symbol table gains exactly one
  binding: the node's bare name, bound to a tensor that carries the converter's batch size.
\<close>

theorem ConvertNode_Add_tensor_scalar_weight:
  assumes nd: "node_op nd = ''Add''" "node_input nd = [xn, wn]"
    and ctl: "xn = [] \<or> xn ! 0 \<noteq> CHR ''^''" "wn = [] \<or> wn ! 0 \<noteq> CHR ''^''"
    and x: "trt_tensors_m c (input_tensor_name xn) = Some tx" "is_tensor tx" "tensor tx = Some t"
      "nbDims (tensor_dims t) = 3"
    and w: "trt_tensors_m c (input_tensor_name wn) = Some tw" "is_weights tw"
      "count (weights tw) = 1" "ConvertDType (type_m (weights tw)) = Inr ty"
    and plug: "\<not> IsPlugin ext ''Add''"
    and shape_ok: "is_fp16_m c \<longrightarrow> MakeShape_ok ext (shape_m (weights tw))"
    and accepts: "\<forall>shift scale power.
        \<not> trt_rejects ext (trt_network_m c) (ScaleLayer t kUNIFORM shift scale power)"
    and fresh: "trt_tensors_m c (node_name nd) = None"
  shows "BinaryTensorOpWeight_scale_mode (weights tw) (tensor_dims t) = Inr (kUNIFORM, False)
     \<and> (\<exists>c' out shift scale power.
          ConvertNode ext c nd = Done () c'
          \<and> trt_tensors_m c' = (trt_tensors_m c)(node_name nd \<mapsto> out)
          \<and> is_tensor out \<and> batch_size out = batch_size_m c
          \<and> layers (trt_network_m c') = layers (trt_network_m c) @ [ScaleLayer t kUNIFORM shift scale power])"
proof
  show "BinaryTensorOpWeight_scale_mode (weights tw) (tensor_dims t) = Inr (kUNIFORM, False)"
    using w(3) by (rule scale_mode_uniform)
next
  let ?params = "\<lparr>converter = Some c, node_def = nd, inputs = [tx, tw], outputs = Some [],
                  validation_only = False, weight_store = weight_store_m c\<rparr>"
  have gi: "GetInputs c nd [] = Done () [tx, tw]"
    using nd(2) ctl x(1) w(1) by (rule GetInputs_two)
  have reg: "op_registry ext ''Add'' = Some (ConvertBinary ext)"
    by (simp add: op_registry_def binary_ops_def)
  obtain params' c1 out_t shift scale power where
    bw: "BinaryTensorOpWeight ext ?params (Some t) (weights tw) False = Done () params'"
    and nd': "node_def params' = nd"
    and outs': "outputs params' = Some ([] @ [TensorOrWeights_of_tensor (Some out_t) unknown_batch_size])"
    and conv': "converter params' = Some c1"
    and tt: "trt_tensors_m c1 = trt_tensors_m c"
    and bs: "batch_size_m c1 = batch_size_m c"
    and ly: "layers (trt_network_m c1) = layers (trt_network_m c) @ [ScaleLayer t kUNIFORM shift scale power]"
    using BinaryTensorOpWeight_Add_uniform [of ?params c "[]" "weights tw" ty t ext False]
      nd(1) w(3,4) x(4) shape_ok accepts
    by auto
  have nw: "\<not> is_weights tx" "\<not> is_tensor tw"
    using x(2) w(2) by (simp_all add: is_weights_def is_tensor_def)
  have cb: "ConvertBinary ext ?params = Done () params'"
    using x(2,3) w(2) nw bw by (simp add: ConvertBinary_def Let_def)
  let ?c1 = "converter_after c params'"
  have c1: "trt_tensors_m ?c1 = trt_tensors_m c" "batch_size_m ?c1 = batch_size_m c"
    "layers (trt_network_m ?c1) = layers (trt_network_m c) @ [ScaleLayer t kUNIFORM shift scale power]"
    using conv' tt bs ly by (simp_all add: converter_after_def)
  have fresh1: "trt_tensors_m ?c1 (node_name nd) = None"
    using fresh c1(1) by simp
  obtain c' where
    co: "ConvertNode_outputs ?c1 nd [TensorOrWeights_of_tensor (Some out_t) unknown_batch_size] 0 = Done () c'"
    and tt': "trt_tensors_m c' = (trt_tensors_m ?c1)
            (node_name nd \<mapsto> (TensorOrWeights_of_tensor (Some out_t) unknown_batch_size)
                 \<lparr>tow_batch_size_m := batch_size_m ?c1\<rparr>)"
    and ly': "layers (trt_network_m c') = layers (trt_network_m ?c1)"
    using ConvertNode_outputs_single_tensor [OF fresh1 refl, of out_t unknown_batch_size] by blast
  have cn: "ConvertNode ext c nd = Done () c'"
    using gi plug reg cb outs' co nd(1) by (simp add: ConvertNode_def Let_def)
  let ?out = "(TensorOrWeights_of_tensor (Some out_t) unknown_batch_size)\<lparr>tow_batch_size_m := batch_size_m c\<rparr>"
  have "is_tensor ?out" "batch_size ?out = batch_size_m c"
    by (simp_all add: is_tensor_def batch_size_def TensorOrWeights_of_tensor_def)
  with cn tt' ly' c1 show "\<exists>c' out shift scale power.
          ConvertNode ext c nd = Done () c'
          \<and> trt_tensors_m c' = (trt_tensors_m c)(node_name nd \<mapsto> out)
          \<and> is_tensor out \<and> batch_size out = batch_size_m c
          \<and> layers (trt_network_m c') = layers (trt_network_m c) @ [ScaleLayer t kUNIFORM shift scale power]"
    by auto
qed


lemma input_tensor_name_plain: "CHR '':'' \<notin> set n \<Longrightarrow> input_tensor_name n = n"
proof -
  assume "CHR '':'' \<notin> set n"
  then have "filter (\<lambda>i. n ! i = CHR '':'') (rev [0..<length n]) = []"
    by (auto simp: filter_empty_conv) (metis nth_mem)
  then show ?thesis by (simp add: input_tensor_name_def find_last_of_def)
qed

lemma vector_weights_sel: "type_m (vector_weights ty vs) = ty"
  by (simp add: vector_weights_def)

theorem ConvertNode_Add_tensor_scalar_weight_witness:
  "BinaryTensorOpWeight_scale_mode (vector_weights DT_FLOAT [5])
       (tensor_dims (float_tensor 0 [3, 4, 4])) = Inr (kUNIFORM, False)
   \<and> (\<exists>c' out shift scale power.
        ConvertNode accepting_externals add_example_converter (plain_node ''add'' ''Add'' [''x'', ''w''])
          = Done () c'
        \<and> trt_tensors_m c' = (trt_tensors_m add_example_converter)(''add'' \<mapsto> out)
        \<and> is_tensor out \<and> batch_size out = 2
        \<and> layers (trt_network_m c')
            = [ScaleLayer (float_tensor 0 [3, 4, 4]) kUNIFORM shift scale power])"
proof -
  let ?nd = "plain_node ''add'' ''Add'' [''x'', ''w'']"
  let ?tx = "TensorOrWeights_of_tensor (Some (float_tensor 0 [3, 4, 4])) 2"
  let ?tw = "TensorOrWeights_of_weights (vector_weights DT_FLOAT [5])"
  have names: "input_tensor_name ''x'' = ''x''" "input_tensor_name ''w'' = ''w''"
    by (simp_all add: input_tensor_name_plain)
  have h: "node_op ?nd = ''Add''" "node_input ?nd = [''x'', ''w'']"
    "''x'' = [] \<or> ''x'' ! 0 \<noteq> CHR ''^''" "''w'' = [] \<or> ''w'' ! 0 \<noteq> CHR ''^''"
    "trt_tensors_m add_example_converter (input_tensor_name ''x'') = Some ?tx"
    "is_tensor ?tx" "tensor ?tx = Some (float_tensor 0 [3, 4, 4])"
    "nbDims (tensor_dims (float_tensor 0 [3, 4, 4])) = 3"
    "trt_tensors_m add_example_converter (input_tensor_name ''w'') = Some ?tw"
    "is_weights ?tw" "count (weights ?tw) = 1"
    "ConvertDType (type_m (weights ?tw)) = Inr kFLOAT"
    "\<not> IsPlugin accepting_externals ''Add''"
    "is_fp16_m add_example_converter \<longrightarrow> MakeShape_ok accepting_externals (shape_m (weights ?tw))"
    "\<forall>shift scale power. \<not> trt_rejects accepting_externals (trt_network_m add_example_converter)
         (ScaleLayer (float_tensor 0 [3, 4, 4]) kUNIFORM shift scale power)"
    "trt_tensors_m add_example_converter (node_name ?nd) = None"
    by (simp_all add: names plain_node_def add_example_converter_def reshape_inputs_simps
        float_tensor_def count_vector_weights accepting_externals_def ConvertDType_def
        vector_weights_sel)
  have w: "weights ?tw = vector_weights DT_FLOAT [5]" by (simp add: reshape_inputs_simps)
  have b: "batch_size_m add_example_converter = 2"
    "layers (trt_network_m add_example_converter) = []"
    "node_name ?nd = ''add''"
    by (simp_all add: add_example_converter_def plain_node_def)
  from ConvertNode_Add_tensor_scalar_weight [OF h]
  show ?thesis by (simp add: w b)
qed

subsection \<open>Validation of a node\<close>

text \<open>
  A node without a registered validator is accepted. In validation-only mode
  \<open>ConvertTranspose\<close> and \<open>ConvertReshape\<close> return before they reach the converter:
  their verdict does not depend on the accelerator and they do not dereference the null
  converter pointer.
\<close>

lemma ValidateNode_without_validator:
  "node_op nd \<notin> {''Const'', ''Transpose'', ''Reshape'', ''MatMul''} \<Longrightarrow>
   ValidateNode ext store nd inputs_v = Done () store"
  by (simp add: ValidateNode_def op_validators_def)

lemma ConvertTranspose_validation_only:
  "validation_only params \<Longrightarrow> ConvertTranspose ext params = ConvertTranspose ext' params"
  by (simp add: ConvertTranspose_def Let_def cong: if_cong)

lemma ConvertReshape_validation_only:
  "validation_only params \<Longrightarrow> ConvertReshape ext params = ConvertReshape ext' params"
  by (simp add: ConvertReshape_def Let_def cong: if_cong)

lemma ValidateNode_Transpose_Reshape:
  assumes "node_op nd = ''Transpose'' \<or> node_op nd = ''Reshape''"
  shows "ValidateNode ext store nd inputs_v = ValidateNode ext' store nd inputs_v"
    and "\<forall>tw\<in>set inputs_v. is_tensor tw \<longrightarrow> tensor tw \<noteq> None \<Longrightarrow>
         ValidateNode ext store nd inputs_v \<noteq> Crash NullDereference"
proof -
  let ?p = "\<lparr>converter = None, node_def = nd, inputs = inputs_v, outputs = None,
             validation_only = True, weight_store = store\<rparr>"
  have v: "validation_only ?p" by simp
  from assms show "ValidateNode ext store nd inputs_v = ValidateNode ext' store nd inputs_v"
    by (auto simp: ValidateNode_def op_validators_def
          ConvertTranspose_validation_only[OF v, of ext ext']
          ConvertReshape_validation_only[OF v, of ext ext'])
  assume t: "\<forall>tw\<in>set inputs_v. is_tensor tw \<longrightarrow> tensor tw \<noteq> None"
  have a: "ConvertTranspose ext ?p \<noteq> Crash NullDereference"
    using t by (auto simp: ConvertTranspose_def Let_def or_crash_def deref_def
                  split: option.splits)
  have b: "ConvertReshape ext ?p \<noteq> Crash NullDereference"
    using t by (auto simp: ConvertReshape_def Let_def or_crash_def GetTrtDims_def
                  split: option.splits if_splits)
  from assms a b show "ValidateNode ext store nd inputs_v \<noteq> Crash NullDereference"
    by (auto simp: ValidateNode_def op_validators_def split: call.splits)
qed

text \<open>
  C4 (the code fails the claim). \<open>ConvertMatMul\<close> is registered as the validator of
  MatMul but never tests \<open>validation_only\<close>, as \<open>ConvertTranspose\<close> and
  \<open>ConvertReshape\<close> do: for a MatMul node that passes its checks, \<open>ValidateNode\<close>
  dereferences the null converter pointer. Here: float \<open>T\<close>, no transposition of the
  left operand, a tensor of dimensions [2] and a 3 by 2 weight, for any behaviour of the
  accelerator and any weight store.
\<close>

theorem ValidateNode_MatMul_dereferences_null_converter:
  "ValidateNode ext store MatMul_example_node MatMul_example_inputs = Crash NullDereference"
proof -
  let ?p = "\<lparr>converter = None, node_def = MatMul_example_node, inputs = MatMul_example_inputs,
             outputs = None, validation_only = True, weight_store = store\<rparr>"
  have v: "op_validators ext (node_op MatMul_example_node) = Some (ConvertMatMul ext)"
    by (simp add: op_validators_def MatMul_example_node_def)
  have pad: "pad_to_rank_3 (tensor_dims (float_tensor 0 [2])) = Inr \<lparr>nbDims = 3, d_arr = [2, 1, 1]\<rparr>"
    by (simp add: pad_to_rank_3_def float_tensor_def eval_nat_numeral)
  have h: "ConvertMatMulHelper ext ?p (MatMul_example_inputs ! 0) (weights (MatMul_example_inputs ! 1))
             True ''m'' = Crash NullDereference"
    by (simp add: ConvertMatMulHelper_def MatMul_example_inputs_def reshape_inputs_simps
        or_crash_def deref_def pad Let_def via_converter_def and_then_def)
  have m: "ConvertMatMul ext ?p = Crash NullDereference"
    using h by (simp add: ConvertMatMul_def Let_def MatMul_example_node_def MatMul_example_inputs_def
        reshape_inputs_simps TFAttrs_at_def or_crash_def)
  show ?thesis
    by (simp add: ValidateNode_def v m)
qed

subsection \<open>Extraction of a segment\<close>

lemma of_char_digit_char: "n < 10 \<Longrightarrow> of_char (digit_char n) = 48 + n"
  by (simp add: digit_char_def)

lemma decimal_value_string_of_nat:
  "foldl (\<lambda>a c. 10 * a + (of_char c - 48)) 0 (string_of_nat n) = n"
proof (induction n rule: string_of_nat.induct)
  case (1 n)
  show ?case
  proof (cases "n < 10")
    case True
    then show ?thesis
      by (subst string_of_nat.simps) (simp add: of_char_digit_char)
  next
    case False
    with 1 show ?thesis
      by (subst string_of_nat.simps) (simp add: of_char_digit_char)
  qed
qed

lemma string_of_nat_inj: "string_of_nat a = string_of_nat b \<Longrightarrow> a = b"
  by (metis decimal_value_string_of_nat)

lemma minus_notin_string_of_nat: "CHR ''-'' \<notin> set (string_of_nat n)"
proof (induction n rule: string_of_nat.induct)
  case (1 n)
  have d: "CHR ''-'' \<noteq> digit_char k" if "k < 10" for k
  proof
    assume "CHR ''-'' = digit_char k"
    then have "(of_char (digit_char k) :: nat) = of_char CHR ''-''" by simp
    with that show False by (simp add: of_char_digit_char)
  qed
  show ?case
  proof (cases "n < 10")
    case True
    then show ?thesis by (subst string_of_nat.simps) (simp add: d)
  next
    case False
    with 1 show ?thesis by (subst string_of_nat.simps) (simp add: d)
  qed
qed

lemma string_of_int_inj: "string_of_int a = string_of_int b \<Longrightarrow> a = b"
proof -
  assume e: "string_of_int a = string_of_int b"
  have neg: False if "x < 0" "\<not> y < 0" "string_of_int x = string_of_int y" for x y
  proof -
    from that have "CHR ''-'' # string_of_nat (nat (- x)) = string_of_nat (nat y)"
      by (simp add: string_of_int_def)
    then have "CHR ''-'' \<in> set (string_of_nat (nat y))" by (metis list.set_intros(1))
    with minus_notin_string_of_nat show False by blast
  qed
  show "a = b"
  proof (cases "a < 0"; cases "b < 0")
    assume "a < 0" "b < 0"
    with e have "nat (- a) = nat (- b)" by (auto simp: string_of_int_def dest: string_of_nat_inj)
    with \<open>a < 0\<close> \<open>b < 0\<close> show ?thesis by simp
  next
    assume "a < 0" "\<not> b < 0"
    with neg e show ?thesis by blast
  next
    assume "\<not> a < 0" "b < 0"
    with neg[of b a] e show ?thesis by simp
  next
    assume "\<not> a < 0" "\<not> b < 0"
    with e have "nat a = nat b" by (auto simp: string_of_int_def dest: string_of_nat_inj)
    with \<open>\<not> a < 0\<close> \<open>\<not> b < 0\<close> show ?thesis by simp
  qed
qed

lemma remove_control_inputs_loop_result:
  "actual_input_idx \<le> input_idx \<Longrightarrow> input_size = length input_v \<Longrightarrow>
   remove_control_inputs_loop P names input_size input_v input_idx actual_input_idx = (failed, v', k') \<Longrightarrow>
   (failed \<longleftrightarrow> (\<exists>x\<in>set (drop input_idx input_v). refused_reference P names x))
   \<and> length v' = length input_v
   \<and> (\<not> failed \<longrightarrow> take k' v' = take actual_input_idx input_v
          @ filter (\<lambda>x. \<not> outside_reference P names x) (drop input_idx input_v))"
proof (induction P names input_size input_v input_idx actual_input_idx
       rule: remove_control_inputs_loop.induct)
  case (1 P names input_size input_v input_idx actual_input_idx)
  show ?case
  proof (cases "input_idx < input_size")
    case False
    with "1.prems" show ?thesis
      by (subst (asm) remove_control_inputs_loop.simps) auto
  next
    case lt: True
    with "1.prems" have dr: "drop input_idx input_v = input_v ! input_idx # drop (Suc input_idx) input_v"
      by (simp add: Cons_nth_drop_Suc)
    show ?thesis
    proof (cases "outside_reference P names (input_v ! input_idx)")
      case out: True
      show ?thesis
      proof (cases "snd (P (input_v ! input_idx)) = kControlSlot")
        case ctl: True
        from "1.prems"(3) lt out ctl
        have r: "remove_control_inputs_loop P names input_size input_v (input_idx + 1) actual_input_idx = (failed, v', k')"
          by (subst (asm) remove_control_inputs_loop.simps) simp
        from "1.IH"(1)[OF lt out ctl _ "1.prems"(2) r] "1.prems"(1)
        show ?thesis using dr out ctl by (simp add: refused_reference_def)
      next
        case nctl: False
        from "1.prems"(3) lt out nctl
        have "failed" "v' = input_v"
          by (subst (asm) remove_control_inputs_loop.simps, simp)+
        then show ?thesis using dr out nctl by (auto simp: refused_reference_def)
      qed
    next
      case nout: False
      define w where "w = (if actual_input_idx \<noteq> input_idx then input_v[actual_input_idx := input_v ! input_idx] else input_v)"
      from "1.prems"(3) lt nout
      have r: "remove_control_inputs_loop P names input_size w (input_idx + 1) (actual_input_idx + 1) = (failed, v', k')"
        unfolding w_def by (subst (asm) remove_control_inputs_loop.simps) simp
      have lw: "input_size = length w" using "1.prems"(2) by (simp add: w_def)
      have le: "actual_input_idx + 1 \<le> input_idx + 1" using "1.prems"(1) by simp
      have dw: "drop (input_idx + 1) w = drop (Suc input_idx) input_v"
        using "1.prems"(1) by (simp add: w_def)
      have tw: "take (actual_input_idx + 1) w = take actual_input_idx input_v @ [input_v ! input_idx]"
        using "1.prems"(1,2) lt
        by (auto simp: w_def take_Suc_conv_app_nth)
      from "1.IH"(2)[OF lt nout le, folded w_def, OF lw r]
      show ?thesis using dr nout dw tw lw "1.prems"(2) by (simp add: refused_reference_def)
    qed
  qed
qed


lemma remove_control_inputs_refused:
  assumes "\<exists>x\<in>set (node_input snode). refused_reference P names x"
  shows "\<exists>v. remove_control_inputs P names snode = Inl (InvalidArgument, snode\<lparr>node_input := v\<rparr>)"
proof -
  obtain failed v' k' where r:
    "remove_control_inputs_loop P names (length (node_input snode)) (node_input snode) 0 0 = (failed, v', k')"
    by (cases "remove_control_inputs_loop P names (length (node_input snode)) (node_input snode) 0 0") auto
  from remove_control_inputs_loop_result[OF _ _ r] assms have "failed" by simp
  then show ?thesis by (auto simp: remove_control_inputs_def r)
qed

lemma remove_control_inputs_accepted:
  assumes "\<not> (\<exists>x\<in>set (node_input snode). refused_reference P names x)"
  shows "remove_control_inputs P names snode =
           Inr (snode\<lparr>node_input := filter (\<lambda>x. \<not> outside_reference P names x) (node_input snode)\<rparr>)"
proof -
  obtain failed v' k' where r:
    "remove_control_inputs_loop P names (length (node_input snode)) (node_input snode) 0 0 = (failed, v', k')"
    by (cases "remove_control_inputs_loop P names (length (node_input snode)) (node_input snode) 0 0") auto
  from remove_control_inputs_loop_result[OF _ _ r] assms
  have "\<not> failed" "take k' v' = filter (\<lambda>x. \<not> outside_reference P names x) (node_input snode)"
    by simp_all
  then show ?thesis by (simp add: remove_control_inputs_def r)
qed

lemma remove_outside_inputs_refused:
  "\<exists>n\<in>set nodes. \<exists>x\<in>set (node_input n). refused_reference P names x \<Longrightarrow>
   \<exists>seg. remove_outside_inputs P names nodes done_v = Fail InvalidArgument seg"
proof (induction nodes arbitrary: done_v)
  case Nil
  then show ?case by simp
next
  case (Cons n nodes)
  show ?case
  proof (cases "\<exists>x\<in>set (node_input n). refused_reference P names x")
    case True
    from remove_control_inputs_refused[OF True] show ?thesis by auto
  next
    case False
    with Cons.prems have "\<exists>n\<in>set nodes. \<exists>x\<in>set (node_input n). refused_reference P names x" by auto
    from Cons.IH[OF this] show ?thesis
      by (simp add: remove_control_inputs_accepted[OF False])
  qed
qed

lemma remove_outside_inputs_accepted:
  "\<not> (\<exists>n\<in>set nodes. \<exists>x\<in>set (node_input n). refused_reference P names x) \<Longrightarrow>
   remove_outside_inputs P names nodes done_v =
     Done () (done_v @ map (\<lambda>n. n\<lparr>node_input := filter (\<lambda>x. \<not> outside_reference P names x) (node_input n)\<rparr>) nodes)"
proof (induction nodes arbitrary: done_v)
  case Nil
  then show ?case by simp
next
  case (Cons n nodes)
  from Cons.prems have a: "\<not> (\<exists>x\<in>set (node_input n). refused_reference P names x)"
    and b: "\<not> (\<exists>n\<in>set nodes. \<exists>x\<in>set (node_input n). refused_reference P names x)" by auto
  show ?case by (simp add: remove_control_inputs_accepted[OF a] Cons.IH[OF b])
qed

lemma StartsWith_input_name: "StartsWith (kInputPHName @ s) kInputPHName"
  by (simp add: StartsWith_def)

lemma not_StartsWith_output_name: "\<not> StartsWith (kOutputPHName @ s) kInputPHName"
  by (simp add: StartsWith_def kInputPHName_def kOutputPHName_def)

lemma add_marker_node_Done:
  assumes "add_marker_node graph gp c (M, seg) = Done c' (M', seg')"
    and "M = node_name ` set seg" and "distinct (map node_name seg)"
    and "\<forall>n\<in>set seg. StartsWith (node_name n) kInputPHName \<longrightarrow> node_op n = ''Placeholder''"
  shows "M' = node_name ` set seg' \<and> distinct (map node_name seg')
         \<and> (\<forall>n\<in>set seg'. StartsWith (node_name n) kInputPHName \<longrightarrow> node_op n = ''Placeholder'')
         \<and> (\<not> is_control_edge c \<and> is_input_edge c \<longrightarrow> kInputPHName @ string_of_int (port_number c) \<in> M')
         \<and> M \<subseteq> M'"
  using assms
  unfolding add_marker_node_def Let_def or_crash_def
  by (auto split: if_splits option.splits sum.splits prod.splits
           simp: placeholder_node_def identity_node_def not_StartsWith_output_name)

lemma add_marker_nodes_Done:
  "add_marker_nodes graph gp conns done_v (M, seg) = Done u (conns1, M', seg') \<Longrightarrow>
   M = node_name ` set seg \<Longrightarrow> distinct (map node_name seg) \<Longrightarrow>
   \<forall>n\<in>set seg. StartsWith (node_name n) kInputPHName \<longrightarrow> node_op n = ''Placeholder'' \<Longrightarrow>
   M' = node_name ` set seg' \<and> distinct (map node_name seg')
   \<and> (\<forall>n\<in>set seg'. StartsWith (node_name n) kInputPHName \<longrightarrow> node_op n = ''Placeholder'')
   \<and> (\<forall>c\<in>set conns. \<not> is_control_edge c \<and> is_input_edge c \<longrightarrow>
          kInputPHName @ string_of_int (port_number c) \<in> M')
   \<and> M \<subseteq> M'"
proof (induction conns arbitrary: done_v M seg)
  case Nil
  then show ?case by auto
next
  case (Cons c conns)
  from Cons.prems(1) obtain c1 M1 seg1 where
    s: "add_marker_node graph gp c (M, seg) = Done c1 (M1, seg1)"
    and r: "add_marker_nodes graph gp conns (done_v @ [c1]) (M1, seg1) = Done u (conns1, M', seg')"
    by (auto split: call.splits)
  from add_marker_node_Done[OF s Cons.prems(2,3,4)]
  have i1: "M1 = node_name ` set seg1" "distinct (map node_name seg1)"
    "\<forall>n\<in>set seg1. StartsWith (node_name n) kInputPHName \<longrightarrow> node_op n = ''Placeholder''"
    and here: "\<not> is_control_edge c \<and> is_input_edge c \<longrightarrow> kInputPHName @ string_of_int (port_number c) \<in> M1"
    and sub: "M \<subseteq> M1"
    by blast+
  from Cons.IH[OF r i1] here sub show ?case by auto
qed

lemma copy_internal_nodes_Inr:
  "copy_internal_nodes graph ids scope m seg = Inr (scope', m', seg') \<Longrightarrow>
   \<exists>nodes. seg' = seg @ nodes
     \<and> (\<forall>n\<in>set nodes. \<exists>node_id\<in>set ids. \<exists>node. graph node_id = Some node \<and> n = node_def_of node)"
proof (induction ids arbitrary: scope m seg)
  case Nil
  then show ?case by simp
next
  case (Cons node_id ids)
  from Cons.prems obtain node where g: "graph node_id = Some node"
    and r: "copy_internal_nodes graph ids (GetCommonNameScope scope (node_name (node_def_of node)))
              (m(node_id \<mapsto> length seg)) (seg @ [node_def_of node]) = Inr (scope', m', seg')"
    by (auto split: option.splits)
  from Cons.IH[OF r] obtain nodes where
    "seg' = (seg @ [node_def_of node]) @ nodes"
    "\<forall>n\<in>set nodes. \<exists>node_id\<in>set ids. \<exists>node. graph node_id = Some node \<and> n = node_def_of node"
    by blast
  with g show ?case
    by (intro exI[of _ "node_def_of node # nodes"]) auto
qed

lemma update_input_Inr:
  "update_input m c seg = Inr seg' \<Longrightarrow>
   map node_name seg' = map node_name seg \<and> map node_op seg' = map node_op seg"
  unfolding update_input_def Let_def
  by (auto split: if_splits simp: map_update list_update_same_conv)

lemma update_inputs_Inr:
  "update_inputs m conns seg = Inr seg' \<Longrightarrow>
   map node_name seg' = map node_name seg \<and> map node_op seg' = map node_op seg"
proof (induction conns arbitrary: seg)
  case Nil
  then show ?case by simp
next
  case (Cons c conns)
  from Cons.prems obtain seg1 where a: "update_input m c seg = Inr seg1"
    and b: "update_inputs m conns seg1 = Inr seg'"
    by (auto split: sum.splits)
  from update_input_Inr[OF a] Cons.IH[OF b] show ?case by simp
qed

lemma placeholders_named_unique:
  "distinct (map node_name seg) \<Longrightarrow> n \<in> set seg \<Longrightarrow> node_op n = ''Placeholder'' \<Longrightarrow>
   placeholders_named (node_name n) seg = [n]"
  unfolding placeholders_named_def
proof (induction seg)
  case Nil
  then show ?case by simp
next
  case (Cons a seg)
  show ?case
  proof (cases "n = a")
    case True
    have "filter (\<lambda>k. node_op k = ''Placeholder'' \<and> node_name k = node_name a) seg = []"
      using Cons.prems(1) by (auto simp: filter_empty_conv) (metis imageI)
    with True Cons.prems(3) show ?thesis by simp
  next
    case False
    with Cons.prems have "n \<in> set seg" "node_name a \<noteq> node_name n" by auto
    with Cons show ?thesis by simp
  qed
qed

lemma placeholders_named_append:
  "placeholders_named x (seg @ nodes) = placeholders_named x seg @ placeholders_named x nodes"
  by (simp add: placeholders_named_def)

lemma placeholders_named_same_names:
  "map node_name seg' = map node_name seg \<Longrightarrow> map node_op seg' = map node_op seg \<Longrightarrow>
   length (placeholders_named x seg') = length (placeholders_named x seg)"
proof (induction seg arbitrary: seg')
  case Nil
  then show ?case by (simp add: placeholders_named_def)
next
  case (Cons a seg)
  from Cons.prems obtain b rest where s: "seg' = b # rest"
    and ab: "node_name b = node_name a" "node_op b = node_op a"
    and r: "map node_name rest = map node_name seg" "map node_op rest = map node_op seg"
    by (cases seg') simp_all
  from Cons.IH[OF r] ab show ?case by (simp add: s placeholders_named_def)
qed

lemma one_placeholder_same_names:
  assumes "map node_name seg' = map node_name seg" "map node_op seg' = map node_op seg"
    and "\<exists>n. placeholders_named x seg = [n]"
  shows "\<exists>n. placeholders_named x seg' = [n]"
proof -
  from placeholders_named_same_names[OF assms(1,2), of x] assms(3)
  have "length (placeholders_named x seg') = 1" by auto
  then show ?thesis by (cases "placeholders_named x seg'") auto
qed

lemma segment_before_cleanup_placeholders:
  assumes b: "segment_before_cleanup graph gp ids conns [] = Done scope (conns1, seg3)"
    and h: "\<forall>node_id\<in>set ids. \<forall>node. graph node_id = Some node \<longrightarrow>
              \<not> (node_op (node_def_of node) = ''Placeholder''
                   \<and> StartsWith (node_name (node_def_of node)) kInputPHName)"
    and c: "c \<in> set conns" "\<not> is_control_edge c" "is_input_edge c"
  shows "\<exists>n. placeholders_named (kInputPHName @ string_of_int (port_number c)) seg3 = [n]"
proof -
  let ?x = "kInputPHName @ string_of_int (port_number c)"
  note defs = segment_before_cleanup_def or_crash_def deref_def
  obtain u conns1' M1 seg1 where
    p1': "add_marker_nodes graph gp conns [] ({}, []) = Done u (conns1', M1, seg1)"
    using b by (cases "add_marker_nodes graph gp conns [] ({}, [])") (auto simp: defs)
  obtain first_id rest where ids: "ids = first_id # rest"
    using b p1' by (cases ids) (auto simp: defs)
  obtain first_node where fn: "graph first_id = Some first_node"
    using b p1' ids by (cases "graph first_id") (auto simp: defs)
  obtain scope2 m2 seg2 where
    p2: "copy_internal_nodes graph ids (node_name (node_def_of first_node)) Map.empty seg1
           = Inr (scope2, m2, seg2)"
    using b p1' fn
    by (cases "copy_internal_nodes graph ids (node_name (node_def_of first_node)) Map.empty seg1")
       (auto simp: defs ids simp del: copy_internal_nodes.simps)
  have b': "or_crash (update_inputs m2 conns1' seg2) (\<lambda>segment_def3. Done scope2 (conns1', segment_def3))
            = (Done scope (conns1, seg3) :: (EngineConnection list \<times> NodeDef list, string) call)"
    using b p1' fn p2 by (simp add: segment_before_cleanup_def ids deref_def or_crash_def[of "Inr _"]
                            del: copy_internal_nodes.simps)
  then obtain p3: "update_inputs m2 conns1' seg2 = Inr seg3" and "conns1' = conns1"
    by (cases "update_inputs m2 conns1' seg2") (auto simp: or_crash_def)
  with p1' have p1: "add_marker_nodes graph gp conns [] ({}, []) = Done u (conns1, M1, seg1)"
    by simp
  have "M1 = node_name ` set seg1 \<and> distinct (map node_name seg1)
    \<and> (\<forall>n\<in>set seg1. StartsWith (node_name n) kInputPHName \<longrightarrow> node_op n = ''Placeholder'')
    \<and> (\<forall>c\<in>set conns. \<not> is_control_edge c \<and> is_input_edge c \<longrightarrow>
          kInputPHName @ string_of_int (port_number c) \<in> M1)
    \<and> {} \<subseteq> M1"
    by (rule add_marker_nodes_Done[OF p1]) simp_all
  then have i1: "M1 = node_name ` set seg1" "distinct (map node_name seg1)"
    "\<forall>n\<in>set seg1. StartsWith (node_name n) kInputPHName \<longrightarrow> node_op n = ''Placeholder''"
    "\<forall>c\<in>set conns. \<not> is_control_edge c \<and> is_input_edge c \<longrightarrow>
          kInputPHName @ string_of_int (port_number c) \<in> M1"
    by blast+
  from i1(1,4) c obtain n where n: "n \<in> set seg1" "node_name n = ?x" by auto
  from i1(3) n have op: "node_op n = ''Placeholder''" by (simp add: StartsWith_input_name)
  from placeholders_named_unique[OF i1(2) n(1) op] n(2) have n1: "placeholders_named ?x seg1 = [n]"
    by simp
  from copy_internal_nodes_Inr[OF p2] obtain nodes where
    s2: "seg2 = seg1 @ nodes"
    and o: "\<forall>n\<in>set nodes. \<exists>node_id\<in>set ids. \<exists>node. graph node_id = Some node \<and> n = node_def_of node"
    by blast
  have "placeholders_named ?x nodes = []"
    unfolding placeholders_named_def filter_empty_conv
  proof
    fix k assume "k \<in> set nodes"
    with o obtain node_id node where "node_id \<in> set ids" "graph node_id = Some node"
      "k = node_def_of node" by blast
    with h have "\<not> (node_op k = ''Placeholder'' \<and> StartsWith (node_name k) kInputPHName)"
      by simp
    then show "\<not> (node_op k = ''Placeholder'' \<and> node_name k = ?x)"
      using StartsWith_input_name by metis
  qed
  with n1 s2 have "\<exists>n. placeholders_named ?x seg2 = [n]" by (simp add: placeholders_named_append)
  with update_inputs_Inr[OF p3[unfolded \<open>conns1' = conns1\<close>]] show ?thesis by (blast intro: one_placeholder_same_names)
qed

lemma ConvertSegmentToGraphDef_after_cleanup:
  assumes "segment_before_cleanup graph gp ids conns seg0 = Done scope (conns1, seg3)"
  shows "ConvertSegmentToGraphDef P graph gp names ids conns seg0 =
           (case remove_outside_inputs P names seg3 [] of
              Crash x \<Rightarrow> Crash x
            | Fail status seg4 \<Rightarrow> Fail status (conns1, seg4)
            | Done u seg4 \<Rightarrow> Done scope (conns1, seg4))"
  by (simp add: ConvertSegmentToGraphDef_def and_then_def assms)

lemma string_of_int_0: "string_of_int 0 = ''0''"
  by code_simp

lemma add_marker_nodes_example:
  "add_marker_nodes segment_example_graph segment_example_properties segment_example_connections [] ({}, [])
     = Done () (segment_example_connections_after,
                {''TensorRTInputPH_0'', ''TensorRTOutputPH_0''},
                [placeholder_node ''TensorRTInputPH_0'' (Some [2, 3]) DT_FLOAT,
                 identity_node ''TensorRTOutputPH_0'' ''s/y'' DT_FLOAT])"
  by (simp add: segment_example_connections_def segment_example_connections_after_def
        add_marker_node_def Let_def segment_example_graph_def segment_example_properties_def
        example_edge_def GetOutputProperties_def GetInputProperties_def vector_at_def or_crash_def
        plain_node_def string_of_int_0 kInputPHName_def kOutputPHName_def insert_commute)

lemma segment_before_cleanup_example:
  "segment_before_cleanup segment_example_graph segment_example_properties [2, 3]
       segment_example_connections []
     = Done ''s/'' (segment_example_connections_after,
                    [placeholder_node ''TensorRTInputPH_0'' (Some [2, 3]) DT_FLOAT,
                     identity_node ''TensorRTOutputPH_0'' ''s/y'' DT_FLOAT,
                     plain_node ''s/x'' ''Relu'' [''TensorRTInputPH_0'', ''^c''],
                     plain_node ''s/y'' ''Add'' [''s/x'', ''TensorRTInputPH_0'']])"
  unfolding segment_before_cleanup_def add_marker_nodes_example
  by (simp add: segment_example_connections_after_def
        Let_def segment_example_graph_def example_edge_def or_crash_def deref_def
        plain_node_def string_of_int_0 kInputPHName_def update_input_def GetCommonNameScope_def)

lemma segment_before_cleanup_example_without_connections:
  "segment_before_cleanup segment_example_graph segment_example_properties [2, 3] [] []
     = Done ''s/'' ([], [plain_node ''s/x'' ''Relu'' [''a'', ''^c''],
                         plain_node ''s/y'' ''Add'' [''s/x'', ''a'']])"
  by (simp add: segment_before_cleanup_def segment_example_graph_def or_crash_def deref_def
        plain_node_def GetCommonNameScope_def)

lemma segment_example_names:
  "\<forall>node_id\<in>set [2, 3]. \<forall>node. segment_example_graph node_id = Some node \<longrightarrow>
      \<not> (node_op (node_def_of node) = ''Placeholder''
           \<and> StartsWith (node_name (node_def_of node)) kInputPHName)"
  by (simp add: segment_example_graph_def plain_node_def StartsWith_def kInputPHName_def)

text \<open>
  C8. Let the first three loops of \<open>ConvertSegmentToGraphDef\<close>, started on an empty
  fragment, succeed, and let no node of the segment be itself a Placeholder with a name
  that begins with the input prefix. If some input of a node of the fragment, as the third loop left it, names a
  node outside the segment that is not an input placeholder, and is not a control input,
  the function fails with InvalidArgument. Otherwise it returns OK; every node keeps,
  unchanged and in order, the inputs that are not outside references (the outside
  control inputs are removed); and for every input connection that is not a control edge
  the produced fragment has exactly one Placeholder node named by the input prefix and
  the port number, however many connections have that port number. Different port
  numbers give different names.
\<close>

theorem ConvertSegmentToGraphDef_placeholders_and_outside_inputs:
  assumes "segment_before_cleanup graph graph_properties subgraph_node_ids connections []
             = Done local_scope (connections1, segment_def3)"
    and "\<forall>node_id\<in>set subgraph_node_ids. \<forall>node. graph node_id = Some node \<longrightarrow>
           \<not> (node_op (node_def_of node) = ''Placeholder''
                \<and> StartsWith (node_name (node_def_of node)) kInputPHName)"
  shows "(if \<exists>snode\<in>set segment_def3. \<exists>input_v\<in>set (node_input snode).
              refused_reference ParseTensorName subgraph_node_names input_v
          then \<exists>segment_def4.
                 ConvertSegmentToGraphDef ParseTensorName graph graph_properties subgraph_node_names
                     subgraph_node_ids connections []
                   = Fail InvalidArgument (connections1, segment_def4)
          else \<exists>segment_def4.
                 ConvertSegmentToGraphDef ParseTensorName graph graph_properties subgraph_node_names
                     subgraph_node_ids connections []
                   = Done local_scope (connections1, segment_def4)
                 \<and> segment_def4 =
                     map (\<lambda>snode. snode\<lparr>node_input :=
                            filter (\<lambda>input_v. \<not> outside_reference ParseTensorName subgraph_node_names input_v)
                              (node_input snode)\<rparr>) segment_def3
                 \<and> (\<forall>c\<in>set connections. \<not> is_control_edge c \<and> is_input_edge c \<longrightarrow>
                        (\<exists>n. placeholders_named (kInputPHName @ string_of_int (port_number c))
                                segment_def4 = [n])))
         \<and> (\<forall>p q. kInputPHName @ string_of_int p = kInputPHName @ string_of_int q \<longrightarrow> p = q)"
proof -
  note r = ConvertSegmentToGraphDef_after_cleanup[OF assms(1), of ParseTensorName subgraph_node_names]
  let ?clean = "\<lambda>snode. snode\<lparr>node_input :=
                  filter (\<lambda>input_v. \<not> outside_reference ParseTensorName subgraph_node_names input_v)
                    (node_input snode)\<rparr>"
  have inj: "\<forall>p q. kInputPHName @ string_of_int p = kInputPHName @ string_of_int q \<longrightarrow> p = q"
    by (auto dest: string_of_int_inj)
  show ?thesis
  proof (cases "\<exists>snode\<in>set segment_def3. \<exists>input_v\<in>set (node_input snode).
                  refused_reference ParseTensorName subgraph_node_names input_v")
    case True
    from remove_outside_inputs_refused[OF True, of "[]"] obtain seg where
      "remove_outside_inputs ParseTensorName subgraph_node_names segment_def3 [] = Fail InvalidArgument seg"
      by blast
    with True inj show ?thesis by (simp add: r)
  next
    case False
    have d: "remove_outside_inputs ParseTensorName subgraph_node_names segment_def3 []
               = Done () (map ?clean segment_def3)"
      using remove_outside_inputs_accepted[OF False, of "[]"] by simp
    have names: "map node_name (map ?clean segment_def3) = map node_name segment_def3"
      "map node_op (map ?clean segment_def3) = map node_op segment_def3"
      by simp_all
    have "\<exists>n. placeholders_named (kInputPHName @ string_of_int (port_number c))
                (map ?clean segment_def3) = [n]"
      if "c \<in> set connections" "\<not> is_control_edge c" "is_input_edge c" for c
      using names segment_before_cleanup_placeholders[OF assms that]
      by (rule one_placeholder_same_names)
    with False inj show ?thesis by (simp add: r d)
  qed
qed

theorem ConvertSegmentToGraphDef_placeholders_and_outside_inputs_witness:
  "ConvertSegmentToGraphDef example_ParseTensorName segment_example_graph segment_example_properties
       {''s/x'', ''s/y''} [2, 3] segment_example_connections []
     = Done ''s/'' (segment_example_connections_after, segment_example_fragment)
   \<and> (\<exists>n. placeholders_named ''TensorRTInputPH_0'' segment_example_fragment = [n])
   \<and> (\<exists>segment_def4.
         ConvertSegmentToGraphDef example_ParseTensorName segment_example_graph segment_example_properties
             {''s/x'', ''s/y''} [2, 3] [] []
           = Fail InvalidArgument ([], segment_def4))"
proof -
  note ev = refused_reference_def outside_reference_def example_ParseTensorName_def StartsWith_def
    kInputPHName_def kControlSlot_def plain_node_def placeholder_node_def identity_node_def
  have a: "\<not> (\<exists>snode\<in>set [placeholder_node ''TensorRTInputPH_0'' (Some [2, 3]) DT_FLOAT,
                     identity_node ''TensorRTOutputPH_0'' ''s/y'' DT_FLOAT,
                     plain_node ''s/x'' ''Relu'' [''TensorRTInputPH_0'', ''^c''],
                     plain_node ''s/y'' ''Add'' [''s/x'', ''TensorRTInputPH_0'']].
               \<exists>input_v\<in>set (node_input snode).
                  refused_reference example_ParseTensorName {''s/x'', ''s/y''} input_v)"
    by (simp add: ev)
  have b: "\<exists>snode\<in>set [plain_node ''s/x'' ''Relu'' [''a'', ''^c''],
                        plain_node ''s/y'' ''Add'' [''s/x'', ''a'']].
             \<exists>input_v\<in>set (node_input snode).
                refused_reference example_ParseTensorName {''s/x'', ''s/y''} input_v"
    by (simp add: ev)
  have c: "map (\<lambda>snode. snode\<lparr>node_input :=
                  filter (\<lambda>input_v. \<not> outside_reference example_ParseTensorName {''s/x'', ''s/y''} input_v)
                    (node_input snode)\<rparr>)
             [placeholder_node ''TensorRTInputPH_0'' (Some [2, 3]) DT_FLOAT,
              identity_node ''TensorRTOutputPH_0'' ''s/y'' DT_FLOAT,
              plain_node ''s/x'' ''Relu'' [''TensorRTInputPH_0'', ''^c''],
              plain_node ''s/y'' ''Add'' [''s/x'', ''TensorRTInputPH_0'']]
           = segment_example_fragment"
    by (simp add: ev segment_example_fragment_def)
  have d: "example_edge ''a'' 1 0 ''s/x'' 2 0 True False 0 \<in> set segment_example_connections"
    "\<not> is_control_edge (example_edge ''a'' 1 0 ''s/x'' 2 0 True False 0)
     \<and> is_input_edge (example_edge ''a'' 1 0 ''s/x'' 2 0 True False 0)"
    "kInputPHName @ string_of_int (port_number (example_edge ''a'' 1 0 ''s/x'' 2 0 True False 0))
       = ''TensorRTInputPH_0''"
    by (simp_all add: segment_example_connections_def example_edge_def string_of_int_0 kInputPHName_def)
  from ConvertSegmentToGraphDef_placeholders_and_outside_inputs
         [OF segment_before_cleanup_example segment_example_names,
          of example_ParseTensorName "{''s/x'', ''s/y''}"]
  have 1: "ConvertSegmentToGraphDef example_ParseTensorName segment_example_graph segment_example_properties
             {''s/x'', ''s/y''} [2, 3] segment_example_connections []
           = Done ''s/'' (segment_example_connections_after, segment_example_fragment)"
    and 2: "\<forall>c\<in>set segment_example_connections. \<not> is_control_edge c \<and> is_input_edge c \<longrightarrow>
              (\<exists>n. placeholders_named (kInputPHName @ string_of_int (port_number c))
                      segment_example_fragment = [n])"
    unfolding if_not_P[OF a] c by blast+
  from 2 d have 3: "\<exists>n. placeholders_named ''TensorRTInputPH_0'' segment_example_fragment = [n]"
    by metis
  from ConvertSegmentToGraphDef_placeholders_and_outside_inputs
         [OF segment_before_cleanup_example_without_connections segment_example_names,
          of example_ParseTensorName "{''s/x'', ''s/y''}"]
  have 4: "\<exists>segment_def4.
         ConvertSegmentToGraphDef example_ParseTensorName segment_example_graph segment_example_properties
             {''s/x'', ''s/y''} [2, 3] [] []
           = Fail InvalidArgument ([], segment_def4)"
    unfolding if_P[OF b] by blast
  from 1 3 4 show ?thesis by blast
qed

end
